theory Spec2Isabelle
  imports Main
begin

section \<open>Values, errors and the collaborators' call log\<close>

text \<open>
  The synchronisation engine of the bridge (puppetbridge.ts, roomsyncroniser.ts,
  usersyncroniser.ts) talks to three kinds of collaborators: the Matrix transport
  (clients and intents of the bot SDK), the persistence stores, and optional hooks.
  Every awaited call is one \<open>event\<close>; the model appends it to the \<open>calls\<close> log of the
  world before the collaborator answers, so the log is the sequence of calls that reached
  a collaborator. \<open>log.warn\<close> and \<open>log.error\<close> lines are events too; the tracing levels
  (silly, verbose, info) are not modelled.
\<close>

type_synonym buffer = "char list"

text \<open>A rejected promise: an error of the transport carries \<open>body.errcode\<close>, any other
  error (a \<open>TypeError\<close>, a database error) has no body.\<close>

datatype error = MatrixError string | JsError string

text \<open>\<open>string | Buffer\<close>, the argument of \<open>uploadContent\<close>.\<close>

datatype thing = Locator string | Bytes buffer

text \<open>A \<open>MatrixClient\<close>: the bot's, the one under the intent of a namespaced user, or one
  built from a puppet's token (\<open>new MatrixClient(token.hsUrl, token.token)\<close>).\<close>

datatype client = BotClient | IntentClient string | TokenClient string string

record ITokenResponse =
  hsUrl :: string
  token :: string

record IPuppet =
  puppetUserId :: "string option"
  puppetMxid :: string

text \<open>\<open>IRemoteProfile\<close> and its extensions (interfaces.ts is not among the sources; the
  fields are the ones the code reads and the data model of the specification lists).\<close>

record IRemoteProfile =
  name :: "string option"
  avatarUrl :: "string option"

record IRemoteRoom = IRemoteProfile +
  puppetId :: nat
  roomId :: string
  isDirect :: "bool option"
  topic :: "string option"
  groupId :: "string option"

record IRemoteUser = IRemoteProfile +
  puppetId_u :: nat
  userId :: string
  roomOverrides :: "(string \<times> IRemoteProfile) list option"

text \<open>\<open>IProfileDbEntry\<close> and the store entries that extend it.\<close>

record IProfileDbEntry =
  db_name :: "string option"
  db_avatarUrl :: "string option"
  db_avatarMxc :: "string option"
  db_avatarHash :: "string option"

record IRoomStoreEntry = IProfileDbEntry +
  mxid :: string
  r_roomId :: string
  r_puppetId :: nat
  r_topic :: "string option"
  r_groupId :: "string option"

record IUserStoreEntry = IProfileDbEntry +
  u_puppetId :: nat
  u_userId :: string

record IUserStoreRoomOverrideEntry = IProfileDbEntry +
  o_puppetId :: nat
  o_userId :: string
  o_roomId :: string

text \<open>What \<open>Util.ProcessProfileUpdate\<close> returns: an object holding only the changed
  fields; \<open>Some\<close> stands for \<open>hasOwnProperty\<close>.\<close>

record profile_update =
  upd_name :: "string option"
  upd_avatarUrl :: "string option"
  upd_avatarMxc :: "string option"
  upd_avatarHash :: "string option"

text \<open>The content of the state events the engine reads and writes.\<close>

datatype content =
    EmptyContent
  | NameContent "string option"
  | UrlContent "string option"
  | TopicContent string
  | PowerLevels "string \<Rightarrow> int option"
  | AliasesContent "string list"
  | MemberContent "string option" "string option"

datatype state_event = StateEvent string content

text \<open>The parameters of \<open>client.createRoom\<close> that vary; visibility "private", preset
  "private_chat" and the power level override (notifications.room = 0,
  events["im.vector.user_status"] = 0) are constant.\<close>

record createParams =
  is_direct :: "bool option"
  invite :: "string list option"
  initial_state :: "state_event list"
  room_alias_name :: "string option"
  cp_name :: "string option"

datatype event =
    Client_createRoom client createParams
  | Client_sendStateEvent client string string string content
  | Client_getRoomStateEvent client string string string
  | Client_deleteRoomAlias client string
  | Client_getUserId client
  | Client_uploadContent client buffer "string option" string
  | Client_setDisplayName client string
  | Client_setAvatarUrl client string
  | Intent_ensureRegistered string
  | Intent_leaveRoom string string
  | BotIntent_getJoinedRooms
  | BotIntent_leaveRoom string
  | Util_DownloadFile string
  | Hook_createRoom IRemoteRoom
  | Hook_createUser IRemoteUser
  | GroupSync_removeRoomFromGroup string nat string
  | GroupSync_addRoomToGroup string nat string
  | Provisioner_get nat
  | Provisioner_getToken "nat + string"
  | Store_getFileMxc string
  | Store_setFileMxc string string string
  | RoomStore_getByRemote nat string
  | RoomStore_getByMxid string
  | RoomStore_getByPuppetId nat
  | RoomStore_set IRoomStoreEntry
  | RoomStore_delete IRoomStoreEntry
  | RoomStore_getRoomOp string
  | RoomStore_setRoomOp string string
  | UserStore_get nat string
  | UserStore_set IUserStoreEntry
  | UserStore_delete nat string
  | UserStore_getRoomOverride nat string string
  | UserStore_setRoomOverride IUserStoreRoomOverrideEntry
  | UserStore_getAllRoomOverrides nat string
  | PuppetStore_getGhostsInRoom string
  | PuppetStore_leaveGhostFromRoom string string
  | PuppetStore_emptyGhostsInRoom string
  | Log_warn string
  | Log_error string

text \<open>
  The world: the log of calls, the contents of the persistence stores and the holders of
  the three keyed locks (\<open>mxcLookupLock\<close> of the bridge, \<open>mxidLock\<close> of the room
  synchroniser, \<open>clientLock\<close> of the user synchroniser).

  Modelled from the spec: the stores (db/roomstore.ts, db/userstore.ts, db/puppetstore.ts,
  store.ts) are not among the sources; the specification describes them as simple keyed
  storage with get/set/delete/list by (puppetId, remoteId) or by target id, plus "list all
  for puppet". The room operator is kept by \<open>setRoomOp\<close>/\<open>getRoomOp\<close> under the room's id.
\<close>

record world =
  calls :: "event list"
  file_mxc :: "string \<Rightarrow> string option"
  room_store :: "IRoomStoreEntry list"
  chan_op :: "string \<Rightarrow> string option"
  user_store :: "IUserStoreEntry list"
  override_store :: "IUserStoreRoomOverrideEntry list"
  ghosts_in_room :: "string \<Rightarrow> string list"
  mxcLookupLock :: "string set"
  mxidLock :: "string set"
  clientLock :: "string set"

text \<open>An asynchronous function of the source: it runs from a world to a result (a
  rejection is \<open>Inl\<close>) and the world it leaves.\<close>

type_synonym 'a io = "world \<Rightarrow> (error + 'a) \<times> world"

definition ret :: "'a \<Rightarrow> 'a io" where
  "ret x = (\<lambda>w. (Inr x, w))"

definition throw :: "error \<Rightarrow> 'a io" where
  "throw e = (\<lambda>w. (Inl e, w))"

definition bnd :: "'a io \<Rightarrow> ('a \<Rightarrow> 'b io) \<Rightarrow> 'b io" where
  "bnd m f = (\<lambda>w. case m w of (Inl e, w') \<Rightarrow> (Inl e, w') | (Inr x, w') \<Rightarrow> f x w')"

definition try_catch :: "'a io \<Rightarrow> (error \<Rightarrow> 'a io) \<Rightarrow> 'a io" where
  "try_catch m h = (\<lambda>w. case m w of (Inl e, w') \<Rightarrow> h e w' | (Inr x, w') \<Rightarrow> (Inr x, w'))"

definition modify :: "(world \<Rightarrow> world) \<Rightarrow> unit io" where
  "modify f = (\<lambda>w. (Inr (), f w))"

definition logg :: "event \<Rightarrow> unit io" where
  "logg e = modify (\<lambda>w. w\<lparr>calls := calls w @ [e]\<rparr>)"

text \<open>
  The behaviour of everything outside the sources, as parameters of the model. \<open>fails\<close>
  decides, from the calls made so far and the call at hand, whether the collaborator
  rejects it and with which error; the \<open>_ret\<close> fields give what a successful call
  returns. \<open>ProcessProfileUpdate\<close> is the reconciler of \<open>Util\<close>, which is not among the
  sources: it receives the stored profile, the observed one, the name pattern and the
  upload callback the caller builds, and returns the changed fields. The remaining fields
  are the pure helpers of \<open>Util\<close> and of the appservice (namespace prefix handling,
  escaping, hashing, mime sniffing), the provisioner's table of puppets and tokens, the
  two hooks and the configured name patterns.
\<close>

record env =
  fails :: "event list \<Rightarrow> event \<Rightarrow> error option"
  createRoom_ret :: "event list \<Rightarrow> client \<Rightarrow> createParams \<Rightarrow> string"
  getRoomStateEvent_ret :: "event list \<Rightarrow> string \<Rightarrow> string \<Rightarrow> string \<Rightarrow> content"
  whoami_ret :: "string \<Rightarrow> string \<Rightarrow> string"
  uploadContent_ret :: "event list \<Rightarrow> buffer \<Rightarrow> string"
  getJoinedRooms_ret :: "event list \<Rightarrow> string list"
  DownloadFile_ret :: "event list \<Rightarrow> string \<Rightarrow> buffer"
  ProcessProfileUpdate :: "IProfileDbEntry option \<Rightarrow> IRemoteProfile \<Rightarrow> string
      \<Rightarrow> (buffer \<Rightarrow> string option \<Rightarrow> string option \<Rightarrow> string io) \<Rightarrow> profile_update io"
  hooks_createRoom :: "(event list \<Rightarrow> IRemoteRoom \<Rightarrow> IRemoteRoom option) option"
  hooks_createUser :: "(event list \<Rightarrow> IRemoteUser \<Rightarrow> IRemoteUser option) option"
  provisioner_puppets :: "nat \<Rightarrow> IPuppet option"
  provisioner_tokens :: "nat + string \<Rightarrow> ITokenResponse option"
  HashBuffer :: "buffer \<Rightarrow> string"
  GetMimeType :: "buffer \<Rightarrow> string option"
  str2mxid :: "string \<Rightarrow> string"
  mxid2str :: "string \<Rightarrow> string"
  botUserId :: string
  isNamespacedUser :: "string \<Rightarrow> bool"
  getUserIdForSuffix :: "string \<Rightarrow> string"
  getSuffixForUserId :: "string \<Rightarrow> string option"
  getSuffixForAlias :: "string \<Rightarrow> string option"
  getAliasLocalpartForSuffix :: "string \<Rightarrow> string"
  namePatterns_room :: string
  namePatterns_user :: string
  namePatterns_userOverride :: string
  config_domain :: string
  groupSyncEnabled :: bool

text \<open>One awaited call: it is logged, then the collaborator rejects it or answers.\<close>

definition callr :: "env \<Rightarrow> event \<Rightarrow> (event list \<Rightarrow> world \<Rightarrow> 'a) \<Rightarrow> 'a io" where
  "callr E ev f = (\<lambda>w.
     let h = calls w; w' = w\<lparr>calls := h @ [ev]\<rparr>
     in case fails E h ev of Some e \<Rightarrow> (Inl e, w') | None \<Rightarrow> (Inr (f h w), w'))"

definition call :: "env \<Rightarrow> event \<Rightarrow> unit io" where
  "call E ev = callr E ev (\<lambda>h w. ())"

text \<open>JavaScript truthiness of a \<open>string | null | undefined\<close>: the empty string is falsy.\<close>

definition truthy :: "string option \<Rightarrow> bool" where
  "truthy s = (case s of None \<Rightarrow> False | Some x \<Rightarrow> x \<noteq> [])"

definition or_else :: "string option \<Rightarrow> string option \<Rightarrow> string option" where
  "or_else a b = (if truthy a then a else b)"

section \<open>The keyed lock\<close>

text \<open>
  Modelled from the spec: structures/lock.ts is not among the sources. The specification
  says: "\<open>set(key)\<close> registers the caller as holder; \<open>release(key)\<close> clears it and wakes
  waiters"; "\<open>wait(key)\<close> suspends the caller [...] until no holder is registered for
  \<open>key\<close> or a bounded timeout elapses". A lock is the set of keys that have a holder.
  In a run of one call nothing else can release a key, so \<open>wait\<close> on a held key ends by
  the timeout, which lets the waiter through and leaves the registration as it is.
\<close>

definition Lock_set :: "string \<Rightarrow> string set \<Rightarrow> string set" where
  "Lock_set k L = insert k L"

definition Lock_release :: "string \<Rightarrow> string set \<Rightarrow> string set" where
  "Lock_release k L = L - {k}"

definition Lock_wait :: "string \<Rightarrow> string set \<Rightarrow> string set" where
  "Lock_wait k L = L"

section \<open>The content-addressed upload cache: \<open>PuppetBridge.uploadContent\<close>\<close>

text \<open>Modelled from the spec: \<open>store.getFileMxc\<close> and \<open>store.setFileMxc\<close> (store.ts is not
  among the sources) look the fingerprint up and persist the uploaded reference under
  it; for a buffer the fingerprint is its content digest.\<close>

definition store_getFileMxc :: "env \<Rightarrow> string \<Rightarrow> string option io" where
  "store_getFileMxc E k = callr E (Store_getFileMxc k) (\<lambda>h w. file_mxc w k)"

definition store_setFileMxc :: "env \<Rightarrow> string \<Rightarrow> string \<Rightarrow> string \<Rightarrow> unit io" where
  "store_setFileMxc E k mxcUrl filename =
     bnd (call E (Store_setFileMxc k mxcUrl filename))
       (\<lambda>_. modify (\<lambda>w. w\<lparr>file_mxc := (file_mxc w)(k \<mapsto> mxcUrl)\<rparr>))"

text \<open>\<open>thing.match(/\\/([^\\.\\/]+\\.[a-zA-Z0-9]+)(?:$|\\?)/)\<close>: the leftmost slash that is followed by
  a run of characters other than dot and slash, a dot, a run of alphanumerics and then
  the end of the string or a question mark. Both runs are greedy, and no shorter run can
  match (the character after a shorter run belongs to the run), so the longest runs
  decide.\<close>

definition alnum :: "char \<Rightarrow> bool" where
  "alnum c = (c \<in> set ''abcdefghijklmnopqrstuvwxyzABCDEFGHIJKLMNOPQRSTUVWXYZ0123456789'')"

definition match_filename_at :: "string \<Rightarrow> string option" where
  "match_filename_at cs =
     (let a = takeWhile (\<lambda>c. c \<noteq> CHR ''.'' \<and> c \<noteq> CHR ''/'') cs;
          r = dropWhile (\<lambda>c. c \<noteq> CHR ''.'' \<and> c \<noteq> CHR ''/'') cs
      in if a = [] then None
         else (case r of
                 [] \<Rightarrow> None
               | d # r' \<Rightarrow>
                   if d \<noteq> CHR ''.'' then None
                   else (let b = takeWhile alnum r'; t = dropWhile alnum r'
                         in if b = [] then None
                            else (case t of
                                    [] \<Rightarrow> Some (a @ ''.'' @ b)
                                  | q # _ \<Rightarrow> if q = CHR ''?'' then Some (a @ ''.'' @ b) else None))))"

fun match_filename :: "string \<Rightarrow> string option" where
  "match_filename [] = None"
| "match_filename (c # cs) =
     (if c = CHR ''/'' then (case match_filename_at cs of
                              Some f \<Rightarrow> Some f
                            | None \<Rightarrow> match_filename cs)
      else match_filename cs)"

text \<open>The \<open>catch\<close> block of \<open>uploadContent\<close>: log, release every lock pushed so far,
  rethrow.\<close>

definition release_locks :: "string list \<Rightarrow> world \<Rightarrow> world" where
  "release_locks locks w = w\<lparr>mxcLookupLock := foldl (\<lambda>L k. Lock_release k L) (mxcLookupLock w) locks\<rparr>"

definition upload_catch :: "string list \<Rightarrow> error \<Rightarrow> 'a io" where
  "upload_catch locks err =
     bnd (logg (Log_error ''Failed to upload media''))
       (\<lambda>_. bnd (modify (release_locks locks)) (\<lambda>_. throw err))"

definition mxc_wait_set :: "string \<Rightarrow> unit io" where
  "mxc_wait_set k = modify (\<lambda>w. w\<lparr>mxcLookupLock := Lock_set k (Lock_wait k (mxcLookupLock w))\<rparr>)"

text \<open>Lines 684 to 709: the part of \<open>uploadContent\<close> that runs once \<open>buffer\<close> is known.
  \<open>locks\<close> is the array as it stands on entry. Every awaited call of the \<open>try\<close> block is
  wrapped in the handler with the locks pushed at that point.\<close>

definition upload_buffer ::
  "env \<Rightarrow> client \<Rightarrow> thing \<Rightarrow> buffer \<Rightarrow> string option \<Rightarrow> string option \<Rightarrow> string list \<Rightarrow> string io"
where
  "upload_buffer E client thing buffer mimetype filename locks0 =
     (let hash = HashBuffer E buffer; locks = locks0 @ [hash] in
      bnd (mxc_wait_set hash) (\<lambda>_.
      bnd (try_catch (store_getFileMxc E hash) (upload_catch locks)) (\<lambda>maybeMxcUrl.
        case (if truthy maybeMxcUrl then maybeMxcUrl else None) of
          Some url \<Rightarrow> ret url
        | None \<Rightarrow>
           (let filename' = (case (if truthy filename then filename else None) of
                               Some f \<Rightarrow> f | None \<Rightarrow> ''file'');
                mimetype' = (if truthy mimetype then mimetype else GetMimeType E buffer)
            in
            bnd (try_catch
                   (callr E (Client_uploadContent client buffer mimetype' filename')
                      (\<lambda>h w. uploadContent_ret E h buffer))
                   (upload_catch locks)) (\<lambda>mxcUrl.
            bnd (try_catch
                   (case thing of
                      Locator s \<Rightarrow> store_setFileMxc E s mxcUrl filename'
                    | Bytes b \<Rightarrow> ret ())
                   (upload_catch locks)) (\<lambda>_.
            bnd (try_catch (store_setFileMxc E hash mxcUrl filename') (upload_catch locks)) (\<lambda>_.
            bnd (modify (release_locks locks)) (\<lambda>_.
            ret mxcUrl))))))))"

definition uploadContent ::
  "env \<Rightarrow> client option \<Rightarrow> thing \<Rightarrow> string option \<Rightarrow> string option \<Rightarrow> string io"
where
  "uploadContent E client0 thing mimetype filename =
     (let client = (case client0 of None \<Rightarrow> BotClient | Some c \<Rightarrow> c) in
      case thing of
        Locator s \<Rightarrow>
          bnd (mxc_wait_set s) (\<lambda>_.
          bnd (try_catch (store_getFileMxc E s) (upload_catch [s])) (\<lambda>maybeMxcUrl.
            case (if truthy maybeMxcUrl then maybeMxcUrl else None) of
              Some url \<Rightarrow> ret url
            | None \<Rightarrow>
               (let filename' = (if truthy filename then filename
                                 else (case match_filename s of
                                         Some f \<Rightarrow> Some f | None \<Rightarrow> filename))
                in
                bnd (try_catch
                       (callr E (Util_DownloadFile s) (\<lambda>h w. DownloadFile_ret E h s))
                       (upload_catch [s])) (\<lambda>buffer.
                upload_buffer E client thing buffer mimetype filename' [s]))))
      | Bytes b \<Rightarrow> upload_buffer E client thing b mimetype filename [])"

section \<open>Persistence and provisioner collaborators\<close>

text \<open>Modelled from the spec: the stores are not among the sources (see \<open>world\<close>). A
  room mapping is found by (puppetId, roomId) or by the room's id; \<open>set\<close> replaces the
  mapping of the entry's room id; \<open>delete\<close> removes it, and the operator kept for the
  room with it (the source: "delete from DB (also OP store)").\<close>

definition roomStore_getByRemote :: "env \<Rightarrow> nat \<Rightarrow> string \<Rightarrow> IRoomStoreEntry option io" where
  "roomStore_getByRemote E p r =
     callr E (RoomStore_getByRemote p r)
       (\<lambda>h w. find (\<lambda>e. r_puppetId e = p \<and> r_roomId e = r) (room_store w))"

definition roomStore_getByMxid :: "env \<Rightarrow> string \<Rightarrow> IRoomStoreEntry option io" where
  "roomStore_getByMxid E m =
     callr E (RoomStore_getByMxid m) (\<lambda>h w. find (\<lambda>e. mxid e = m) (room_store w))"

definition roomStore_getByPuppetId :: "env \<Rightarrow> nat \<Rightarrow> IRoomStoreEntry list io" where
  "roomStore_getByPuppetId E p =
     callr E (RoomStore_getByPuppetId p) (\<lambda>h w. filter (\<lambda>e. r_puppetId e = p) (room_store w))"

definition roomStore_set :: "env \<Rightarrow> IRoomStoreEntry \<Rightarrow> unit io" where
  "roomStore_set E entry =
     bnd (call E (RoomStore_set entry))
       (\<lambda>_. modify (\<lambda>w. w\<lparr>room_store := filter (\<lambda>e. mxid e \<noteq> mxid entry) (room_store w) @ [entry]\<rparr>))"

definition roomStore_delete :: "env \<Rightarrow> IRoomStoreEntry \<Rightarrow> unit io" where
  "roomStore_delete E entry =
     bnd (call E (RoomStore_delete entry))
       (\<lambda>_. modify (\<lambda>w. w\<lparr>room_store := filter (\<lambda>e. mxid e \<noteq> mxid entry) (room_store w),
                           chan_op := (chan_op w)(mxid entry := None)\<rparr>))"

definition roomStore_newData :: "string \<Rightarrow> string \<Rightarrow> nat \<Rightarrow> IRoomStoreEntry" where
  "roomStore_newData m r p =
     \<lparr>db_name = None, db_avatarUrl = None, db_avatarMxc = None, db_avatarHash = None,
      mxid = m, r_roomId = r, r_puppetId = p, r_topic = None, r_groupId = None\<rparr>"

definition roomStore_getRoomOp :: "env \<Rightarrow> string \<Rightarrow> string option io" where
  "roomStore_getRoomOp E room = callr E (RoomStore_getRoomOp room) (\<lambda>h w. chan_op w room)"

definition roomStore_setRoomOp :: "env \<Rightarrow> string \<Rightarrow> string \<Rightarrow> unit io" where
  "roomStore_setRoomOp E room op =
     bnd (call E (RoomStore_setRoomOp room op))
       (\<lambda>_. modify (\<lambda>w. w\<lparr>chan_op := (chan_op w)(room \<mapsto> op)\<rparr>))"

definition userStore_get :: "env \<Rightarrow> nat \<Rightarrow> string \<Rightarrow> IUserStoreEntry option io" where
  "userStore_get E p u =
     callr E (UserStore_get p u)
       (\<lambda>h w. find (\<lambda>e. u_puppetId e = p \<and> u_userId e = u) (user_store w))"

definition userStore_newData :: "nat \<Rightarrow> string \<Rightarrow> IUserStoreEntry" where
  "userStore_newData p u =
     \<lparr>db_name = None, db_avatarUrl = None, db_avatarMxc = None, db_avatarHash = None,
      u_puppetId = p, u_userId = u\<rparr>"

definition userStore_set :: "env \<Rightarrow> IUserStoreEntry \<Rightarrow> unit io" where
  "userStore_set E entry =
     bnd (call E (UserStore_set entry))
       (\<lambda>_. modify (\<lambda>w. w\<lparr>user_store :=
            filter (\<lambda>e. \<not> (u_puppetId e = u_puppetId entry \<and> u_userId e = u_userId entry))
              (user_store w) @ [entry]\<rparr>))"

text \<open>Deleting a user deletes its room overrides ("a room override never outlives its
  parent room or user").\<close>

definition userStore_delete :: "env \<Rightarrow> nat \<Rightarrow> string \<Rightarrow> unit io" where
  "userStore_delete E p u =
     bnd (call E (UserStore_delete p u))
       (\<lambda>_. modify (\<lambda>w. w\<lparr>user_store :=
                             filter (\<lambda>e. \<not> (u_puppetId e = p \<and> u_userId e = u)) (user_store w),
                           override_store :=
                             filter (\<lambda>e. \<not> (o_puppetId e = p \<and> o_userId e = u)) (override_store w)\<rparr>))"

definition userStore_getRoomOverride ::
  "env \<Rightarrow> nat \<Rightarrow> string \<Rightarrow> string \<Rightarrow> IUserStoreRoomOverrideEntry option io" where
  "userStore_getRoomOverride E p u r =
     callr E (UserStore_getRoomOverride p u r)
       (\<lambda>h w. find (\<lambda>e. o_puppetId e = p \<and> o_userId e = u \<and> o_roomId e = r) (override_store w))"

definition userStore_newRoomOverrideData :: "nat \<Rightarrow> string \<Rightarrow> string \<Rightarrow> IUserStoreRoomOverrideEntry" where
  "userStore_newRoomOverrideData p u r =
     \<lparr>db_name = None, db_avatarUrl = None, db_avatarMxc = None, db_avatarHash = None,
      o_puppetId = p, o_userId = u, o_roomId = r\<rparr>"

definition userStore_setRoomOverride :: "env \<Rightarrow> IUserStoreRoomOverrideEntry \<Rightarrow> unit io" where
  "userStore_setRoomOverride E entry =
     bnd (call E (UserStore_setRoomOverride entry))
       (\<lambda>_. modify (\<lambda>w. w\<lparr>override_store :=
            filter (\<lambda>e. \<not> (o_puppetId e = o_puppetId entry \<and> o_userId e = o_userId entry
                             \<and> o_roomId e = o_roomId entry)) (override_store w) @ [entry]\<rparr>))"

definition userStore_getAllRoomOverrides ::
  "env \<Rightarrow> nat \<Rightarrow> string \<Rightarrow> IUserStoreRoomOverrideEntry list io" where
  "userStore_getAllRoomOverrides E p u =
     callr E (UserStore_getAllRoomOverrides p u)
       (\<lambda>h w. filter (\<lambda>e. o_puppetId e = p \<and> o_userId e = u) (override_store w))"

definition puppetStore_getGhostsInRoom :: "env \<Rightarrow> string \<Rightarrow> string list io" where
  "puppetStore_getGhostsInRoom E room =
     callr E (PuppetStore_getGhostsInRoom room) (\<lambda>h w. ghosts_in_room w room)"

definition puppetStore_leaveGhostFromRoom :: "env \<Rightarrow> string \<Rightarrow> string \<Rightarrow> unit io" where
  "puppetStore_leaveGhostFromRoom E user room =
     bnd (call E (PuppetStore_leaveGhostFromRoom user room))
       (\<lambda>_. modify (\<lambda>w. w\<lparr>ghosts_in_room :=
            (ghosts_in_room w)(room := removeAll user (ghosts_in_room w room))\<rparr>))"

definition puppetStore_emptyGhostsInRoom :: "env \<Rightarrow> string \<Rightarrow> unit io" where
  "puppetStore_emptyGhostsInRoom E room =
     bnd (call E (PuppetStore_emptyGhostsInRoom room))
       (\<lambda>_. modify (\<lambda>w. w\<lparr>ghosts_in_room := (ghosts_in_room w)(room := [])\<rparr>))"

text \<open>The provisioner (provisioner.ts is not among the sources): the puppet of an id, and
  the token of a puppet id or of a Matrix user id.\<close>

definition provisioner_get :: "env \<Rightarrow> nat \<Rightarrow> IPuppet option io" where
  "provisioner_get E p = callr E (Provisioner_get p) (\<lambda>h w. provisioner_puppets E p)"

definition provisioner_getToken :: "env \<Rightarrow> nat + string \<Rightarrow> ITokenResponse option io" where
  "provisioner_getToken E k = callr E (Provisioner_getToken k) (\<lambda>h w. provisioner_tokens E k)"

definition client_getUserId :: "env \<Rightarrow> client \<Rightarrow> string io" where
  "client_getUserId E c =
     callr E (Client_getUserId c)
       (\<lambda>h w. case c of
                 BotClient \<Rightarrow> botUserId E
               | IntentClient u \<Rightarrow> u
               | TokenClient hs t \<Rightarrow> whoami_ret E hs t)"

section \<open>Strings the code builds and parses\<close>

text \<open>A template literal prints a number in decimal.\<close>

function String_nat :: "nat \<Rightarrow> string" where
  "String_nat n =
     (if n < 10 then [''0123456789'' ! n]
      else String_nat (n div 10) @ [''0123456789'' ! (n mod 10)])"
  by pat_completeness auto
termination
  by (relation "measure id") auto

declare String_nat.simps [simp del]

text \<open>\<open>suffix.match(/^(\\d+)_(.*)/)\<close>: a non-empty run of decimal digits (greedy; a
  shorter run is followed by a digit, never by the underscore), an underscore, and the
  rest up to the first line terminator (\<open>.\<close> matches no line feed and no carriage
  return; the separators U+2028 and U+2029 lie outside the 8-bit \<open>char\<close>). The result is
  the pair of the two groups.\<close>

definition is_digit :: "char \<Rightarrow> bool" where
  "is_digit c = (c \<in> set ''0123456789'')"

definition match_suffix :: "string \<Rightarrow> (string \<times> string) option" where
  "match_suffix s =
     (let ds = takeWhile is_digit s; r = dropWhile is_digit s
      in if ds = [] then None
         else (case r of
                 [] \<Rightarrow> None
               | u # rest \<Rightarrow>
                   if u = CHR ''_''
                   then Some (ds, takeWhile (\<lambda>c. c \<noteq> CHR 0x0A \<and> c \<noteq> CHR 0x0D) rest)
                   else None))"

text \<open>\<open>Number(digits)\<close> on a string of decimal digits: its value (a double holds it
  exactly below \<open>2 ^ 53\<close>; the model is exact on every digit string). It is never
  \<open>NaN\<close>, so the \<open>isNaN\<close> test after the match never fires.\<close>

definition digit_value :: "char \<Rightarrow> nat" where
  "digit_value c = of_char c - 48"

definition Number_digits :: "string \<Rightarrow> nat" where
  "Number_digits ds = foldl (\<lambda>a c. 10 * a + digit_value c) 0 ds"

section \<open>The user synchroniser: clients and inverse lookup\<close>

definition getClientFromTokenCallback :: "env \<Rightarrow> ITokenResponse option \<Rightarrow> client option io" where
  "getClientFromTokenCallback E tok =
     (case tok of
        None \<Rightarrow> ret None
      | Some t \<Rightarrow>
          (let client = TokenClient (hsUrl t) (token t) in
           try_catch (bnd (client_getUserId E client) (\<lambda>_. ret (Some client)))
             (\<lambda>err. ret None)))"

definition getPuppetClient :: "env \<Rightarrow> nat \<Rightarrow> client option io" where
  "getPuppetClient E p =
     bnd (provisioner_getToken E (Inl p)) (\<lambda>tok. getClientFromTokenCallback E tok)"

text \<open>\<open>this.bridge.AS.getIntentForSuffix(`${data.puppetId}_${Util.str2mxid(data.userId)}`)\<close>:
  the intent of the namespaced user with that suffix.\<close>

definition ghost_userId :: "env \<Rightarrow> nat \<Rightarrow> string \<Rightarrow> string" where
  "ghost_userId E p u = getUserIdForSuffix E (String_nat p @ ''_'' @ str2mxid E u)"

definition maybeGetClient :: "env \<Rightarrow> nat \<Rightarrow> string \<Rightarrow> client option io" where
  "maybeGetClient E p u =
     bnd (provisioner_get E p) (\<lambda>puppetData.
     bnd (case puppetData of
            None \<Rightarrow> ret None
          | Some pd \<Rightarrow>
              if puppetUserId pd = Some u
              then bnd (provisioner_getToken E (Inl p)) (\<lambda>tok. getClientFromTokenCallback E tok)
              else ret None) (\<lambda>puppetClient.
     case puppetClient of
       Some c \<Rightarrow> ret (Some c)
     | None \<Rightarrow>
         bnd (userStore_get E p u) (\<lambda>user.
         case user of
           None \<Rightarrow> ret None
         | Some _ \<Rightarrow>
             bnd (call E (Intent_ensureRegistered (ghost_userId E p u))) (\<lambda>_.
             ret (Some (IntentClient (ghost_userId E p u)))))))"

definition mk_IRemoteUser :: "nat \<Rightarrow> string \<Rightarrow> IRemoteUser" where
  "mk_IRemoteUser p u =
     \<lparr>name = None, avatarUrl = None, puppetId_u = p, userId = u, roomOverrides = None\<rparr>"

definition userSync_getPartsFromMxid :: "env \<Rightarrow> string \<Rightarrow> IRemoteUser option" where
  "userSync_getPartsFromMxid E m =
     (case (if truthy (getSuffixForUserId E m) then getSuffixForUserId E m else None) of
        None \<Rightarrow> None
      | Some suffix \<Rightarrow>
          (case match_suffix suffix of
             None \<Rightarrow> None
           | Some (ds, rest) \<Rightarrow> Some (mk_IRemoteUser (Number_digits ds) (mxid2str E rest))))"

definition userSync_deleteForMxid :: "env \<Rightarrow> string \<Rightarrow> unit io" where
  "userSync_deleteForMxid E m =
     (case userSync_getPartsFromMxid E m of
        None \<Rightarrow> ret ()
      | Some user \<Rightarrow> userStore_delete E (puppetId_u user) (userId user))"

section \<open>The room synchroniser: operator, lookup, ghosts, deletion\<close>

definition getRoomOp :: "env \<Rightarrow> string \<Rightarrow> client option io" where
  "getRoomOp E room =
     bnd (roomStore_getRoomOp E room) (\<lambda>m.
     case (if truthy m then m else None) of
       None \<Rightarrow> ret None
     | Some mx \<Rightarrow>
         if \<not> isNamespacedUser E mx
         then bnd (provisioner_getToken E (Inr mx)) (\<lambda>tok. getClientFromTokenCallback E tok)
         else ret (Some (IntentClient mx)))"

definition lockKey :: "nat \<Rightarrow> string \<Rightarrow> string" where
  "lockKey p r = String_nat p @ '';'' @ r"

definition maybeGet :: "env \<Rightarrow> nat \<Rightarrow> string \<Rightarrow> IRoomStoreEntry option io" where
  "maybeGet E p r =
     bnd (modify (\<lambda>w. w\<lparr>mxidLock := Lock_wait (lockKey p r) (mxidLock w)\<rparr>)) (\<lambda>_.
     roomStore_getByRemote E p r)"

definition maybeGetMxid :: "env \<Rightarrow> nat \<Rightarrow> string \<Rightarrow> string option io" where
  "maybeGetMxid E p r =
     bnd (maybeGet E p r) (\<lambda>room.
     case room of None \<Rightarrow> ret None | Some x \<Rightarrow> ret (Some (mxid x)))"

definition mk_IRemoteRoom :: "nat \<Rightarrow> string \<Rightarrow> IRemoteRoom" where
  "mk_IRemoteRoom p r =
     \<lparr>name = None, avatarUrl = None, puppetId = p, roomId = r, isDirect = None, topic = None,
      groupId = None\<rparr>"

definition roomSync_getPartsFromMxid :: "env \<Rightarrow> string \<Rightarrow> IRemoteRoom option io" where
  "roomSync_getPartsFromMxid E m =
     (if (case m of [] \<Rightarrow> False | c # _ \<Rightarrow> c = CHR ''!'')
      then bnd (roomStore_getByMxid E m) (\<lambda>room.
           case room of
             None \<Rightarrow> ret None
           | Some x \<Rightarrow> ret (Some (mk_IRemoteRoom (r_puppetId x) (r_roomId x))))
      else (case (if truthy (getSuffixForAlias E m) then getSuffixForAlias E m else None) of
              None \<Rightarrow> ret None
            | Some suffix \<Rightarrow>
                (case match_suffix suffix of
                   None \<Rightarrow> ret None
                 | Some (ds, rest) \<Rightarrow>
                     ret (Some (mk_IRemoteRoom (Number_digits ds) (mxid2str E rest))))))"

text \<open>\<open>maybeLeaveGhost\<close>, lines 418 to 459. The \<open>try\<close> block that hands the operator on
  yields \<open>True\<close>; its \<open>catch\<close> logs and returns from the function, which is \<open>False\<close>
  here. A state event that is no power level object makes
  \<open>powerLevels.users[newOp] = ...\<close> throw a \<open>TypeError\<close> inside the \<open>try\<close>.\<close>

definition leaveGhost :: "env \<Rightarrow> string \<Rightarrow> string \<Rightarrow> unit io" where
  "leaveGhost E roomMxid userMxid =
     bnd (call E (Intent_leaveRoom userMxid roomMxid)) (\<lambda>_.
     puppetStore_leaveGhostFromRoom E userMxid roomMxid)"

definition passOnOp :: "env \<Rightarrow> string \<Rightarrow> string \<Rightarrow> string \<Rightarrow> bool io" where
  "passOnOp E roomMxid userMxid newOp =
     (let client = IntentClient userMxid in
      try_catch
        (bnd (callr E (Client_getRoomStateEvent client roomMxid ''m.room.power_levels'' [])
                (\<lambda>h w. getRoomStateEvent_ret E h roomMxid ''m.room.power_levels'' [])) (\<lambda>powerLevels.
         case powerLevels of
           PowerLevels users \<Rightarrow>
             bnd (call E (Client_sendStateEvent client roomMxid ''m.room.power_levels'' []
                            (PowerLevels (users(newOp := users userMxid))))) (\<lambda>_.
             bnd (roomStore_setRoomOp E roomMxid newOp) (\<lambda>_.
             ret True))
         | _ \<Rightarrow> throw (JsError ''TypeError'')))
        (\<lambda>err. bnd (logg (Log_error ''Couldn't set new room OP'')) (\<lambda>_. ret False)))"

definition maybeLeaveGhost :: "env \<Rightarrow> string \<Rightarrow> string \<Rightarrow> unit io" where
  "maybeLeaveGhost E roomMxid userMxid =
     bnd (puppetStore_getGhostsInRoom E roomMxid) (\<lambda>ghosts.
     if userMxid \<notin> set ghosts then ret ()
     else if length ghosts = 1 then ret ()
     else
       bnd (roomStore_getRoomOp E roomMxid) (\<lambda>oldOp.
       if oldOp = Some userMxid
       then (case (if truthy (find (\<lambda>element. element \<noteq> userMxid) ghosts)
                   then find (\<lambda>element. element \<noteq> userMxid) ghosts else None) of
               None \<Rightarrow> ret ()
             | Some newOp \<Rightarrow>
                 bnd (passOnOp E roomMxid userMxid newOp) (\<lambda>passed.
                 if passed then leaveGhost E roomMxid userMxid else ret ()))
       else leaveGhost E roomMxid userMxid))"

text \<open>\<open>deleteEntries\<close>, lines 482 to 538: the body of the loop over the entries, with its
  two inner loops (over the aliases, over the ghosts of the room).\<close>

fun deleteRoomAliases :: "env \<Rightarrow> client \<Rightarrow> string list \<Rightarrow> unit io" where
  "deleteRoomAliases E opClient [] = ret ()"
| "deleteRoomAliases E opClient (alias # aliases) =
     bnd (call E (Client_deleteRoomAlias opClient alias)) (\<lambda>_.
     deleteRoomAliases E opClient aliases)"

definition removeOldAliases :: "env \<Rightarrow> client \<Rightarrow> string \<Rightarrow> unit io" where
  "removeOldAliases E opClient m =
     try_catch
       (bnd (call E (Client_sendStateEvent opClient m ''m.room.canonical_alias'' [] EmptyContent)) (\<lambda>_.
        try_catch
          (bnd (callr E (Client_getRoomStateEvent opClient m ''m.room.aliases'' (config_domain E))
                  (\<lambda>h w. getRoomStateEvent_ret E h m ''m.room.aliases'' (config_domain E))) (\<lambda>aliases.
           case aliases of
             AliasesContent as \<Rightarrow> deleteRoomAliases E opClient as
           | _ \<Rightarrow> throw (JsError ''TypeError'')))
          (\<lambda>err. ret ())))
       (\<lambda>err. logg (Log_error ''Error removing old aliases''))"

fun removeGhosts :: "env \<Rightarrow> bool \<Rightarrow> string \<Rightarrow> string list \<Rightarrow> unit io" where
  "removeGhosts E keepUsers m [] = ret ()"
| "removeGhosts E keepUsers m (ghost # ghosts) =
     bnd (if \<not> keepUsers then userSync_deleteForMxid E ghost else ret ()) (\<lambda>_.
     bnd (try_catch (call E (Intent_leaveRoom ghost m))
            (\<lambda>err. logg (Log_warn ''Failed to trigger client leave room''))) (\<lambda>_.
     removeGhosts E keepUsers m ghosts))"

definition deleteEntry :: "env \<Rightarrow> IRoomStoreEntry \<Rightarrow> bool \<Rightarrow> unit io" where
  "deleteEntry E entry keepUsers =
     bnd (getRoomOp E (mxid entry)) (\<lambda>opClient.
     bnd (case opClient of
            None \<Rightarrow> ret ()
          | Some c \<Rightarrow> removeOldAliases E c (mxid entry)) (\<lambda>_.
     bnd (roomStore_delete E entry) (\<lambda>_.
     bnd (callr E BotIntent_getJoinedRooms (\<lambda>h w. getJoinedRooms_ret E h)) (\<lambda>botRooms.
     bnd (if mxid entry \<in> set botRooms
          then try_catch (call E (BotIntent_leaveRoom (mxid entry)))
                 (\<lambda>err. logg (Log_warn ''Failed to make bot client leave''))
          else ret ()) (\<lambda>_.
     bnd (puppetStore_getGhostsInRoom E (mxid entry)) (\<lambda>ghosts.
     bnd (removeGhosts E keepUsers (mxid entry) ghosts) (\<lambda>_.
     puppetStore_emptyGhostsInRoom E (mxid entry))))))))"

fun deleteEntries :: "env \<Rightarrow> IRoomStoreEntry list \<Rightarrow> bool \<Rightarrow> unit io" where
  "deleteEntries E [] keepUsers = ret ()"
| "deleteEntries E (entry # entries) keepUsers =
     bnd (deleteEntry E entry keepUsers) (\<lambda>_. deleteEntries E entries keepUsers)"

definition deleteForPuppet :: "env \<Rightarrow> nat \<Rightarrow> unit io" where
  "deleteForPuppet E p =
     bnd (roomStore_getByPuppetId E p) (\<lambda>entries. deleteEntries E entries False)"

definition roomSync_deleteForMxid :: "env \<Rightarrow> string \<Rightarrow> unit io" where
  "roomSync_deleteForMxid E m =
     bnd (roomStore_getByMxid E m) (\<lambda>room.
     case room of None \<Rightarrow> ret () | Some x \<Rightarrow> deleteEntries E [x] False)"

definition roomSync_delete :: "env \<Rightarrow> nat \<Rightarrow> string \<Rightarrow> bool \<Rightarrow> unit io" where
  "roomSync_delete E p r keepUsers =
     bnd (maybeGet E p r) (\<lambda>room.
     case room of None \<Rightarrow> ret () | Some x \<Rightarrow> deleteEntries E [x] keepUsers)"

section \<open>Room overrides of a user\<close>

text \<open>\<open>Object.assign(entry, updateProfile)\<close>: the fields the update holds overwrite the
  entry's.\<close>

definition assign_profile :: "'a IProfileDbEntry_scheme \<Rightarrow> profile_update \<Rightarrow> 'a IProfileDbEntry_scheme" where
  "assign_profile e u =
     e\<lparr>db_name := (case upd_name u of Some x \<Rightarrow> Some x | None \<Rightarrow> db_name e),
       db_avatarUrl := (case upd_avatarUrl u of Some x \<Rightarrow> Some x | None \<Rightarrow> db_avatarUrl e),
       db_avatarMxc := (case upd_avatarMxc u of Some x \<Rightarrow> Some x | None \<Rightarrow> db_avatarMxc e),
       db_avatarHash := (case upd_avatarHash u of Some x \<Rightarrow> Some x | None \<Rightarrow> db_avatarHash e)\<rparr>"

text \<open>The upload callback every caller of the reconciler builds:
  \<open>async (buffer, mimetype, filename) => await this.bridge.uploadContent(client, buffer, mimetype, filename)\<close>.\<close>

definition uploadCallback :: "env \<Rightarrow> client \<Rightarrow> buffer \<Rightarrow> string option \<Rightarrow> string option \<Rightarrow> string io" where
  "uploadCallback E client buffer mimetype filename =
     uploadContent E (Some client) (Bytes buffer) mimetype filename"

text \<open>\<open>setRoomOverride\<close>, lines 224 to 267. The callers pass as \<open>userData\<close> an object of
  which only \<open>puppetId\<close> and \<open>userId\<close> are read.\<close>

definition setRoomOverride ::
  "env \<Rightarrow> nat \<Rightarrow> string \<Rightarrow> string \<Rightarrow> IUserStoreRoomOverrideEntry option \<Rightarrow> client option
     \<Rightarrow> IUserStoreEntry option \<Rightarrow> unit io"
where
  "setRoomOverride E p u rid roomOverrideData0 client0 origUserData0 =
     bnd (case client0 of None \<Rightarrow> maybeGetClient E p u | Some c \<Rightarrow> ret (Some c)) (\<lambda>client1.
     case client1 of
       None \<Rightarrow> logg (Log_warn ''No client found'')
     | Some client \<Rightarrow>
         bnd (case origUserData0 of None \<Rightarrow> userStore_get E p u | Some d \<Rightarrow> ret (Some d)) (\<lambda>origUserData1.
         case origUserData1 of
           None \<Rightarrow> logg (Log_warn ''Original user data not found'')
         | Some origUserData \<Rightarrow>
             bnd (case roomOverrideData0 of
                    None \<Rightarrow> userStore_getRoomOverride E p u rid
                  | Some d \<Rightarrow> ret (Some d)) (\<lambda>roomOverrideData1.
             case roomOverrideData1 of
               None \<Rightarrow> logg (Log_warn ''No room override data found'')
             | Some roomOverrideData \<Rightarrow>
                 bnd (maybeGetMxid E p rid) (\<lambda>roomMxid.
                 case (if truthy roomMxid then roomMxid else None) of
                   None \<Rightarrow> logg (Log_warn ''Room MXID not found'')
                 | Some rm \<Rightarrow>
                     bnd (client_getUserId E client) (\<lambda>stateKey.
                     call E (Client_sendStateEvent client rm ''m.room.member'' stateKey
                               (MemberContent
                                  (or_else (db_name roomOverrideData) (db_name origUserData))
                                  (or_else (db_avatarMxc roomOverrideData)
                                     (db_avatarMxc origUserData)))))))))"

text \<open>\<open>updateRoomOverride\<close>, lines 269 to 305. In the inner \<open>catch\<close>,
  \<open>err.body.errcode\<close> of an error without a body throws a \<open>TypeError\<close>.\<close>

definition updateRoomOverride ::
  "env \<Rightarrow> client \<Rightarrow> nat \<Rightarrow> string \<Rightarrow> string \<Rightarrow> IRemoteProfile \<Rightarrow> IUserStoreEntry option \<Rightarrow> unit io"
where
  "updateRoomOverride E client p u rid roomOverride origUserData =
     try_catch
       (bnd (userStore_getRoomOverride E p u rid) (\<lambda>user0.
        bnd (ProcessProfileUpdate E (map_option IProfileDbEntry.truncate user0) roomOverride
               (namePatterns_userOverride E) (uploadCallback E client)) (\<lambda>newRoomOverride.
        let user1 = (case user0 of
                       None \<Rightarrow> userStore_newRoomOverrideData p u rid
                     | Some x \<Rightarrow> x);
            user = assign_profile user1 newRoomOverride
        in if upd_name newRoomOverride \<noteq> None \<or> upd_avatarMxc newRoomOverride \<noteq> None
           then bnd (try_catch (setRoomOverride E p u rid (Some user) (Some client) origUserData)
                       (\<lambda>err. case err of
                                 MatrixError errcode \<Rightarrow>
                                   if errcode \<noteq> ''M_FORBIDDEN'' then throw err else ret ()
                               | JsError _ \<Rightarrow> throw (JsError ''TypeError''))) (\<lambda>_.
                userStore_setRoomOverride E user)
           else ret ())))
       (\<lambda>err. logg (Log_error ''Error setting room overrides''))"

section \<open>\<open>UserSyncroniser.getClient\<close>\<close>

text \<open>Lines 104 to 112: the \<open>createUser\<close> hook may replace the request, but only by data
  of the same (puppetId, userId).\<close>

definition createUser_override :: "env \<Rightarrow> IRemoteUser \<Rightarrow> IRemoteUser io" where
  "createUser_override E data =
     (case hooks_createUser E of
        None \<Rightarrow> ret data
      | Some hook \<Rightarrow>
          bnd (callr E (Hook_createUser data) (\<lambda>h w. hook h data)) (\<lambda>newData.
          case newData of
            None \<Rightarrow> bnd (logg (Log_warn ''Override data is malformed!'')) (\<lambda>_. ret data)
          | Some nd \<Rightarrow>
              if userId nd = userId data \<and> puppetId_u nd = puppetId_u data then ret nd
              else bnd (logg (Log_warn ''Override data is malformed!'')) (\<lambda>_. ret data)))"

text \<open>A promise that is not awaited: the call is made where the source makes it, and its
  rejection is kept for whoever looks at the promise later.\<close>

definition started :: "'a io \<Rightarrow> error option io" where
  "started m = (\<lambda>w. case m w of (Inl e, w') \<Rightarrow> (Inr (Some e), w') | (Inr x, w') \<Rightarrow> (Inr None, w'))"

text \<open>A promise nobody awaits and nobody catches: a rejection is lost.\<close>

definition floating :: "unit io \<Rightarrow> unit io" where
  "floating m = try_catch m (\<lambda>err. ret ())"

fun updateRoomOverrides ::
  "env \<Rightarrow> client \<Rightarrow> nat \<Rightarrow> string \<Rightarrow> (string \<times> IRemoteProfile) list \<Rightarrow> IUserStoreEntry \<Rightarrow> unit io"
where
  "updateRoomOverrides E client p u [] user = ret ()"
| "updateRoomOverrides E client p u ((rid, ov) # rest) user =
     bnd (floating (updateRoomOverride E client p u rid ov (Some user))) (\<lambda>_.
     updateRoomOverrides E client p u rest user)"

fun reapplyRoomOverrides ::
  "env \<Rightarrow> client \<Rightarrow> string list \<Rightarrow> IUserStoreRoomOverrideEntry list \<Rightarrow> IUserStoreEntry \<Rightarrow> unit io"
where
  "reapplyRoomOverrides E client roomIdsNotToUpdate [] user = ret ()"
| "reapplyRoomOverrides E client roomIdsNotToUpdate (roomOverride # rest) user =
     bnd (if o_roomId roomOverride \<in> set roomIdsNotToUpdate then ret ()
          else floating (setRoomOverride E (u_puppetId user) (u_userId user)
                           (o_roomId roomOverride) (Some roomOverride) (Some client) (Some user))) (\<lambda>_.
     reapplyRoomOverrides E client roomIdsNotToUpdate rest user)"

text \<open>Lines 153 to 182, the continuation \<open>getClient\<close> leaves behind once the lock is
  released: \<open>Promise.all(promiseList).catch(log.error).then(...)\<close>. The source starts
  the override updates without awaiting them; the model runs them one after the other,
  in the order in which they are started.\<close>

definition getClient_background ::
  "env \<Rightarrow> client \<Rightarrow> IRemoteUser \<Rightarrow> IUserStoreEntry \<Rightarrow> error option list \<Rightarrow> unit io"
where
  "getClient_background E client data user promiseList =
     bnd (if list_ex (\<lambda>r. r \<noteq> None) promiseList
          then logg (Log_error ''Error updating profile'') else ret ()) (\<lambda>_.
     floating
       (bnd (case roomOverrides data of
               None \<Rightarrow> ret []
             | Some ovs \<Rightarrow>
                 bnd (updateRoomOverrides E client (puppetId_u data) (userId data) ovs user) (\<lambda>_.
                 ret (map fst ovs))) (\<lambda>roomIdsNotToUpdate.
        if length promiseList > 0
        then bnd (userStore_getAllRoomOverrides E (puppetId_u data) (userId data)) (\<lambda>ovs.
             reapplyRoomOverrides E client roomIdsNotToUpdate ovs user)
        else ret ())))"

text \<open>Lines 117 to 185: the ghost is registered, its profile reconciled and stored, the
  lock released and the client returned; \<open>k\<close> is the lock key.\<close>

definition getClient_reconcile ::
  "env \<Rightarrow> string \<Rightarrow> IRemoteUser \<Rightarrow> IUserStoreEntry \<Rightarrow> bool \<Rightarrow> IProfileDbEntry option \<Rightarrow> client io"
where
  "getClient_reconcile E k data user1 doUpdate0 oldProfile =
     (let uid = ghost_userId E (puppetId_u data) (userId data); client = IntentClient uid in
      bnd (call E (Intent_ensureRegistered uid)) (\<lambda>_.
      bnd (ProcessProfileUpdate E oldProfile (IRemoteProfile.truncate data)
             (namePatterns_user E) (uploadCallback E client)) (\<lambda>updateProfile.
      let user = assign_profile user1 updateProfile in
      bnd (if upd_name updateProfile \<noteq> None
           then bnd (started (call E (Client_setDisplayName client
                                         (case or_else (db_name user) (Some []) of
                                            Some n \<Rightarrow> n | None \<Rightarrow> []))))
                  (\<lambda>r. ret [r])
           else ret []) (\<lambda>promises1.
      bnd (if upd_avatarMxc updateProfile \<noteq> None
           then bnd (started (call E (Client_setAvatarUrl client
                                         (case or_else (db_avatarMxc user) (Some []) of
                                            Some n \<Rightarrow> n | None \<Rightarrow> []))))
                  (\<lambda>r. ret (promises1 @ [r]))
           else ret promises1) (\<lambda>promiseList.
      bnd (if doUpdate0 \<or> upd_name updateProfile \<noteq> None \<or> upd_avatarMxc updateProfile \<noteq> None
           then userStore_set E user else ret ()) (\<lambda>_.
      bnd (modify (\<lambda>w. w\<lparr>clientLock := Lock_release k (clientLock w)\<rparr>)) (\<lambda>_.
      bnd (getClient_background E client data user promiseList) (\<lambda>_.
      ret client))))))))"

text \<open>Lines 91 to 190: the ghost path of \<open>getClient\<close>, under the client lock.\<close>

definition getClient_catch :: "string \<Rightarrow> error \<Rightarrow> 'a io" where
  "getClient_catch k err =
     bnd (logg (Log_error ''Error fetching client:'')) (\<lambda>_.
     bnd (modify (\<lambda>w. w\<lparr>clientLock := Lock_release k (clientLock w)\<rparr>)) (\<lambda>_.
     throw err))"

definition getClient_ghost :: "env \<Rightarrow> IRemoteUser \<Rightarrow> client io" where
  "getClient_ghost E data0 =
     (let k = lockKey (puppetId_u data0) (userId data0) in
      bnd (modify (\<lambda>w. w\<lparr>clientLock := Lock_set k (Lock_wait k (clientLock w))\<rparr>)) (\<lambda>_.
      try_catch
        (bnd (userStore_get E (puppetId_u data0) (userId data0)) (\<lambda>user0.
         case user0 of
           None \<Rightarrow>
             bnd (createUser_override E data0) (\<lambda>data.
             getClient_reconcile E k data (userStore_newData (puppetId_u data) (userId data))
               True None)
         | Some x \<Rightarrow>
             getClient_reconcile E k data0 x False (Some (IProfileDbEntry.truncate x))))
        (getClient_catch k)))"

definition getClient :: "env \<Rightarrow> IRemoteUser \<Rightarrow> client io" where
  "getClient E data =
     bnd (provisioner_get E (puppetId_u data)) (\<lambda>puppetData.
     bnd (case puppetData of
            None \<Rightarrow> ret None
          | Some pd \<Rightarrow>
              if puppetUserId pd = Some (userId data) then getPuppetClient E (puppetId_u data)
              else ret None) (\<lambda>puppetClient.
     case puppetClient of
       Some c \<Rightarrow> ret c
     | None \<Rightarrow> getClient_ghost E data))"

section \<open>\<open>RoomSyncroniser.getMxid\<close>\<close>

text \<open>Lines 145 to 153: the \<open>createRoom\<close> hook may replace the request, but only by data
  of the same (puppetId, roomId).\<close>

definition createRoom_override :: "env \<Rightarrow> IRemoteRoom \<Rightarrow> IRemoteRoom io" where
  "createRoom_override E data =
     (case hooks_createRoom E of
        None \<Rightarrow> ret data
      | Some hook \<Rightarrow>
          bnd (callr E (Hook_createRoom data) (\<lambda>h w. hook h data)) (\<lambda>newData.
          case newData of
            None \<Rightarrow> bnd (logg (Log_warn ''Override data is malformed!'')) (\<lambda>_. ret data)
          | Some nd \<Rightarrow>
              if puppetId nd = puppetId data \<and> roomId nd = roomId data then ret nd
              else bnd (logg (Log_warn ''Override data is malformed!'')) (\<lambda>_. ret data)))"

text \<open>Lines 163 to 197: the creation payload.\<close>

definition mk_createParams ::
  "env \<Rightarrow> IRemoteRoom \<Rightarrow> string list option \<Rightarrow> profile_update \<Rightarrow> createParams" where
  "mk_createParams E data invites updateProfile =
     \<lparr>is_direct = isDirect data,
      invite = invites,
      initial_state =
        (case upd_avatarMxc updateProfile of
           Some a \<Rightarrow> [StateEvent ''m.room.avatar'' (UrlContent (Some a))]
         | None \<Rightarrow> [])
        @ (case (if truthy (topic data) then topic data else None) of
             Some t \<Rightarrow> [StateEvent ''m.room.topic'' (TopicContent t)]
           | None \<Rightarrow> []),
      room_alias_name =
        (if isDirect data \<noteq> Some True
         then Some (getAliasLocalpartForSuffix E
                      (String_nat (puppetId data) @ ''_'' @ str2mxid E (roomId data)))
         else None),
      cp_name = upd_name updateProfile\<rparr>"

text \<open>Lines 154 to 210: the room is created and its entry built. The result is the room
  id, the entry and \<open>addGroup\<close>.\<close>

definition getMxid_create ::
  "env \<Rightarrow> IRemoteRoom \<Rightarrow> client \<Rightarrow> string list option
     \<Rightarrow> (string \<times> IRoomStoreEntry \<times> string option) io"
where
  "getMxid_create E data client invites =
     bnd (ProcessProfileUpdate E None (IRemoteProfile.truncate data) (namePatterns_room E)
            (uploadCallback E client)) (\<lambda>updateProfile.
     bnd (callr E (Client_createRoom client (mk_createParams E data invites updateProfile))
            (\<lambda>h w. createRoom_ret E h client (mk_createParams E data invites updateProfile))) (\<lambda>m.
     bnd (client_getUserId E client) (\<lambda>opId.
     bnd (roomStore_setRoomOp E m opId) (\<lambda>_.
     let room1 = assign_profile (roomStore_newData m (roomId data) (puppetId data)) updateProfile;
         room2 = (if truthy (topic data) then room1\<lparr>r_topic := topic data\<rparr> else room1)
     in if truthy (groupId data)
        then ret (m, room2\<lparr>r_groupId := groupId data\<rparr>, groupId data)
        else ret (m, room2, None)))))"

text \<open>Lines 212 to 262: the entry exists. The result is the entry as changed,
  \<open>doUpdate\<close>, \<open>removeGroup\<close> and \<open>addGroup\<close>.\<close>

definition getMxid_update ::
  "env \<Rightarrow> IRemoteRoom \<Rightarrow> client \<Rightarrow> IRoomStoreEntry
     \<Rightarrow> (IRoomStoreEntry \<times> bool \<times> string option \<times> string option) io"
where
  "getMxid_update E data client0 room0 =
     bnd (getRoomOp E (mxid room0)) (\<lambda>newClient.
     let client = (case newClient of Some c \<Rightarrow> c | None \<Rightarrow> client0) in
     bnd (ProcessProfileUpdate E (Some (IProfileDbEntry.truncate room0))
            (IRemoteProfile.truncate data) (namePatterns_room E) (uploadCallback E client)) (\<lambda>updateProfile.
     let room1 = assign_profile room0 updateProfile in
     bnd (if upd_name updateProfile \<noteq> None
          then call E (Client_sendStateEvent client (mxid room0) ''m.room.name'' []
                         (NameContent (db_name room1)))
          else ret ()) (\<lambda>_.
     bnd (if upd_avatarMxc updateProfile \<noteq> None
          then call E (Client_sendStateEvent client (mxid room0) ''m.room.avatar'' []
                         (UrlContent (db_avatarMxc room1)))
          else ret ()) (\<lambda>_.
     bnd (case topic data of
            None \<Rightarrow> ret room1
          | Some t \<Rightarrow>
              if Some t \<noteq> r_topic room1
              then bnd (call E (Client_sendStateEvent client (mxid room0) ''m.room.topic'' []
                                  (TopicContent t))) (\<lambda>_.
                   ret (room1\<lparr>r_topic := Some t\<rparr>))
              else ret room1) (\<lambda>room2.
     let topicChanged = (case topic data of None \<Rightarrow> False | Some t \<Rightarrow> Some t \<noteq> r_topic room1);
         groupChanged = (case groupId data of None \<Rightarrow> False | Some g \<Rightarrow> Some g \<noteq> r_groupId room2);
         doUpdate = (upd_name updateProfile \<noteq> None \<or> upd_avatarMxc updateProfile \<noteq> None
                      \<or> topicChanged \<or> groupChanged)
     in if groupChanged
        then ret (room2\<lparr>r_groupId := groupId data\<rparr>, doUpdate, r_groupId room2, groupId data)
        else ret (room2, doUpdate, None, None))))))"

text \<open>Lines 272 to 288: the group association, once the lock is released.\<close>

definition updateGroups :: "env \<Rightarrow> IRoomStoreEntry \<Rightarrow> string option \<Rightarrow> string option \<Rightarrow> unit io" where
  "updateGroups E room removeGroup addGroup =
     (if groupSyncEnabled E
      then bnd (case (if truthy removeGroup then removeGroup else None) of
                  Some g \<Rightarrow> call E (GroupSync_removeRoomFromGroup g (r_puppetId room) (r_roomId room))
                | None \<Rightarrow> ret ()) (\<lambda>_.
           case (if truthy addGroup then addGroup else None) of
             Some g \<Rightarrow> call E (GroupSync_addRoomToGroup g (r_puppetId room) (r_roomId room))
           | None \<Rightarrow> ret ())
      else ret ())"

definition getMxid_catch :: "string \<Rightarrow> error \<Rightarrow> 'a io" where
  "getMxid_catch k err =
     bnd (logg (Log_error ''Error fetching mxid:'')) (\<lambda>_.
     bnd (modify (\<lambda>w. w\<lparr>mxidLock := Lock_release k (mxidLock w)\<rparr>)) (\<lambda>_.
     throw err))"

text \<open>Lines 265 to 291: the entry is stored if something changed, the lock released, the
  groups updated, the result returned.\<close>

definition getMxid_finish ::
  "env \<Rightarrow> string \<Rightarrow> string \<Rightarrow> bool \<Rightarrow> IRoomStoreEntry \<Rightarrow> bool \<Rightarrow> string option \<Rightarrow> string option
     \<Rightarrow> (string \<times> bool) io"
where
  "getMxid_finish E k m created room doUpdate removeGroup addGroup =
     bnd (if doUpdate then roomStore_set E room else ret ()) (\<lambda>_.
     bnd (modify (\<lambda>w. w\<lparr>mxidLock := Lock_release k (mxidLock w)\<rparr>)) (\<lambda>_.
     bnd (updateGroups E room removeGroup addGroup) (\<lambda>_.
     ret (m, created))))"

text \<open>The two branches of \<open>getMxid\<close> after the lookup, each up to the \<open>return\<close>: no
  entry yet (lines 142 to 210, after the hook), and an entry to reconcile (lines 212 to
  262).\<close>

definition getMxid_new ::
  "env \<Rightarrow> string \<Rightarrow> IRemoteRoom \<Rightarrow> client \<Rightarrow> string list option \<Rightarrow> (string \<times> bool) io"
where
  "getMxid_new E k data client invites =
     bnd (getMxid_create E data client invites) (\<lambda>(m, room, addGroup).
     getMxid_finish E k m True room True None addGroup)"

definition getMxid_existing ::
  "env \<Rightarrow> string \<Rightarrow> IRemoteRoom \<Rightarrow> client \<Rightarrow> IRoomStoreEntry \<Rightarrow> (string \<times> bool) io"
where
  "getMxid_existing E k data client room =
     bnd (getMxid_update E data client room) (\<lambda>(room', doUpdate, removeGroup, addGroup).
     getMxid_finish E k (mxid room) False room' doUpdate removeGroup addGroup)"

definition getMxid ::
  "env \<Rightarrow> IRemoteRoom \<Rightarrow> client option \<Rightarrow> string list option \<Rightarrow> bool \<Rightarrow> (string \<times> bool) io"
where
  "getMxid E data client0 invites doCreate =
     (let k = lockKey (puppetId data) (roomId data) in
      bnd (modify (\<lambda>w. w\<lparr>mxidLock := Lock_set k (Lock_wait k (mxidLock w))\<rparr>)) (\<lambda>_.
      try_catch
        (let client = (case client0 of None \<Rightarrow> BotClient | Some c \<Rightarrow> c) in
         bnd (roomStore_getByRemote E (puppetId data) (roomId data)) (\<lambda>room0.
         case room0 of
           None \<Rightarrow>
             if \<not> doCreate
             then bnd (modify (\<lambda>w. w\<lparr>mxidLock := Lock_release k (mxidLock w)\<rparr>)) (\<lambda>_.
                  ret ([], False))
             else
               bnd (createRoom_override E data) (\<lambda>data'.
               getMxid_new E k data' client invites)
         | Some room \<Rightarrow> getMxid_existing E k data client room))
        (getMxid_catch k)))"

section \<open>The forms the specification names\<close>

text \<open>The specification's words for an alias suffix the engines can parse:
  \<open><puppetId>_<escapedRoomId>\<close>, a non-empty run of decimal digits, an underscore and the
  rest. This definition follows the specification; \<open>match_suffix\<close> follows the regular
  expression of the source.\<close>

definition spec_suffix_form :: "string \<Rightarrow> bool" where
  "spec_suffix_form s =
     (\<exists>ds rest. ds \<noteq> [] \<and> (\<forall>c \<in> set ds. is_digit c) \<and> s = ds @ ''_'' @ rest)"

text \<open>The two calls that hand the operator on.\<close>

abbreviation getPowerLevels :: "string \<Rightarrow> string \<Rightarrow> event" where
  "getPowerLevels u r \<equiv> Client_getRoomStateEvent (IntentClient u) r ''m.room.power_levels'' []"

abbreviation sendPowerLevels :: "string \<Rightarrow> string \<Rightarrow> (string \<Rightarrow> int option) \<Rightarrow> event" where
  "sendPowerLevels u r users \<equiv>
     Client_sendStateEvent (IntentClient u) r ''m.room.power_levels'' [] (PowerLevels users)"

text \<open>The target-side cleanup calls of \<open>deleteEntries\<close>: alias removal (the canonical
  alias write, the read of the alias list, the alias deletions), the check of the
  operator's token, the bot's departure (the query of the rooms the bot has joined and
  its leave) and the ghosts' departures. The source wraps each of them in a \<open>try\<close>, except
  the query of the bot's joined rooms (line 512), which is awaited in the loop outside any
  \<open>try\<close>: \<open>wrapped_call\<close> are the cleanup calls inside a \<open>try\<close>. \<open>only_wrapped_fail\<close> says that
  no other call is rejected: the stores, the provisioner and the query of the bot's
  joined rooms answer.\<close>

fun cleanup_call :: "event \<Rightarrow> bool" where
  "cleanup_call (Client_sendStateEvent c r ty k x) = True"
| "cleanup_call (Client_getRoomStateEvent c r ty k) = True"
| "cleanup_call (Client_deleteRoomAlias c a) = True"
| "cleanup_call (Client_getUserId c) = True"
| "cleanup_call BotIntent_getJoinedRooms = True"
| "cleanup_call (BotIntent_leaveRoom r) = True"
| "cleanup_call (Intent_leaveRoom u r) = True"
| "cleanup_call _ = False"

fun wrapped_call :: "event \<Rightarrow> bool" where
  "wrapped_call (Client_sendStateEvent c r ty k x) = True"
| "wrapped_call (Client_getRoomStateEvent c r ty k) = True"
| "wrapped_call (Client_deleteRoomAlias c a) = True"
| "wrapped_call (Client_getUserId c) = True"
| "wrapped_call (BotIntent_leaveRoom r) = True"
| "wrapped_call (Intent_leaveRoom u r) = True"
| "wrapped_call _ = False"

definition only_wrapped_fail :: "env \<Rightarrow> bool" where
  "only_wrapped_fail E = (\<forall>h ev. wrapped_call ev \<or> fails E h ev = None)"

text \<open>Two notions for the proofs about the room store: a computation that leaves the
  stored mappings as they are, whether it returns or throws, and one that returns and
  changes them by a given function.\<close>

definition keeps_rooms :: "'a io \<Rightarrow> bool" where
  "keeps_rooms m = (\<forall>w. room_store (snd (m w)) = room_store w)"

definition maps_rooms :: "(IRoomStoreEntry list \<Rightarrow> IRoomStoreEntry list) \<Rightarrow> 'a io \<Rightarrow> bool" where
  "maps_rooms g m = (\<forall>w. (\<exists>x. fst (m w) = Inr x) \<and> room_store (snd (m w)) = g (room_store w))"

text \<open>The entry \<open>updateRoomOverride\<close> builds (lines 286 to 289) from the stored override of
  the room, or a fresh one, and the reconciler's result.\<close>

definition override_entry ::
  "world \<Rightarrow> nat \<Rightarrow> string \<Rightarrow> string \<Rightarrow> profile_update \<Rightarrow> IUserStoreRoomOverrideEntry" where
  "override_entry w p u rid upd =
     assign_profile
       (case find (\<lambda>e. o_puppetId e = p \<and> o_userId e = u \<and> o_roomId e = rid) (override_store w) of
          None \<Rightarrow> userStore_newRoomOverrideData p u rid
        | Some x \<Rightarrow> x) upd"

text \<open>The calls of an attempt to use the puppet's own account that ends without a
  client: the puppet is read, its token is read and, when there is one, checked with
  \<open>getUserId\<close>.\<close>

definition puppet_attempt :: "env \<Rightarrow> nat \<Rightarrow> event list" where
  "puppet_attempt E p =
     [Provisioner_get p, Provisioner_getToken (Inl p)]
     @ (case provisioner_tokens E (Inl p) of
          None \<Rightarrow> []
        | Some t \<Rightarrow> [Client_getUserId (TokenClient (hsUrl t) (token t))])"

text \<open>The stored token of the puppet gives no usable client, from the calls \<open>h\<close> on:
  there is no token, or the check of the token is rejected.\<close>

definition token_unusable :: "env \<Rightarrow> event list \<Rightarrow> nat \<Rightarrow> bool" where
  "token_unusable E h p =
     (case provisioner_tokens E (Inl p) of
        None \<Rightarrow> True
      | Some t \<Rightarrow>
          fails E (h @ [Provisioner_get p, Provisioner_getToken (Inl p)])
            (Client_getUserId (TokenClient (hsUrl t) (token t))) \<noteq> None)"

text \<open>Lines 83 to 89 of \<open>getClient\<close> end without a client of the puppet's own account,
  having made the calls \<open>evs\<close>: the provisioner knows no such puppet, or the puppet is
  another remote user (one call); or the puppet is this remote user and its stored token
  gives no usable client (the calls of \<open>puppet_attempt\<close>).\<close>

definition no_puppet_client :: "env \<Rightarrow> IRemoteUser \<Rightarrow> world \<Rightarrow> event list \<Rightarrow> bool" where
  "no_puppet_client E data w evs =
     (fails E (calls w) (Provisioner_get (puppetId_u data)) = None
      \<and> (case provisioner_puppets E (puppetId_u data) of
           None \<Rightarrow> evs = [Provisioner_get (puppetId_u data)]
         | Some pd \<Rightarrow>
             if puppetUserId pd = Some (userId data)
             then fails E (calls w @ [Provisioner_get (puppetId_u data)])
                    (Provisioner_getToken (Inl (puppetId_u data))) = None
                  \<and> token_unusable E (calls w) (puppetId_u data)
                  \<and> evs = puppet_attempt E (puppetId_u data)
             else evs = [Provisioner_get (puppetId_u data)]))"

text \<open>Notions for the proofs about the call log: a computation under which the log only
  grows, and the calls of the ghost path of \<open>getClient\<close> that are awaited inside its
  \<open>try\<close> block. \<open>reconciler_returns\<close> says of the absent reconciler that, called with the
  upload callback, it returns and only adds to the log.\<close>

definition grows :: "'a io \<Rightarrow> bool" where
  "grows m = (\<forall>w. \<exists>evs. calls (snd (m w)) = calls w @ evs)"

fun ghost_path_call :: "event \<Rightarrow> bool" where
  "ghost_path_call (UserStore_get p u) = True"
| "ghost_path_call (Hook_createUser d) = True"
| "ghost_path_call (Intent_ensureRegistered u) = True"
| "ghost_path_call (UserStore_set e) = True"
| "ghost_path_call _ = False"

definition ghost_path_answers :: "env \<Rightarrow> bool" where
  "ghost_path_answers E = (\<forall>h ev. \<not> ghost_path_call ev \<or> fails E h ev = None)"

definition reconciler_returns :: "env \<Rightarrow> bool" where
  "reconciler_returns E =
     (\<forall>old new pat c w. \<exists>upd evs.
        fst (ProcessProfileUpdate E old new pat (uploadCallback E c) w) = Inr upd
      \<and> calls (snd (ProcessProfileUpdate E old new pat (uploadCallback E c) w)) = calls w @ evs)"

definition returns :: "'a io \<Rightarrow> bool" where
  "returns m = (\<forall>w. \<exists>x. fst (m w) = Inr x)"

definition yields :: "'a \<Rightarrow> 'a io \<Rightarrow> bool" where
  "yields x m = (\<forall>w. fst (m w) = Inr x)"

text \<open>The calls that change something: a state write through the transport (room
  creation, state events, profile changes, alias removal, uploads, departures, group
  membership) or a write to persistence. Lookups, the hooks, the registration check of a
  ghost and the log are not among them.\<close>

fun is_write :: "event \<Rightarrow> bool" where
  "is_write (Client_createRoom c p) = True"
| "is_write (Client_sendStateEvent c r ty k x) = True"
| "is_write (Client_deleteRoomAlias c a) = True"
| "is_write (Client_uploadContent c b m f) = True"
| "is_write (Client_setDisplayName c n) = True"
| "is_write (Client_setAvatarUrl c u) = True"
| "is_write (Intent_leaveRoom u r) = True"
| "is_write (BotIntent_leaveRoom r) = True"
| "is_write (GroupSync_removeRoomFromGroup g p r) = True"
| "is_write (GroupSync_addRoomToGroup g p r) = True"
| "is_write (Store_setFileMxc h m f) = True"
| "is_write (RoomStore_set e) = True"
| "is_write (RoomStore_delete e) = True"
| "is_write (RoomStore_setRoomOp r u) = True"
| "is_write (UserStore_set e) = True"
| "is_write (UserStore_delete p u) = True"
| "is_write (UserStore_setRoomOverride e) = True"
| "is_write (PuppetStore_leaveGhostFromRoom u r) = True"
| "is_write (PuppetStore_emptyGhostsInRoom r) = True"
| "is_write _ = False"

text \<open>\<open>no_writes w w'\<close>: from \<open>w\<close> to \<open>w'\<close> no call that writes was made and persistence is
  as it was. \<open>empty_diff\<close> says of the absent reconciler that, on the stored profile \<open>old\<close>
  and the observed profile \<open>new\<close>, it writes nothing and, when it returns, reports neither
  a name nor an avatar reference (the update has no \<open>name\<close> and no \<open>avatarMxc\<close>). \<open>quiet\<close>
  is the notion for the proofs: run after calls that wrote nothing since \<open>w0\<close>, the
  computation writes nothing either, and what it returns satisfies \<open>Q\<close>.\<close>

definition no_writes :: "world \<Rightarrow> world \<Rightarrow> bool" where
  "no_writes w w' =
     ((\<exists>evs. calls w' = calls w @ evs \<and> \<not> list_ex is_write evs)
      \<and> room_store w' = room_store w \<and> chan_op w' = chan_op w
      \<and> user_store w' = user_store w \<and> override_store w' = override_store w
      \<and> file_mxc w' = file_mxc w \<and> ghosts_in_room w' = ghosts_in_room w)"

definition empty_diff ::
  "env \<Rightarrow> IProfileDbEntry option \<Rightarrow> IRemoteProfile \<Rightarrow> string \<Rightarrow> client \<Rightarrow> bool"
where
  "empty_diff E old new pat c =
     (\<forall>w. no_writes w (snd (ProcessProfileUpdate E old new pat (uploadCallback E c) w))
        \<and> (\<forall>upd. fst (ProcessProfileUpdate E old new pat (uploadCallback E c) w) = Inr upd
              \<longrightarrow> upd_name upd = None \<and> upd_avatarMxc upd = None))"

definition quiet :: "world \<Rightarrow> ('a \<Rightarrow> bool) \<Rightarrow> 'a io \<Rightarrow> bool" where
  "quiet w0 Q m =
     (\<forall>w. no_writes w0 w
        \<longrightarrow> no_writes w0 (snd (m w)) \<and> (\<forall>x. fst (m w) = Inr x \<longrightarrow> Q x))"

section \<open>Concurrent calls of \<open>getMxid\<close>\<close>

text \<open>
  Modelled from the spec: the scheduler is not among the sources. The specification says:
  "many logically concurrent reconciliation requests run as independent tasks over a
  single cooperative scheduler"; "suspension occurs exactly at calls into a collaborator
  (transport, persistence, lock wait); between suspensions a reconciliation step runs
  uninterrupted". A task is a computation that has returned, has thrown, or is suspended;
  a suspended task takes its next step in the world it is resumed in, if it can be
  resumed there.
\<close>

datatype 'a task =
    Returned 'a
  | Thrown error
  | Suspended "world \<Rightarrow> ('a task \<times> world) option"

primrec then_task :: "'a task \<Rightarrow> ('a \<Rightarrow> 'b task) \<Rightarrow> 'b task" where
  "then_task (Returned x) k = k x"
| "then_task (Thrown e) k = Thrown e"
| "then_task (Suspended f) k =
     Suspended (\<lambda>w. map_option (map_prod (\<lambda>t. then_task t k) id) (f w))"

primrec catch_task :: "'a task \<Rightarrow> (error \<Rightarrow> 'a task) \<Rightarrow> 'a task" where
  "catch_task (Returned x) h = Returned x"
| "catch_task (Thrown e) h = h e"
| "catch_task (Suspended f) h =
     Suspended (\<lambda>w. map_option (map_prod (\<lambda>t. catch_task t h) id) (f w))"

text \<open>A stretch of code that is run in one step once the task is resumed.\<close>

definition atomic :: "'a io \<Rightarrow> 'a task" where
  "atomic m =
     Suspended (\<lambda>w. Some (case m w of
                           (Inl e, w') \<Rightarrow> (Thrown e, w')
                         | (Inr x, w') \<Rightarrow> (Returned x, w')))"

text \<open>
  \<open>await this.mxidLock.wait(lockKey); this.mxidLock.set(lockKey);\<close> among other tasks.
  Modelled from the spec: "\<open>wait(key)\<close> suspends the caller [...] until no holder is
  registered for \<open>key\<close>", and \<open>set\<close> follows in the same uninterrupted step. The bounded
  timeout, which would let a waiter through while the key is held, is a matter of real
  time and is left out: a waiter is resumed only when the key is free.
\<close>

definition acquire :: "string \<Rightarrow> unit task" where
  "acquire k =
     Suspended (\<lambda>w. if k \<in> mxidLock w then None
                     else Some (Returned (), w\<lparr>mxidLock := Lock_set k (mxidLock w)\<rparr>))"

text \<open>
  \<open>getMxid\<close> as a task. The steps are: taking the lock; the lookup; the hook; the
  creation (lines 120 to 210) or the reconciliation of the stored entry (lines 212 to
  262); the write of the entry; the release; the group update. The calls inside one of
  these stretches are run together: while the lock is held, a task of the same key can
  only be waiting for it or be past its own release.
\<close>

definition getMxid_groups_task ::
  "env \<Rightarrow> string \<Rightarrow> bool \<Rightarrow> IRoomStoreEntry \<Rightarrow> string option \<Rightarrow> string option
     \<Rightarrow> (string \<times> bool) task"
where
  "getMxid_groups_task E m created room removeGroup addGroup =
     then_task (atomic (updateGroups E room removeGroup addGroup)) (\<lambda>_.
     Returned (m, created))"

definition getMxid_release_task ::
  "env \<Rightarrow> string \<Rightarrow> string \<Rightarrow> bool \<Rightarrow> IRoomStoreEntry \<Rightarrow> string option \<Rightarrow> string option
     \<Rightarrow> (string \<times> bool) task"
where
  "getMxid_release_task E k m created room removeGroup addGroup =
     then_task (atomic (modify (\<lambda>w. w\<lparr>mxidLock := Lock_release k (mxidLock w)\<rparr>))) (\<lambda>_.
     getMxid_groups_task E m created room removeGroup addGroup)"

definition getMxid_finish_task ::
  "env \<Rightarrow> string \<Rightarrow> string \<Rightarrow> bool \<Rightarrow> IRoomStoreEntry \<Rightarrow> bool \<Rightarrow> string option \<Rightarrow> string option
     \<Rightarrow> (string \<times> bool) task"
where
  "getMxid_finish_task E k m created room doUpdate removeGroup addGroup =
     then_task (atomic (if doUpdate then roomStore_set E room else ret ())) (\<lambda>_.
     getMxid_release_task E k m created room removeGroup addGroup)"

definition getMxid_new_task ::
  "env \<Rightarrow> string \<Rightarrow> IRemoteRoom \<Rightarrow> client \<Rightarrow> string list option \<Rightarrow> (string \<times> bool) task"
where
  "getMxid_new_task E k data client invites =
     then_task (atomic (getMxid_create E data client invites)) (\<lambda>(m, room, addGroup).
     getMxid_finish_task E k m True room True None addGroup)"

definition getMxid_existing_task ::
  "env \<Rightarrow> string \<Rightarrow> IRemoteRoom \<Rightarrow> client \<Rightarrow> IRoomStoreEntry \<Rightarrow> (string \<times> bool) task"
where
  "getMxid_existing_task E k data client room =
     then_task (atomic (getMxid_update E data client room))
       (\<lambda>(room', doUpdate, removeGroup, addGroup).
       getMxid_finish_task E k (mxid room) False room' doUpdate removeGroup addGroup)"

definition getMxid_catch_task :: "string \<Rightarrow> error \<Rightarrow> (string \<times> bool) task" where
  "getMxid_catch_task k err = atomic (getMxid_catch k err)"

definition getMxid_hook_task ::
  "env \<Rightarrow> string \<Rightarrow> IRemoteRoom \<Rightarrow> client \<Rightarrow> string list option \<Rightarrow> (string \<times> bool) task"
where
  "getMxid_hook_task E k data client invites =
     then_task (atomic (createRoom_override E data)) (\<lambda>data'.
     getMxid_new_task E k data' client invites)"

definition getMxid_locked_task ::
  "env \<Rightarrow> IRemoteRoom \<Rightarrow> client option \<Rightarrow> string list option \<Rightarrow> bool \<Rightarrow> (string \<times> bool) task"
where
  "getMxid_locked_task E data client0 invites doCreate =
     (let k = lockKey (puppetId data) (roomId data) in
      catch_task
        (let client = (case client0 of None \<Rightarrow> BotClient | Some c \<Rightarrow> c) in
         then_task (atomic (roomStore_getByRemote E (puppetId data) (roomId data))) (\<lambda>room0.
         case room0 of
           None \<Rightarrow>
             if \<not> doCreate
             then then_task (atomic (modify (\<lambda>w. w\<lparr>mxidLock := Lock_release k (mxidLock w)\<rparr>))) (\<lambda>_.
                  Returned ([], False))
             else getMxid_hook_task E k data client invites
         | Some room \<Rightarrow> getMxid_existing_task E k data client room))
        (getMxid_catch_task k))"

definition getMxid_task ::
  "env \<Rightarrow> IRemoteRoom \<Rightarrow> client option \<Rightarrow> string list option \<Rightarrow> bool \<Rightarrow> (string \<times> bool) task"
where
  "getMxid_task E data client0 invites doCreate =
     then_task (acquire (lockKey (puppetId data) (roomId data))) (\<lambda>_.
     getMxid_locked_task E data client0 invites doCreate)"

text \<open>A task run alone, to its end; \<open>None\<close> if it is never resumed.\<close>

primrec run_alone :: "'a task \<Rightarrow> world \<Rightarrow> ((error + 'a) \<times> world) option" where
  "run_alone (Returned x) = (\<lambda>w. Some (Inr x, w))"
| "run_alone (Thrown e) = (\<lambda>w. Some (Inl e, w))"
| "run_alone (Suspended f) =
     (\<lambda>w. case map_option (map_prod run_alone id) (f w) of
             None \<Rightarrow> None
           | Some (g, w') \<Rightarrow> g w')"

text \<open>Two tasks under a schedule: at each turn the scheduler picks the first or the
  second task; a task that cannot be resumed, or has ended, stays as it is.\<close>

definition step_task :: "'a task \<Rightarrow> world \<Rightarrow> 'a task \<times> world" where
  "step_task t w =
     (case t of
        Suspended f \<Rightarrow> (case f w of Some (t', w') \<Rightarrow> (t', w') | None \<Rightarrow> (t, w))
      | _ \<Rightarrow> (t, w))"



text \<open>What the claim about concurrent calls counts: the room creations that reached the
  transport and the mappings stored for a remote room. And what it presupposes of the
  collaborators: that every call is answered, and that the reconciler returns and leaves
  the room store, the lock and the number of rooms created as they are.\<close>

fun room_creation :: "event \<Rightarrow> bool" where
  "room_creation (Client_createRoom c p) = True"
| "room_creation _ = False"

definition creations :: "world \<Rightarrow> nat" where
  "creations w = length (filter room_creation (calls w))"

definition mappings :: "nat \<Rightarrow> string \<Rightarrow> world \<Rightarrow> IRoomStoreEntry list" where
  "mappings p r w = filter (\<lambda>e. r_puppetId e = p \<and> r_roomId e = r) (room_store w)"



text \<open>The points at which a task of \<open>getMxid\<close> can be suspended, with the values it
  carries there, and the task at each point.\<close>

datatype point =
    AtWait
  | AtLookup
  | AtHook
  | AtCreate IRemoteRoom
  | AtUpdate IRoomStoreEntry
  | AtStore string bool IRoomStoreEntry bool "string option" "string option"
  | AtRelease string bool IRoomStoreEntry "string option" "string option"
  | AtGroups string bool IRoomStoreEntry "string option" "string option"
  | AtEnd string bool

fun task_at ::
  "env \<Rightarrow> IRemoteRoom \<Rightarrow> client option \<Rightarrow> string list option \<Rightarrow> point \<Rightarrow> (string \<times> bool) task"
where
  "task_at E data client0 invites AtWait = getMxid_task E data client0 invites True"
| "task_at E data client0 invites AtLookup = getMxid_locked_task E data client0 invites True"
| "task_at E data client0 invites AtHook =
     catch_task (getMxid_hook_task E (lockKey (puppetId data) (roomId data)) data
                   (case client0 of None \<Rightarrow> BotClient | Some c \<Rightarrow> c) invites)
       (getMxid_catch_task (lockKey (puppetId data) (roomId data)))"
| "task_at E data client0 invites (AtCreate data') =
     catch_task (getMxid_new_task E (lockKey (puppetId data) (roomId data)) data'
                   (case client0 of None \<Rightarrow> BotClient | Some c \<Rightarrow> c) invites)
       (getMxid_catch_task (lockKey (puppetId data) (roomId data)))"
| "task_at E data client0 invites (AtUpdate room) =
     catch_task (getMxid_existing_task E (lockKey (puppetId data) (roomId data)) data
                   (case client0 of None \<Rightarrow> BotClient | Some c \<Rightarrow> c) room)
       (getMxid_catch_task (lockKey (puppetId data) (roomId data)))"
| "task_at E data client0 invites (AtStore m created room doUpdate removeGroup addGroup) =
     catch_task (getMxid_finish_task E (lockKey (puppetId data) (roomId data)) m created room
                   doUpdate removeGroup addGroup)
       (getMxid_catch_task (lockKey (puppetId data) (roomId data)))"
| "task_at E data client0 invites (AtRelease m created room removeGroup addGroup) =
     catch_task (getMxid_release_task E (lockKey (puppetId data) (roomId data)) m created room
                   removeGroup addGroup)
       (getMxid_catch_task (lockKey (puppetId data) (roomId data)))"
| "task_at E data client0 invites (AtGroups m created room removeGroup addGroup) =
     catch_task (getMxid_groups_task E m created room removeGroup addGroup)
       (getMxid_catch_task (lockKey (puppetId data) (roomId data)))"
| "task_at E data client0 invites (AtEnd m created) = Returned (m, created)"

text \<open>The states two tasks of the same key \<open>k\<close> = \<open>p;r\<close> pass through, the remote room
  being unmapped at the start and \<open>n\<close> rooms created so far. \<open>follows m b w\<close>: the other
  task has stored the mapping to \<open>m\<close> and released the lock; \<open>b\<close> waits, reconciles the
  stored entry under the lock, or is done. \<open>leads a b w\<close>: \<open>a\<close> is the first to take the
  lock.\<close>

definition stored_once :: "nat \<Rightarrow> string \<Rightarrow> nat \<Rightarrow> string \<Rightarrow> world \<Rightarrow> bool" where
  "stored_once p r n m w =
     ((\<exists>room. mappings p r w = [room] \<and> mxid room = m) \<and> creations w = Suc n)"

fun follows :: "nat \<Rightarrow> string \<Rightarrow> string \<Rightarrow> point \<Rightarrow> world \<Rightarrow> bool" where
  "follows p r m AtWait w = (lockKey p r \<notin> mxidLock w)"
| "follows p r m AtLookup w = (lockKey p r \<in> mxidLock w)"
| "follows p r m (AtUpdate room) w = (lockKey p r \<in> mxidLock w \<and> mappings p r w = [room])"
| "follows p r m (AtStore m' created room doUpdate removeGroup addGroup) w =
     (lockKey p r \<in> mxidLock w \<and> m' = m \<and> \<not> created
      \<and> r_puppetId room = p \<and> r_roomId room = r \<and> mxid room = m)"
| "follows p r m (AtRelease m' created room removeGroup addGroup) w =
     (lockKey p r \<in> mxidLock w \<and> m' = m \<and> \<not> created)"
| "follows p r m (AtGroups m' created room removeGroup addGroup) w =
     (lockKey p r \<notin> mxidLock w \<and> m' = m \<and> \<not> created)"
| "follows p r m (AtEnd m' created) w = (lockKey p r \<notin> mxidLock w \<and> m' = m \<and> \<not> created)"
| "follows p r m _ w = False"

fun leads :: "nat \<Rightarrow> string \<Rightarrow> nat \<Rightarrow> point \<Rightarrow> point \<Rightarrow> world \<Rightarrow> bool" where
  "leads p r n AtWait b w =
     (b = AtWait \<and> lockKey p r \<notin> mxidLock w \<and> mappings p r w = [] \<and> creations w = n)"
| "leads p r n AtLookup b w =
     (b = AtWait \<and> lockKey p r \<in> mxidLock w \<and> mappings p r w = [] \<and> creations w = n)"
| "leads p r n AtHook b w =
     (b = AtWait \<and> lockKey p r \<in> mxidLock w \<and> mappings p r w = [] \<and> creations w = n)"
| "leads p r n (AtCreate data') b w =
     (b = AtWait \<and> lockKey p r \<in> mxidLock w \<and> mappings p r w = [] \<and> creations w = n
      \<and> puppetId data' = p \<and> roomId data' = r)"
| "leads p r n (AtStore m created room doUpdate removeGroup addGroup) b w =
     (b = AtWait \<and> lockKey p r \<in> mxidLock w \<and> mappings p r w = [] \<and> creations w = Suc n
      \<and> created \<and> doUpdate \<and> r_puppetId room = p \<and> r_roomId room = r \<and> mxid room = m)"
| "leads p r n (AtRelease m created room removeGroup addGroup) b w =
     (b = AtWait \<and> lockKey p r \<in> mxidLock w \<and> created \<and> stored_once p r n m w)"
| "leads p r n (AtGroups m created room removeGroup addGroup) b w =
     (created \<and> stored_once p r n m w \<and> follows p r m b w)"
| "leads p r n (AtEnd m created) b w =
     (created \<and> stored_once p r n m w \<and> follows p r m b w)"
| "leads p r n (AtUpdate room) b w = False"


section \<open>An example deployment\<close>

text \<open>
  Concrete collaborators on which the theorems below are instantiated. The digest of a
  buffer is the buffer behind a tag, the reconciler reports a name that differs from the
  stored one and an avatar whose locator has a digest other than the stored one (which
  it uploads through the callback), and the appservice namespace is the prefix
  \<open>_bridge_\<close>. \<open>example_env f hr hu\<close> rejects the calls \<open>f\<close> says and installs the hooks
  \<open>hr\<close> and \<open>hu\<close>.
\<close>

definition example_reconciler ::
  "IProfileDbEntry option \<Rightarrow> IRemoteProfile \<Rightarrow> string
     \<Rightarrow> (buffer \<Rightarrow> string option \<Rightarrow> string option \<Rightarrow> string io) \<Rightarrow> profile_update io"
where
  "example_reconciler old new pattern upload =
     (let nm = (case name new of
                  None \<Rightarrow> None
                | Some n \<Rightarrow>
                    (case old of
                       None \<Rightarrow> (if n = [] then None else Some n)
                     | Some p \<Rightarrow> (if db_name p = Some n then None else Some n)));
          same = \<lparr>upd_name = nm, upd_avatarUrl = None, upd_avatarMxc = None,
                   upd_avatarHash = None\<rparr>
      in case avatarUrl new of
           None \<Rightarrow> ret same
         | Some url \<Rightarrow>
             (if (case old of None \<Rightarrow> False | Some p \<Rightarrow> db_avatarHash p = Some (''sha:'' @ url))
              then ret same
              else bnd (upload url None None) (\<lambda>mxc.
                     ret \<lparr>upd_name = nm, upd_avatarUrl = Some url, upd_avatarMxc = Some mxc,
                          upd_avatarHash = Some (''sha:'' @ url)\<rparr>)))"

definition strip_prefix :: "string \<Rightarrow> string \<Rightarrow> string option" where
  "strip_prefix p s = (if take (length p) s = p then Some (drop (length p) s) else None)"

definition example_env ::
  "(event list \<Rightarrow> event \<Rightarrow> error option)
     \<Rightarrow> (event list \<Rightarrow> IRemoteRoom \<Rightarrow> IRemoteRoom option) option
     \<Rightarrow> (event list \<Rightarrow> IRemoteUser \<Rightarrow> IRemoteUser option) option \<Rightarrow> env"
where
  "example_env f hr hu =
     \<lparr>fails = f,
      createRoom_ret = (\<lambda>h c p. ''!room'' @ replicate (length h) CHR ''x'' @ '':hs''),
      getRoomStateEvent_ret = (\<lambda>h room ty key. PowerLevels (Map.empty(''@_bridge_1_a:hs'' \<mapsto> 100))),
      whoami_ret = (\<lambda>hs tok. ''@alice:hs''),
      uploadContent_ret = (\<lambda>h b. ''mxc://hs/'' @ b),
      getJoinedRooms_ret = (\<lambda>h. []),
      DownloadFile_ret = (\<lambda>h url. url),
      ProcessProfileUpdate = example_reconciler,
      hooks_createRoom = hr,
      hooks_createUser = hu,
      provisioner_puppets = (\<lambda>p. if p = 5 then Some \<lparr>puppetUserId = Some ''alice'', puppetMxid = ''@alice:hs''\<rparr>
                                  else None),
      provisioner_tokens = (\<lambda>k. None),
      HashBuffer = (\<lambda>b. ''sha:'' @ b),
      GetMimeType = (\<lambda>b. None),
      str2mxid = (\<lambda>s. s),
      mxid2str = (\<lambda>s. s),
      botUserId = ''@_bridge_bot:hs'',
      isNamespacedUser = (\<lambda>u. take 9 u = ''@_bridge_''),
      getUserIdForSuffix = (\<lambda>s. ''@_bridge_'' @ s @ '':hs''),
      getSuffixForUserId = (\<lambda>u. case strip_prefix ''@_bridge_'' u of
                                     None \<Rightarrow> None
                                   | Some r \<Rightarrow> Some (takeWhile (\<lambda>c. c \<noteq> CHR '':'') r)),
      getSuffixForAlias = (\<lambda>a. case strip_prefix ''#_bridge_'' a of
                                    None \<Rightarrow> None
                                  | Some r \<Rightarrow> Some (takeWhile (\<lambda>c. c \<noteq> CHR '':'') r)),
      getAliasLocalpartForSuffix = (\<lambda>s. ''_bridge_'' @ s),
      namePatterns_room = '':name'',
      namePatterns_user = '':name'',
      namePatterns_userOverride = '':name'',
      config_domain = ''hs'',
      groupSyncEnabled = False\<rparr>"

definition never_fails :: "event list \<Rightarrow> event \<Rightarrow> error option" where
  "never_fails h ev = None"

definition empty_world :: world where
  "empty_world =
     \<lparr>calls = [], file_mxc = Map.empty, room_store = [], chan_op = Map.empty, user_store = [],
      override_store = [], ghosts_in_room = (\<lambda>r. []), mxcLookupLock = {}, mxidLock = {},
      clientLock = {}\<rparr>"

definition example_rooms :: world where
  "example_rooms =
     empty_world\<lparr>room_store := [roomStore_newData ''!abc:example.org'' ''chan1'' 3]\<rparr>"

text \<open>A room with two ghosts, the first of them its operator; a room whose ghost list
  names the operator twice; and a transport that refuses to set state events.\<close>

definition example_ghosts :: world where
  "example_ghosts =
     empty_world\<lparr>ghosts_in_room := (\<lambda>r. if r = ''!r:hs'' then [''@_bridge_1_a:hs'', ''@_bridge_1_b:hs'']
                                         else if r = ''!twice:hs'' then [''@_bridge_1_a:hs'', ''@_bridge_1_a:hs'']
                                         else if r = ''!solo:hs'' then [''@_bridge_1_a:hs'']
                                         else []),
                 chan_op := (\<lambda>r. if r = ''!r:hs'' \<or> r = ''!twice:hs'' then Some ''@_bridge_1_a:hs''
                                  else None)\<rparr>"

definition forbidden_state_writes :: "event list \<Rightarrow> event \<Rightarrow> error option" where
  "forbidden_state_writes h ev =
     (case ev of
        Client_sendStateEvent c r ty k x \<Rightarrow> Some (MatrixError ''M_FORBIDDEN'')
      | _ \<Rightarrow> None)"

text \<open>A transport on which every cleanup call is refused, one on which the cleanup
  calls inside a \<open>try\<close> are refused while the query of the bot's rooms answers, a bot that
  has joined the rooms of puppet 3, and a store with three mappings, two of them of
  puppet 3, with a ghost and an operator in the first room.\<close>

definition cleanup_always_fails :: "event list \<Rightarrow> event \<Rightarrow> error option" where
  "cleanup_always_fails h ev = (if cleanup_call ev then Some (MatrixError ''M_UNKNOWN'') else None)"

definition wrapped_always_fail :: "event list \<Rightarrow> event \<Rightarrow> error option" where
  "wrapped_always_fail h ev = (if wrapped_call ev then Some (MatrixError ''M_UNKNOWN'') else None)"

definition example_bot_env :: "(event list \<Rightarrow> event \<Rightarrow> error option) \<Rightarrow> env" where
  "example_bot_env f =
     (example_env f None None)
       \<lparr>getJoinedRooms_ret := (\<lambda>h. [''!abc:example.org'', ''!ghi:example.org''])\<rparr>"

definition example_puppet_rooms :: world where
  "example_puppet_rooms =
     empty_world\<lparr>room_store := [roomStore_newData ''!abc:example.org'' ''chan1'' 3,
                                 roomStore_newData ''!def:example.org'' ''chan2'' 4,
                                 roomStore_newData ''!ghi:example.org'' ''chan3'' 3],
                 chan_op := (\<lambda>r. if r = ''!abc:example.org'' then Some ''@_bridge_3_a:hs'' else None),
                 ghosts_in_room := (\<lambda>r. if r = ''!abc:example.org'' then [''@_bridge_3_a:hs'']
                                         else [])\<rparr>"

text \<open>A transport that rejects state events for a reason other than missing power; a
  world with one ghost user and one bridged room of puppet 3.\<close>

definition failing_state_writes :: "event list \<Rightarrow> event \<Rightarrow> error option" where
  "failing_state_writes h ev =
     (case ev of
        Client_sendStateEvent c r ty k x \<Rightarrow> Some (MatrixError ''M_LIMIT_EXCEEDED'')
      | _ \<Rightarrow> None)"

definition example_user :: IUserStoreEntry where
  "example_user = (userStore_newData 3 ''u1'')\<lparr>db_name := Some ''Una''\<rparr>"

definition example_bridge :: world where
  "example_bridge =
     empty_world\<lparr>room_store := [roomStore_newData ''!abc:example.org'' ''chan1'' 3],
                 user_store := [example_user]\<rparr>"

definition example_nick :: IRemoteProfile where
  "example_nick = \<lparr>name = Some ''Nick'', avatarUrl = None\<rparr>"

abbreviation (input) example_ghost :: client where
  "example_ghost \<equiv> IntentClient ''@_bridge_3_u1:hs''"

abbreviation (input) example_nick_entry :: IUserStoreRoomOverrideEntry where
  "example_nick_entry \<equiv> (userStore_newRoomOverrideData 3 ''u1'' ''chan1'')\<lparr>db_name := Some ''Nick''\<rparr>"

abbreviation (input) example_nick_update :: profile_update where
  "example_nick_update \<equiv>
     \<lparr>upd_name = Some ''Nick'', upd_avatarUrl = None, upd_avatarMxc = None, upd_avatarHash = None\<rparr>"

text \<open>A request for a room of puppet 3 that is not mapped yet, and two hooks: one keeps
  the identity of the request and adds a name, the other answers with another room.\<close>

definition example_request :: IRemoteRoom where
  "example_request = (mk_IRemoteRoom 3 ''chan9'')\<lparr>name := Some ''Lobby''\<rparr>"

definition renaming_hook :: "event list \<Rightarrow> IRemoteRoom \<Rightarrow> IRemoteRoom option" where
  "renaming_hook h d = Some (d\<lparr>name := Some ''Renamed''\<rparr>)"

definition straying_hook :: "event list \<Rightarrow> IRemoteRoom \<Rightarrow> IRemoteRoom option" where
  "straying_hook h d = Some (d\<lparr>name := Some ''Elsewhere'', roomId := ''other''\<rparr>)"

text \<open>Two requests for remote users of puppet 5 that have no ghost yet: another user
  than the puppet's own, and the puppet's own user \<open>alice\<close>, for whom no token is stored.\<close>

definition example_user_request :: IRemoteUser where
  "example_user_request = (mk_IRemoteUser 5 ''u9'')\<lparr>name := Some ''Zed''\<rparr>"

definition example_own_request :: IRemoteUser where
  "example_own_request = (mk_IRemoteUser 5 ''alice'')\<lparr>name := Some ''Alice''\<rparr>"

definition renaming_user_hook :: "event list \<Rightarrow> IRemoteUser \<Rightarrow> IRemoteUser option" where
  "renaming_user_hook h d = Some (d\<lparr>name := Some ''Renamed''\<rparr>)"

definition straying_user_hook :: "event list \<Rightarrow> IRemoteUser \<Rightarrow> IRemoteUser option" where
  "straying_user_hook h d = Some (d\<lparr>name := Some ''Elsewhere'', puppetId_u := 4\<rparr>)"

text \<open>A request for the stored ghost \<open>u1\<close> of puppet 3 under its stored name, with a
  nickname for the room \<open>chan1\<close>; a world in which that nickname is the stored override;
  and a request for the mapped room \<open>chan1\<close> that names nothing new.\<close>

definition example_nick_request :: IRemoteUser where
  "example_nick_request =
     (mk_IRemoteUser 3 ''u1'')\<lparr>name := Some ''Una'',
                               roomOverrides := Some [(''chan1'', example_nick)]\<rparr>"

definition example_nicked :: world where
  "example_nicked = example_bridge\<lparr>override_store := [example_nick_entry]\<rparr>"

definition example_same_room :: IRemoteRoom where
  "example_same_room = mk_IRemoteRoom 3 ''chan1''"

section \<open>Properties\<close>

lemmas io_defs = ret_def throw_def bnd_def try_catch_def modify_def logg_def callr_def call_def

subsection \<open>The upload cache\<close>

text \<open>
  Claim C2. A call of \<open>uploadContent\<close> with a byte buffer whose content digest already
  maps to a stored reference (a non-empty string, which the lookup returns) issues no
  upload to the transport: the only call that reaches a collaborator is the lookup of the
  digest. It returns the stored reference and leaves the cache as it was.
\<close>

theorem uploadContent_cached_digest:
  assumes "file_mxc w (HashBuffer E b) = Some ref" and "ref \<noteq> []"
    and "fails E (calls w) (Store_getFileMxc (HashBuffer E b)) = None"
  shows "fst (uploadContent E c (Bytes b) mimetype filename w) = Inr ref
       \<and> calls (snd (uploadContent E c (Bytes b) mimetype filename w))
           = calls w @ [Store_getFileMxc (HashBuffer E b)]
       \<and> file_mxc (snd (uploadContent E c (Bytes b) mimetype filename w)) = file_mxc w"
  using assms
  by (simp add: uploadContent_def upload_buffer_def mxc_wait_set_def store_getFileMxc_def
      io_defs truthy_def Let_def)

theorem uploadContent_cached_digest_witness:
  "fst (uploadContent (example_env never_fails None None) None (Bytes ''png-bytes'') None None
          (empty_world\<lparr>file_mxc := Map.empty(''sha:png-bytes'' \<mapsto> ''mxc://hs/avatar'')\<rparr>))
     = Inr ''mxc://hs/avatar''
   \<and> calls (snd (uploadContent (example_env never_fails None None) None (Bytes ''png-bytes'') None None
          (empty_world\<lparr>file_mxc := Map.empty(''sha:png-bytes'' \<mapsto> ''mxc://hs/avatar'')\<rparr>)))
     = [Store_getFileMxc ''sha:png-bytes'']"
  using uploadContent_cached_digest [of
      "empty_world\<lparr>file_mxc := Map.empty(''sha:png-bytes'' \<mapsto> ''mxc://hs/avatar'')\<rparr>"
      "example_env never_fails None None" "''png-bytes''" "''mxc://hs/avatar''" None None None]
  by (simp add: example_env_def never_fails_def empty_world_def)

text \<open>
  Claim C3 (the part the code misses). On the cache hit of claim C2 \<open>uploadContent\<close>
  leaves by the early \<open>return maybeMxcUrl\<close> inside the \<open>try\<close> block; the release loops
  stand only at the end of the block and in the \<open>catch\<close>, so the lock the call set for
  the digest still has its holder registered when the call has completed.
\<close>

theorem uploadContent_cache_hit_keeps_lock:
  "fst (uploadContent (example_env never_fails None None) None (Bytes ''png-bytes'') None None
          (empty_world\<lparr>file_mxc := Map.empty(''sha:png-bytes'' \<mapsto> ''mxc://hs/avatar'')\<rparr>))
     = Inr ''mxc://hs/avatar''
   \<and> mxcLookupLock (snd (uploadContent (example_env never_fails None None) None
          (Bytes ''png-bytes'') None None
          (empty_world\<lparr>file_mxc := Map.empty(''sha:png-bytes'' \<mapsto> ''mxc://hs/avatar'')\<rparr>)))
     = {''sha:png-bytes''}"
  by (simp add: uploadContent_def upload_buffer_def mxc_wait_set_def store_getFileMxc_def
      io_defs truthy_def Let_def example_env_def never_fails_def empty_world_def
      Lock_set_def Lock_wait_def)

subsection \<open>Inverse lookup\<close>

lemma match_suffix_Some_form:
  assumes "match_suffix s = Some (ds, r)"
  shows "spec_suffix_form s"
proof -
  from assms obtain rest where ds: "ds = takeWhile is_digit s" "ds \<noteq> []"
    and dr: "dropWhile is_digit s = CHR ''_'' # rest"
    by (auto simp: match_suffix_def Let_def split: if_splits list.splits)
  have "s = takeWhile is_digit s @ dropWhile is_digit s" by simp
  then have "s = ds @ ''_'' @ rest" using ds dr by simp
  moreover have "\<forall>c \<in> set ds. is_digit c"
    using ds(1) by (auto dest: set_takeWhileD)
  ultimately show ?thesis using ds(2) unfolding spec_suffix_form_def by blast
qed

lemma match_suffix_form_Some:
  assumes "spec_suffix_form s"
  shows "\<exists>ds r. match_suffix s = Some (ds, r)"
proof -
  from assms obtain ds rest where ds: "ds \<noteq> []" "\<forall>c \<in> set ds. is_digit c"
    and s: "s = ds @ CHR ''_'' # rest"
    unfolding spec_suffix_form_def by auto
  have nd: "\<not> is_digit CHR ''_''" by (simp add: is_digit_def)
  have "takeWhile is_digit s = ds" using ds(2) nd unfolding s by simp
  moreover have "dropWhile is_digit s = CHR ''_'' # rest" using ds(2) nd unfolding s by simp
  ultimately show ?thesis using ds(1) by (simp add: match_suffix_def Let_def)
qed

lemma match_suffix_None_iff: "match_suffix s = None \<longleftrightarrow> \<not> spec_suffix_form s"
  using match_suffix_Some_form match_suffix_form_Some
  by (cases "match_suffix s") fastforce+

lemma find_distinct_key:
  "distinct (map f xs) \<Longrightarrow> x \<in> set xs \<Longrightarrow> find (\<lambda>e. f e = f x) xs = Some x"
  by (induction xs) (auto simp: image_iff)

lemma find_no_key: "(\<forall>x \<in> set xs. f x \<noteq> k) \<Longrightarrow> find (\<lambda>e. f e = k) xs = None"
  by (induction xs) auto

lemma match_suffix_example: "match_suffix ''7_a2b3'' = Some (''7'', ''a2b3'')"
  by (simp add: match_suffix_def is_digit_def)

lemma Number_digits_7: "Number_digits ''7'' = 7"
  by (simp add: Number_digits_def digit_value_def)

text \<open>
  Claim C9. \<open>getPartsFromMxid\<close> of the room synchroniser, on an id that starts with
  \<open>!\<close> (and a store that answers), returns the (puppetId, roomId) of the mapping stored
  for that room id, and null when no mapping has it. On an alias whose suffix in the
  bridge namespace is \<open>7_a2b3\<close> it returns puppetId 7 and the room id \<open>mxid2str\<close> of
  \<open>a2b3\<close>; a suffix that is not of the form digits, underscore, rest yields null. The
  user synchroniser's \<open>getPartsFromMxid\<close> parses the suffix of a user id the same way.
\<close>

theorem getPartsFromMxid_inverse_lookup:
  "(fails E (calls w) (RoomStore_getByMxid (CHR ''!'' # m)) = None
      \<and> distinct (map mxid (room_store w)) \<and> x \<in> set (room_store w) \<and> mxid x = CHR ''!'' # m
    \<longrightarrow> fst (roomSync_getPartsFromMxid E (CHR ''!'' # m) w)
          = Inr (Some (mk_IRemoteRoom (r_puppetId x) (r_roomId x))))
 \<and> (fails E (calls w) (RoomStore_getByMxid (CHR ''!'' # m)) = None
      \<and> (\<forall>x \<in> set (room_store w). mxid x \<noteq> CHR ''!'' # m)
    \<longrightarrow> fst (roomSync_getPartsFromMxid E (CHR ''!'' # m) w) = Inr None)
 \<and> (take 1 a \<noteq> ''!'' \<and> getSuffixForAlias E a = Some ''7_a2b3''
    \<longrightarrow> roomSync_getPartsFromMxid E a w = (Inr (Some (mk_IRemoteRoom 7 (mxid2str E ''a2b3''))), w))
 \<and> (take 1 a \<noteq> ''!'' \<and> getSuffixForAlias E a = Some s \<and> \<not> spec_suffix_form s
    \<longrightarrow> roomSync_getPartsFromMxid E a w = (Inr None, w))
 \<and> (getSuffixForUserId E u = Some ''7_a2b3''
    \<longrightarrow> userSync_getPartsFromMxid E u = Some (mk_IRemoteUser 7 (mxid2str E ''a2b3'')))
 \<and> (getSuffixForUserId E u = Some s \<and> \<not> spec_suffix_form s
    \<longrightarrow> userSync_getPartsFromMxid E u = None)"
proof (intro conjI impI)
  assume h: "fails E (calls w) (RoomStore_getByMxid (CHR ''!'' # m)) = None
      \<and> distinct (map mxid (room_store w)) \<and> x \<in> set (room_store w) \<and> mxid x = CHR ''!'' # m"
  then have "find (\<lambda>e. mxid e = CHR ''!'' # m) (room_store w) = Some x"
    using find_distinct_key [of mxid "room_store w" x] by simp
  with h show "fst (roomSync_getPartsFromMxid E (CHR ''!'' # m) w)
          = Inr (Some (mk_IRemoteRoom (r_puppetId x) (r_roomId x)))"
    by (simp add: roomSync_getPartsFromMxid_def roomStore_getByMxid_def io_defs Let_def)
next
  assume h: "fails E (calls w) (RoomStore_getByMxid (CHR ''!'' # m)) = None
      \<and> (\<forall>x \<in> set (room_store w). mxid x \<noteq> CHR ''!'' # m)"
  then have "find (\<lambda>e. mxid e = CHR ''!'' # m) (room_store w) = None"
    using find_no_key [of "room_store w" mxid] by simp
  with h show "fst (roomSync_getPartsFromMxid E (CHR ''!'' # m) w) = Inr None"
    by (simp add: roomSync_getPartsFromMxid_def roomStore_getByMxid_def io_defs Let_def)
next
  assume "take 1 a \<noteq> ''!'' \<and> getSuffixForAlias E a = Some ''7_a2b3''"
  then show "roomSync_getPartsFromMxid E a w
      = (Inr (Some (mk_IRemoteRoom 7 (mxid2str E ''a2b3''))), w)"
    by (cases a)
      (simp_all add: roomSync_getPartsFromMxid_def truthy_def match_suffix_example
        Number_digits_7 ret_def)
next
  assume h: "take 1 a \<noteq> ''!'' \<and> getSuffixForAlias E a = Some s \<and> \<not> spec_suffix_form s"
  then have "match_suffix s = None" by (simp add: match_suffix_None_iff)
  with h show "roomSync_getPartsFromMxid E a w = (Inr None, w)"
    by (cases a) (simp_all add: roomSync_getPartsFromMxid_def truthy_def ret_def)
next
  assume "getSuffixForUserId E u = Some ''7_a2b3''"
  then show "userSync_getPartsFromMxid E u = Some (mk_IRemoteUser 7 (mxid2str E ''a2b3''))"
    by (simp add: userSync_getPartsFromMxid_def truthy_def match_suffix_example Number_digits_7)
next
  assume h: "getSuffixForUserId E u = Some s \<and> \<not> spec_suffix_form s"
  then have "match_suffix s = None" by (simp add: match_suffix_None_iff)
  with h show "userSync_getPartsFromMxid E u = None"
    by (simp add: userSync_getPartsFromMxid_def truthy_def)
qed

theorem getPartsFromMxid_inverse_lookup_witness:
  "fst (roomSync_getPartsFromMxid (example_env never_fails None None) ''!abc:example.org''
          example_rooms) = Inr (Some (mk_IRemoteRoom 3 ''chan1''))
 \<and> fst (roomSync_getPartsFromMxid (example_env never_fails None None) ''!xyz:example.org''
          example_rooms) = Inr None
 \<and> roomSync_getPartsFromMxid (example_env never_fails None None) ''#_bridge_7_a2b3:hs''
          example_rooms = (Inr (Some (mk_IRemoteRoom 7 ''a2b3'')), example_rooms)
 \<and> \<not> spec_suffix_form ''seven_a2b3''
 \<and> roomSync_getPartsFromMxid (example_env never_fails None None) ''#_bridge_seven_a2b3:hs''
          example_rooms = (Inr None, example_rooms)
 \<and> userSync_getPartsFromMxid (example_env never_fails None None) ''@_bridge_7_a2b3:hs''
     = Some (mk_IRemoteUser 7 ''a2b3'')
 \<and> userSync_getPartsFromMxid (example_env never_fails None None) ''@_bridge_seven_a2b3:hs''
     = None"
proof -
  let ?E = "example_env never_fails None None"
  have nf: "\<not> spec_suffix_form ''seven_a2b3''"
    using match_suffix_None_iff [of "''seven_a2b3''"]
    by (simp add: match_suffix_def is_digit_def)
  have sa: "getSuffixForAlias ?E ''#_bridge_7_a2b3:hs'' = Some ''7_a2b3''"
    "getSuffixForAlias ?E ''#_bridge_seven_a2b3:hs'' = Some ''seven_a2b3''"
    "getSuffixForUserId ?E ''@_bridge_7_a2b3:hs'' = Some ''7_a2b3''"
    "getSuffixForUserId ?E ''@_bridge_seven_a2b3:hs'' = Some ''seven_a2b3''"
    by (simp_all add: example_env_def strip_prefix_def)
  have st: "fails ?E (calls example_rooms) ev = None" for ev
    by (simp add: example_env_def never_fails_def)
  have rs: "room_store example_rooms = [roomStore_newData ''!abc:example.org'' ''chan1'' 3]"
    by (simp add: example_rooms_def empty_world_def)
  have mx: "mxid2str ?E = (\<lambda>s. s)" by (simp add: example_env_def)
  show ?thesis
    using getPartsFromMxid_inverse_lookup
        [of ?E example_rooms "''abc:example.org''"
          "roomStore_newData ''!abc:example.org'' ''chan1'' 3" "''#_bridge_7_a2b3:hs''"
          "''seven_a2b3''" "''@_bridge_7_a2b3:hs''"]
      getPartsFromMxid_inverse_lookup
        [of ?E example_rooms "''xyz:example.org''"
          "roomStore_newData ''!abc:example.org'' ''chan1'' 3" "''#_bridge_seven_a2b3:hs''"
          "''seven_a2b3''" "''@_bridge_seven_a2b3:hs''"]
      nf sa st rs mx
    by (simp add: roomStore_newData_def)
qed

subsection \<open>Leaving ghosts and operator succession\<close>

lemma maybeLeaveGhost_noop:
  assumes "userMxid \<notin> set (ghosts_in_room w roomMxid) \<or> ghosts_in_room w roomMxid = [userMxid]"
  shows "snd (maybeLeaveGhost E roomMxid userMxid w)
       = w\<lparr>calls := calls w @ [PuppetStore_getGhostsInRoom roomMxid]\<rparr>"
  using assms
  by (auto simp: maybeLeaveGhost_def puppetStore_getGhostsInRoom_def io_defs Let_def
      split: option.splits)

lemma find_other_length:
  assumes "u \<in> set gs" and "find (\<lambda>e. e \<noteq> u) gs = Some n"
  shows "length gs \<noteq> 1"
proof
  assume "length gs = 1"
  then obtain g where "gs = [g]" by (cases gs) auto
  with assms show False by (auto split: if_splits)
qed

lemma passOnOp_ok:
  assumes nofail: "\<forall>h ev. fails E h ev = None"
    and pl: "getRoomStateEvent_ret E (calls w) roomMxid ''m.room.power_levels'' [] = PowerLevels users"
  shows "passOnOp E roomMxid userMxid newOp w
       = (Inr True,
          w\<lparr>calls := calls w @
               [Client_getRoomStateEvent (IntentClient userMxid) roomMxid ''m.room.power_levels'' [],
                Client_sendStateEvent (IntentClient userMxid) roomMxid ''m.room.power_levels'' []
                  (PowerLevels (users(newOp := users userMxid))),
                RoomStore_setRoomOp roomMxid newOp],
             chan_op := (chan_op w)(roomMxid \<mapsto> newOp)\<rparr>)"
  using assms
  by (simp add: passOnOp_def roomStore_setRoomOp_def io_defs Let_def)

lemma leaveGhost_ok:
  assumes nofail: "\<forall>h ev. fails E h ev = None"
  shows "leaveGhost E roomMxid userMxid w
       = (Inr (),
          w\<lparr>calls := calls w @
               [Intent_leaveRoom userMxid roomMxid,
                PuppetStore_leaveGhostFromRoom userMxid roomMxid],
             ghosts_in_room := (ghosts_in_room w)
               (roomMxid := removeAll userMxid (ghosts_in_room w roomMxid))\<rparr>)"
  using assms
  by (simp add: leaveGhost_def puppetStore_leaveGhostFromRoom_def io_defs Let_def)

lemma maybeLeaveGhost_transfer:
  assumes nofail: "\<forall>h ev. fails E h ev = None"
    and isin: "userMxid \<in> set (ghosts_in_room w roomMxid)"
    and op: "chan_op w roomMxid = Some userMxid"
    and other: "find (\<lambda>element. element \<noteq> userMxid) (ghosts_in_room w roomMxid) = Some newOp"
      "newOp \<noteq> []"
    and pl: "getRoomStateEvent_ret E
               (calls w @ [PuppetStore_getGhostsInRoom roomMxid, RoomStore_getRoomOp roomMxid])
               roomMxid ''m.room.power_levels'' [] = PowerLevels users"
  shows "maybeLeaveGhost E roomMxid userMxid w
       = (Inr (),
          w\<lparr>calls := calls w @
               [PuppetStore_getGhostsInRoom roomMxid,
                RoomStore_getRoomOp roomMxid,
                Client_getRoomStateEvent (IntentClient userMxid) roomMxid ''m.room.power_levels'' [],
                Client_sendStateEvent (IntentClient userMxid) roomMxid ''m.room.power_levels'' []
                  (PowerLevels (users(newOp := users userMxid))),
                RoomStore_setRoomOp roomMxid newOp,
                Intent_leaveRoom userMxid roomMxid,
                PuppetStore_leaveGhostFromRoom userMxid roomMxid],
             chan_op := (chan_op w)(roomMxid \<mapsto> newOp),
             ghosts_in_room := (ghosts_in_room w)
               (roomMxid := removeAll userMxid (ghosts_in_room w roomMxid))\<rparr>)"
proof -
  have len: "length (ghosts_in_room w roomMxid) \<noteq> 1"
    using find_other_length [OF isin other(1)] .
  let ?w2 = "w\<lparr>calls := calls w @ [PuppetStore_getGhostsInRoom roomMxid, RoomStore_getRoomOp roomMxid]\<rparr>"
  have step: "maybeLeaveGhost E roomMxid userMxid w
      = bnd (passOnOp E roomMxid userMxid newOp)
          (\<lambda>passed. if passed then leaveGhost E roomMxid userMxid else ret ()) ?w2"
    using nofail isin op other len
    by (simp add: maybeLeaveGhost_def puppetStore_getGhostsInRoom_def
        roomStore_getRoomOp_def callr_def bnd_def Let_def truthy_def)
  have pl': "getRoomStateEvent_ret E (calls ?w2) roomMxid ''m.room.power_levels'' [] = PowerLevels users"
    using pl by simp
  show ?thesis
    unfolding step
    by (simp add: bnd_def passOnOp_ok [OF nofail pl'] leaveGhost_ok [OF nofail])
qed

lemma maybeLeaveGhost_nobody:
  assumes "fails E (calls w) (PuppetStore_getGhostsInRoom roomMxid) = None"
    and "fails E (calls w @ [PuppetStore_getGhostsInRoom roomMxid]) (RoomStore_getRoomOp roomMxid) = None"
    and "userMxid \<in> set (ghosts_in_room w roomMxid)"
    and "length (ghosts_in_room w roomMxid) \<noteq> 1"
    and "chan_op w roomMxid = Some userMxid"
    and "\<forall>g \<in> set (ghosts_in_room w roomMxid). g = userMxid"
  shows "maybeLeaveGhost E roomMxid userMxid w
       = (Inr (), w\<lparr>calls := calls w @
               [PuppetStore_getGhostsInRoom roomMxid, RoomStore_getRoomOp roomMxid]\<rparr>)"
proof -
  have "find (\<lambda>element. element \<noteq> userMxid) (ghosts_in_room w roomMxid) = None"
    using assms(6) by (simp add: find_None_iff)
  then show ?thesis
    using assms(1-5)
    by (simp add: maybeLeaveGhost_def puppetStore_getGhostsInRoom_def
        roomStore_getRoomOp_def callr_def bnd_def ret_def Let_def truthy_def)
qed

lemma passOnOp_fail1:
  assumes "fails E (calls w) (getPowerLevels userMxid roomMxid) = Some e"
  shows "passOnOp E roomMxid userMxid newOp w
       = (Inr False, w\<lparr>calls := calls w @ [getPowerLevels userMxid roomMxid]
                                   @ [Log_error ''Couldn't set new room OP'']\<rparr>)"
  using assms by (simp add: passOnOp_def io_defs Let_def)

lemma passOnOp_fail2:
  assumes "fails E (calls w) (getPowerLevels userMxid roomMxid) = None"
    and "getRoomStateEvent_ret E (calls w) roomMxid ''m.room.power_levels'' [] = PowerLevels users"
    and "fails E (calls w @ [getPowerLevels userMxid roomMxid])
           (sendPowerLevels userMxid roomMxid (users(newOp := users userMxid))) = Some e"
  shows "passOnOp E roomMxid userMxid newOp w
       = (Inr False, w\<lparr>calls := calls w @ [getPowerLevels userMxid roomMxid,
                                     sendPowerLevels userMxid roomMxid (users(newOp := users userMxid))]
                                   @ [Log_error ''Couldn't set new room OP'']\<rparr>)"
  using assms by (simp add: passOnOp_def io_defs Let_def)

lemma passOnOp_fail3:
  assumes "fails E (calls w) (getPowerLevels userMxid roomMxid) = None"
    and "getRoomStateEvent_ret E (calls w) roomMxid ''m.room.power_levels'' [] = PowerLevels users"
    and "fails E (calls w @ [getPowerLevels userMxid roomMxid])
           (sendPowerLevels userMxid roomMxid (users(newOp := users userMxid))) = None"
    and "fails E (calls w @ [getPowerLevels userMxid roomMxid,
                   sendPowerLevels userMxid roomMxid (users(newOp := users userMxid))])
           (RoomStore_setRoomOp roomMxid newOp) = Some e"
  shows "passOnOp E roomMxid userMxid newOp w
       = (Inr False, w\<lparr>calls := calls w @ [getPowerLevels userMxid roomMxid,
                                     sendPowerLevels userMxid roomMxid (users(newOp := users userMxid)),
                                     RoomStore_setRoomOp roomMxid newOp]
                                   @ [Log_error ''Couldn't set new room OP'']\<rparr>)"
  using assms by (simp add: passOnOp_def roomStore_setRoomOp_def io_defs Let_def)

lemma passOnOp_aborts:
  assumes "fails E (calls w) (getPowerLevels userMxid roomMxid) \<noteq> None
         \<or> getRoomStateEvent_ret E (calls w) roomMxid ''m.room.power_levels'' [] = PowerLevels users
           \<and> (fails E (calls w @ [getPowerLevels userMxid roomMxid])
                 (sendPowerLevels userMxid roomMxid (users(newOp := users userMxid))) \<noteq> None
              \<or> fails E (calls w @ [getPowerLevels userMxid roomMxid,
                                    sendPowerLevels userMxid roomMxid (users(newOp := users userMxid))])
                   (RoomStore_setRoomOp roomMxid newOp) \<noteq> None)"
  shows "\<exists>evs. passOnOp E roomMxid userMxid newOp w
           = (Inr False, w\<lparr>calls := calls w @ evs @ [Log_error ''Couldn't set new room OP'']\<rparr>)
         \<and> (\<forall>u r. Intent_leaveRoom u r \<notin> set evs)"
proof (cases "fails E (calls w) (getPowerLevels userMxid roomMxid)")
  case (Some e)
  show ?thesis
    by (rule exI [of _ "[getPowerLevels userMxid roomMxid]"]) (simp add: passOnOp_fail1 [OF Some])
next
  case None
  with assms have r: "getRoomStateEvent_ret E (calls w) roomMxid ''m.room.power_levels'' [] = PowerLevels users"
    and d: "fails E (calls w @ [getPowerLevels userMxid roomMxid])
                 (sendPowerLevels userMxid roomMxid (users(newOp := users userMxid))) \<noteq> None
              \<or> fails E (calls w @ [getPowerLevels userMxid roomMxid,
                                    sendPowerLevels userMxid roomMxid (users(newOp := users userMxid))])
                   (RoomStore_setRoomOp roomMxid newOp) \<noteq> None"
    by auto
  show ?thesis
  proof (cases "fails E (calls w @ [getPowerLevels userMxid roomMxid])
                 (sendPowerLevels userMxid roomMxid (users(newOp := users userMxid)))")
    case (Some e)
    show ?thesis
      by (rule exI [of _ "[getPowerLevels userMxid roomMxid,
                sendPowerLevels userMxid roomMxid (users(newOp := users userMxid))]"])
        (simp add: passOnOp_fail2 [OF None r Some])
  next
    case n2: None
    with d obtain e where f3: "fails E (calls w @ [getPowerLevels userMxid roomMxid,
                                    sendPowerLevels userMxid roomMxid (users(newOp := users userMxid))])
                   (RoomStore_setRoomOp roomMxid newOp) = Some e"
      by auto
    show ?thesis
      by (rule exI [of _ "[getPowerLevels userMxid roomMxid,
                sendPowerLevels userMxid roomMxid (users(newOp := users userMxid)),
                RoomStore_setRoomOp roomMxid newOp]"])
        (simp add: passOnOp_fail3 [OF None r n2 f3])
  qed
qed

lemma maybeLeaveGhost_transfer_fails:
  assumes reads: "fails E (calls w) (PuppetStore_getGhostsInRoom roomMxid) = None"
      "fails E (calls w @ [PuppetStore_getGhostsInRoom roomMxid]) (RoomStore_getRoomOp roomMxid) = None"
    and isin: "userMxid \<in> set (ghosts_in_room w roomMxid)"
    and op: "chan_op w roomMxid = Some userMxid"
    and other: "find (\<lambda>element. element \<noteq> userMxid) (ghosts_in_room w roomMxid) = Some newOp"
      "newOp \<noteq> []"
    and h: "h = calls w @ [PuppetStore_getGhostsInRoom roomMxid, RoomStore_getRoomOp roomMxid]"
    and fl: "fails E h (getPowerLevels userMxid roomMxid) \<noteq> None
         \<or> getRoomStateEvent_ret E h roomMxid ''m.room.power_levels'' [] = PowerLevels users
           \<and> (fails E (h @ [getPowerLevels userMxid roomMxid])
                 (sendPowerLevels userMxid roomMxid (users(newOp := users userMxid))) \<noteq> None
              \<or> fails E (h @ [getPowerLevels userMxid roomMxid,
                                sendPowerLevels userMxid roomMxid (users(newOp := users userMxid))])
                   (RoomStore_setRoomOp roomMxid newOp) \<noteq> None)"
  shows "fst (maybeLeaveGhost E roomMxid userMxid w) = Inr ()
       \<and> ghosts_in_room (snd (maybeLeaveGhost E roomMxid userMxid w)) = ghosts_in_room w
       \<and> chan_op (snd (maybeLeaveGhost E roomMxid userMxid w)) = chan_op w
       \<and> (\<forall>u r. Intent_leaveRoom u r
              \<notin> set (drop (length (calls w)) (calls (snd (maybeLeaveGhost E roomMxid userMxid w)))))
       \<and> last (calls (snd (maybeLeaveGhost E roomMxid userMxid w)))
           = Log_error ''Couldn't set new room OP''"
proof -
  have len: "length (ghosts_in_room w roomMxid) \<noteq> 1"
    using find_other_length [OF isin other(1)] .
  let ?w2 = "w\<lparr>calls := h\<rparr>"
  have step: "maybeLeaveGhost E roomMxid userMxid w
      = bnd (passOnOp E roomMxid userMxid newOp)
          (\<lambda>passed. if passed then leaveGhost E roomMxid userMxid else ret ()) ?w2"
    using reads isin op other len h
    by (simp add: maybeLeaveGhost_def puppetStore_getGhostsInRoom_def
        roomStore_getRoomOp_def callr_def bnd_def Let_def truthy_def)
  obtain evs where p: "passOnOp E roomMxid userMxid newOp ?w2
           = (Inr False, ?w2\<lparr>calls := calls ?w2 @ evs @ [Log_error ''Couldn't set new room OP'']\<rparr>)"
      and nl: "\<forall>u r. Intent_leaveRoom u r \<notin> set evs"
    using passOnOp_aborts [of E ?w2 userMxid roomMxid users newOp] fl by (auto simp: h)
  have res: "maybeLeaveGhost E roomMxid userMxid w
      = (Inr (), ?w2\<lparr>calls := calls ?w2 @ evs @ [Log_error ''Couldn't set new room OP'']\<rparr>)"
    unfolding step by (simp add: bnd_def p ret_def)
  show ?thesis
    unfolding res using nl by (simp add: h)
qed

text \<open>
  Claim C4. \<open>maybeLeaveGhost\<close> only reads the ghost list when the ghost is not in the
  room or is the only entry of the list. When the departing ghost is the stored operator
  and the list holds another ghost, the power levels with that ghost raised are sent and
  the new operator is stored before the ghost leaves. When the list holds no other
  ghost, or reading the power levels, sending them or storing the new operator fails,
  nothing leaves: the error is logged and the call returns.
\<close>

theorem maybeLeaveGhost_operator_handoff:
  "(userMxid \<notin> set (ghosts_in_room w roomMxid) \<or> ghosts_in_room w roomMxid = [userMxid]
    \<longrightarrow> snd (maybeLeaveGhost E roomMxid userMxid w)
          = w\<lparr>calls := calls w @ [PuppetStore_getGhostsInRoom roomMxid]\<rparr>)
 \<and> ((\<forall>h ev. fails E h ev = None)
      \<and> userMxid \<in> set (ghosts_in_room w roomMxid)
      \<and> chan_op w roomMxid = Some userMxid
      \<and> find (\<lambda>element. element \<noteq> userMxid) (ghosts_in_room w roomMxid) = Some newOp
      \<and> newOp \<noteq> []
      \<and> getRoomStateEvent_ret E
            (calls w @ [PuppetStore_getGhostsInRoom roomMxid, RoomStore_getRoomOp roomMxid])
            roomMxid ''m.room.power_levels'' [] = PowerLevels users
    \<longrightarrow> maybeLeaveGhost E roomMxid userMxid w
          = (Inr (),
             w\<lparr>calls := calls w @
                  [PuppetStore_getGhostsInRoom roomMxid,
                   RoomStore_getRoomOp roomMxid,
                   getPowerLevels userMxid roomMxid,
                   sendPowerLevels userMxid roomMxid (users(newOp := users userMxid)),
                   RoomStore_setRoomOp roomMxid newOp,
                   Intent_leaveRoom userMxid roomMxid,
                   PuppetStore_leaveGhostFromRoom userMxid roomMxid],
                chan_op := (chan_op w)(roomMxid \<mapsto> newOp),
                ghosts_in_room := (ghosts_in_room w)
                  (roomMxid := removeAll userMxid (ghosts_in_room w roomMxid))\<rparr>))
 \<and> (fails E (calls w) (PuppetStore_getGhostsInRoom roomMxid) = None
      \<and> fails E (calls w @ [PuppetStore_getGhostsInRoom roomMxid]) (RoomStore_getRoomOp roomMxid) = None
      \<and> userMxid \<in> set (ghosts_in_room w roomMxid)
      \<and> length (ghosts_in_room w roomMxid) \<noteq> 1
      \<and> chan_op w roomMxid = Some userMxid
      \<and> (\<forall>g \<in> set (ghosts_in_room w roomMxid). g = userMxid)
    \<longrightarrow> maybeLeaveGhost E roomMxid userMxid w
          = (Inr (), w\<lparr>calls := calls w @
               [PuppetStore_getGhostsInRoom roomMxid, RoomStore_getRoomOp roomMxid]\<rparr>))
 \<and> (fails E (calls w) (PuppetStore_getGhostsInRoom roomMxid) = None
      \<and> fails E (calls w @ [PuppetStore_getGhostsInRoom roomMxid]) (RoomStore_getRoomOp roomMxid) = None
      \<and> userMxid \<in> set (ghosts_in_room w roomMxid)
      \<and> chan_op w roomMxid = Some userMxid
      \<and> find (\<lambda>element. element \<noteq> userMxid) (ghosts_in_room w roomMxid) = Some newOp
      \<and> newOp \<noteq> []
      \<and> h = calls w @ [PuppetStore_getGhostsInRoom roomMxid, RoomStore_getRoomOp roomMxid]
      \<and> (fails E h (getPowerLevels userMxid roomMxid) \<noteq> None
         \<or> getRoomStateEvent_ret E h roomMxid ''m.room.power_levels'' [] = PowerLevels users
           \<and> (fails E (h @ [getPowerLevels userMxid roomMxid])
                 (sendPowerLevels userMxid roomMxid (users(newOp := users userMxid))) \<noteq> None
              \<or> fails E (h @ [getPowerLevels userMxid roomMxid,
                                sendPowerLevels userMxid roomMxid (users(newOp := users userMxid))])
                   (RoomStore_setRoomOp roomMxid newOp) \<noteq> None))
    \<longrightarrow> fst (maybeLeaveGhost E roomMxid userMxid w) = Inr ()
       \<and> ghosts_in_room (snd (maybeLeaveGhost E roomMxid userMxid w)) = ghosts_in_room w
       \<and> chan_op (snd (maybeLeaveGhost E roomMxid userMxid w)) = chan_op w
       \<and> (\<forall>u r. Intent_leaveRoom u r
              \<notin> set (drop (length (calls w)) (calls (snd (maybeLeaveGhost E roomMxid userMxid w)))))
       \<and> last (calls (snd (maybeLeaveGhost E roomMxid userMxid w)))
           = Log_error ''Couldn't set new room OP'')"
  using maybeLeaveGhost_noop [of userMxid w roomMxid E]
    maybeLeaveGhost_transfer [of E userMxid w roomMxid newOp users]
    maybeLeaveGhost_nobody [of E w roomMxid userMxid]
    maybeLeaveGhost_transfer_fails [of E w roomMxid userMxid newOp h users]
  by blast

theorem maybeLeaveGhost_operator_handoff_witness:
  "snd (maybeLeaveGhost (example_env never_fails None None) ''!solo:hs'' ''@_bridge_1_a:hs'' example_ghosts)
     = example_ghosts\<lparr>calls := [PuppetStore_getGhostsInRoom ''!solo:hs'']\<rparr>
 \<and> maybeLeaveGhost (example_env never_fails None None) ''!r:hs'' ''@_bridge_1_a:hs'' example_ghosts
     = (Inr (),
        example_ghosts\<lparr>calls :=
             [PuppetStore_getGhostsInRoom ''!r:hs'',
              RoomStore_getRoomOp ''!r:hs'',
              getPowerLevels ''@_bridge_1_a:hs'' ''!r:hs'',
              sendPowerLevels ''@_bridge_1_a:hs'' ''!r:hs''
                (Map.empty(''@_bridge_1_a:hs'' \<mapsto> 100, ''@_bridge_1_b:hs'' \<mapsto> 100)),
              RoomStore_setRoomOp ''!r:hs'' ''@_bridge_1_b:hs'',
              Intent_leaveRoom ''@_bridge_1_a:hs'' ''!r:hs'',
              PuppetStore_leaveGhostFromRoom ''@_bridge_1_a:hs'' ''!r:hs''],
           chan_op := (chan_op example_ghosts)(''!r:hs'' \<mapsto> ''@_bridge_1_b:hs''),
           ghosts_in_room := (ghosts_in_room example_ghosts)(''!r:hs'' := [''@_bridge_1_b:hs''])\<rparr>)
 \<and> maybeLeaveGhost (example_env never_fails None None) ''!twice:hs'' ''@_bridge_1_a:hs'' example_ghosts
     = (Inr (), example_ghosts\<lparr>calls :=
          [PuppetStore_getGhostsInRoom ''!twice:hs'', RoomStore_getRoomOp ''!twice:hs'']\<rparr>)
 \<and> fst (maybeLeaveGhost (example_env forbidden_state_writes None None) ''!r:hs'' ''@_bridge_1_a:hs''
          example_ghosts) = Inr ()
 \<and> ghosts_in_room (snd (maybeLeaveGhost (example_env forbidden_state_writes None None) ''!r:hs''
          ''@_bridge_1_a:hs'' example_ghosts)) = ghosts_in_room example_ghosts
 \<and> last (calls (snd (maybeLeaveGhost (example_env forbidden_state_writes None None) ''!r:hs''
          ''@_bridge_1_a:hs'' example_ghosts))) = Log_error ''Couldn't set new room OP''"
proof -
  let ?E = "example_env never_fails None None"
  let ?F = "example_env forbidden_state_writes None None"
  let ?a = "''@_bridge_1_a:hs''"
  let ?b = "''@_bridge_1_b:hs''"
  have g: "ghosts_in_room example_ghosts ''!r:hs'' = [?a, ?b]"
      "ghosts_in_room example_ghosts ''!twice:hs'' = [?a, ?a]"
      "ghosts_in_room example_ghosts ''!solo:hs'' = [?a]"
      "chan_op example_ghosts ''!r:hs'' = Some ?a"
      "chan_op example_ghosts ''!twice:hs'' = Some ?a"
      "calls example_ghosts = []"
    by (simp_all add: example_ghosts_def empty_world_def)
  have e: "fails ?E = never_fails" "fails ?F = forbidden_state_writes"
      "getRoomStateEvent_ret ?E = (\<lambda>h room ty key. PowerLevels (Map.empty(?a \<mapsto> 100)))"
      "getRoomStateEvent_ret ?F = (\<lambda>h room ty key. PowerLevels (Map.empty(?a \<mapsto> 100)))"
    by (simp_all add: example_env_def)
  have 1: "snd (maybeLeaveGhost ?E ''!solo:hs'' ?a example_ghosts)
     = example_ghosts\<lparr>calls := [PuppetStore_getGhostsInRoom ''!solo:hs'']\<rparr>"
    using maybeLeaveGhost_operator_handoff [of ?a example_ghosts "''!solo:hs''" ?E] g
    by simp
  have 2: "maybeLeaveGhost ?E ''!r:hs'' ?a example_ghosts
     = (Inr (),
        example_ghosts\<lparr>calls :=
             [PuppetStore_getGhostsInRoom ''!r:hs'',
              RoomStore_getRoomOp ''!r:hs'',
              getPowerLevels ?a ''!r:hs'',
              sendPowerLevels ?a ''!r:hs'' (Map.empty(?a \<mapsto> 100, ?b \<mapsto> 100)),
              RoomStore_setRoomOp ''!r:hs'' ?b,
              Intent_leaveRoom ?a ''!r:hs'',
              PuppetStore_leaveGhostFromRoom ?a ''!r:hs''],
           chan_op := (chan_op example_ghosts)(''!r:hs'' \<mapsto> ?b),
           ghosts_in_room := (ghosts_in_room example_ghosts)(''!r:hs'' := [?b])\<rparr>)"
    using maybeLeaveGhost_operator_handoff [of ?a example_ghosts "''!r:hs''" ?E ?b
        "Map.empty(?a \<mapsto> 100)"] g e
    by (simp add: never_fails_def)
  have 3: "maybeLeaveGhost ?E ''!twice:hs'' ?a example_ghosts
     = (Inr (), example_ghosts\<lparr>calls :=
          [PuppetStore_getGhostsInRoom ''!twice:hs'', RoomStore_getRoomOp ''!twice:hs'']\<rparr>)"
    using maybeLeaveGhost_operator_handoff [of ?a example_ghosts "''!twice:hs''" ?E] g e
    by (simp add: never_fails_def)
  have 4: "fst (maybeLeaveGhost ?F ''!r:hs'' ?a example_ghosts) = Inr ()
     \<and> ghosts_in_room (snd (maybeLeaveGhost ?F ''!r:hs'' ?a example_ghosts))
         = ghosts_in_room example_ghosts
     \<and> last (calls (snd (maybeLeaveGhost ?F ''!r:hs'' ?a example_ghosts)))
         = Log_error ''Couldn't set new room OP''"
    using maybeLeaveGhost_operator_handoff [of ?a example_ghosts "''!r:hs''" ?F ?b
        "Map.empty(?a \<mapsto> 100)"
        "[PuppetStore_getGhostsInRoom ''!r:hs'', RoomStore_getRoomOp ''!r:hs'']"] g e
    by (simp add: forbidden_state_writes_def)
  from 1 2 3 4 show ?thesis by simp
qed

subsection \<open>Deleting the rooms of a puppet\<close>

lemma keeps_ret [simp]: "keeps_rooms (ret x)"
  by (simp add: keeps_rooms_def ret_def)

lemma keeps_throw [simp]: "keeps_rooms (throw e)"
  by (simp add: keeps_rooms_def throw_def)

lemma keeps_callr [simp]: "keeps_rooms (callr E ev f)"
  by (simp add: keeps_rooms_def callr_def Let_def split: option.splits)

lemma keeps_call [simp]: "keeps_rooms (call E ev)"
  by (simp add: call_def)

lemma keeps_logg [simp]: "keeps_rooms (logg ev)"
  by (simp add: keeps_rooms_def logg_def modify_def)

lemma keeps_bnd: "keeps_rooms m \<Longrightarrow> (\<And>x. keeps_rooms (f x)) \<Longrightarrow> keeps_rooms (bnd m f)"
  by (auto simp: keeps_rooms_def bnd_def split: prod.splits sum.splits)
    (metis snd_conv)+

lemma keeps_try: "keeps_rooms m \<Longrightarrow> (\<And>e. keeps_rooms (h e)) \<Longrightarrow> keeps_rooms (try_catch m h)"
  by (auto simp: keeps_rooms_def try_catch_def split: prod.splits sum.splits)
    (metis snd_conv)+

lemma maps_rooms_eta [simp]: "maps_rooms (\<lambda>a. a) m = maps_rooms id m"
  by (simp add: id_def)

lemma maps_rooms_cong: "maps_rooms g m \<Longrightarrow> (\<And>rs. g rs = g' rs) \<Longrightarrow> maps_rooms g' m"
  by (simp add: maps_rooms_def)

lemma maps_ret [simp]: "maps_rooms id (ret x)"
  by (simp add: maps_rooms_def ret_def)

lemma maps_logg [simp]: "maps_rooms id (logg ev)"
  by (simp add: maps_rooms_def logg_def modify_def)

lemma maps_callr:
  assumes "only_wrapped_fail E" and "\<not> wrapped_call ev"
  shows "maps_rooms id (callr E ev f)"
proof -
  have "fails E h ev = None" for h
    using assms unfolding only_wrapped_fail_def by blast
  then show ?thesis by (simp add: maps_rooms_def callr_def Let_def)
qed

lemma maps_call:
  "only_wrapped_fail E \<Longrightarrow> \<not> wrapped_call ev \<Longrightarrow> maps_rooms id (call E ev)"
  by (simp add: call_def maps_callr)

lemma maps_bnd:
  assumes "maps_rooms g m" and "\<And>x. maps_rooms g' (f x)"
  shows "maps_rooms (g' \<circ> g) (bnd m f)"
  unfolding maps_rooms_def
proof (intro allI)
  fix w
  from assms(1) obtain x where m: "fst (m w) = Inr x" "room_store (snd (m w)) = g (room_store w)"
    unfolding maps_rooms_def by blast
  then have b: "bnd m f w = f x (snd (m w))"
    by (cases "m w") (simp add: bnd_def)
  from assms(2) [of x] have "(\<exists>y. fst (f x (snd (m w))) = Inr y)
      \<and> room_store (snd (f x (snd (m w)))) = g' (room_store (snd (m w)))"
    unfolding maps_rooms_def by blast
  then show "(\<exists>y. fst (bnd m f w) = Inr y) \<and> room_store (snd (bnd m f w)) = (g' \<circ> g) (room_store w)"
    using b m(2) by simp
qed

lemma maps_bnd_id:
  "maps_rooms id m \<Longrightarrow> (\<And>x. maps_rooms g (f x)) \<Longrightarrow> maps_rooms g (bnd m f)"
  using maps_bnd [of id m g f] by simp

lemma maps_try:
  assumes "keeps_rooms m" and "\<And>e. maps_rooms id (h e)"
  shows "maps_rooms id (try_catch m h)"
  unfolding maps_rooms_def
proof (intro allI)
  fix w
  have k: "room_store (snd (m w)) = room_store w" using assms(1) by (simp add: keeps_rooms_def)
  show "(\<exists>x. fst (try_catch m h w) = Inr x) \<and> room_store (snd (try_catch m h w)) = id (room_store w)"
  proof (cases "fst (m w)")
    case (Inr x)
    then show ?thesis using k by (cases "m w") (simp add: try_catch_def)
  next
    case (Inl e)
    then have t: "try_catch m h w = h e (snd (m w))" by (cases "m w") (simp add: try_catch_def)
    from assms(2) [of e] show ?thesis unfolding t maps_rooms_def using k by simp
  qed
qed

lemma keeps_deleteRoomAliases: "keeps_rooms (deleteRoomAliases E c as)"
  by (induction as) (simp_all add: keeps_bnd)

lemma maps_removeOldAliases: "maps_rooms id (removeOldAliases E c m)"
  unfolding removeOldAliases_def
  by (intro maps_try keeps_bnd keeps_try)
    (simp_all add: keeps_deleteRoomAliases split: content.splits)

lemma maps_getClientFromTokenCallback: "maps_rooms id (getClientFromTokenCallback E tok)"
  unfolding getClientFromTokenCallback_def client_getUserId_def
  by (cases tok) (simp_all add: Let_def maps_try keeps_bnd)

lemma maps_getRoomOp:
  assumes "only_wrapped_fail E"
  shows "maps_rooms id (getRoomOp E room)"
  unfolding getRoomOp_def roomStore_getRoomOp_def provisioner_getToken_def
  by (intro maps_bnd_id maps_callr assms)
    (simp_all add: maps_callr assms maps_getClientFromTokenCallback maps_bnd_id split: option.splits)

lemma maps_modify: "(\<And>w. room_store (f w) = g (room_store w)) \<Longrightarrow> maps_rooms g (modify f)"
  by (simp add: maps_rooms_def modify_def)

lemma maps_userSync_deleteForMxid:
  assumes "only_wrapped_fail E"
  shows "maps_rooms id (userSync_deleteForMxid E ghost)"
  unfolding userSync_deleteForMxid_def userStore_delete_def
  by (cases "userSync_getPartsFromMxid E ghost")
    (simp_all add: maps_bnd_id maps_call maps_modify assms)

lemma maps_removeGhosts:
  assumes "only_wrapped_fail E"
  shows "maps_rooms id (removeGhosts E keepUsers m ghosts)"
proof (induction ghosts)
  case Nil
  show ?case by simp
next
  case (Cons ghost ghosts)
  show ?case
    unfolding removeGhosts.simps
    by (intro maps_bnd_id maps_try Cons)
      (simp_all add: maps_userSync_deleteForMxid assms)
qed

lemma maps_roomStore_delete:
  assumes "only_wrapped_fail E"
  shows "maps_rooms (filter (\<lambda>e. mxid e \<noteq> mxid entry)) (roomStore_delete E entry)"
  unfolding roomStore_delete_def
  by (intro maps_bnd_id maps_call maps_modify assms) simp_all

lemma maps_deleteEntry:
  assumes "only_wrapped_fail E"
  shows "maps_rooms (filter (\<lambda>e. mxid e \<noteq> mxid entry)) (deleteEntry E entry keepUsers)"
proof -
  have rest: "maps_rooms id
     (bnd (callr E BotIntent_getJoinedRooms (\<lambda>h w. getJoinedRooms_ret E h)) (\<lambda>botRooms.
      bnd (if mxid entry \<in> set botRooms
           then try_catch (call E (BotIntent_leaveRoom (mxid entry)))
                  (\<lambda>err. logg (Log_warn ''Failed to make bot client leave''))
           else ret ()) (\<lambda>_.
      bnd (puppetStore_getGhostsInRoom E (mxid entry)) (\<lambda>ghosts.
      bnd (removeGhosts E keepUsers (mxid entry) ghosts) (\<lambda>_.
      puppetStore_emptyGhostsInRoom E (mxid entry))))))"
    unfolding puppetStore_getGhostsInRoom_def puppetStore_emptyGhostsInRoom_def
    by (intro maps_bnd_id maps_callr maps_call maps_removeGhosts maps_modify assms)
      (simp_all add: maps_try)
  have del: "maps_rooms (filter (\<lambda>e. mxid e \<noteq> mxid entry) \<circ> id)
     (bnd (roomStore_delete E entry) (\<lambda>_.
      bnd (callr E BotIntent_getJoinedRooms (\<lambda>h w. getJoinedRooms_ret E h)) (\<lambda>botRooms.
      bnd (if mxid entry \<in> set botRooms
           then try_catch (call E (BotIntent_leaveRoom (mxid entry)))
                  (\<lambda>err. logg (Log_warn ''Failed to make bot client leave''))
           else ret ()) (\<lambda>_.
      bnd (puppetStore_getGhostsInRoom E (mxid entry)) (\<lambda>ghosts.
      bnd (removeGhosts E keepUsers (mxid entry) ghosts) (\<lambda>_.
      puppetStore_emptyGhostsInRoom E (mxid entry)))))))"
    using maps_bnd [OF maps_roomStore_delete [OF assms, of entry], of id, OF rest]
    by (simp add: comp_def)
  show ?thesis
    unfolding deleteEntry_def
    apply (rule maps_bnd_id [OF maps_getRoomOp [OF assms]])
    apply (rule maps_bnd_id)
     apply (simp add: maps_removeOldAliases split: option.splits)
    using del apply simp
    done
qed

lemma maps_deleteEntries:
  assumes "only_wrapped_fail E"
  shows "maps_rooms (filter (\<lambda>e. mxid e \<notin> mxid ` set entries)) (deleteEntries E entries keepUsers)"
proof (induction entries)
  case Nil
  have "maps_rooms id (deleteEntries E [] keepUsers)" by simp
  then show ?case by (rule maps_rooms_cong) simp
next
  case (Cons entry entries)
  have "maps_rooms (filter (\<lambda>e. mxid e \<notin> mxid ` set entries) \<circ> filter (\<lambda>e. mxid e \<noteq> mxid entry))
          (deleteEntries E (entry # entries) keepUsers)"
    unfolding deleteEntries.simps
    by (rule maps_bnd [OF maps_deleteEntry [OF assms]]) (rule Cons)
  then show ?case
    by (rule maps_rooms_cong) (auto intro!: filter_cong)
qed

text \<open>As long as the calls that are rejected are among those the source wraps in a
  \<open>try\<close>, \<open>deleteForPuppet\<close> returns and leaves no mapping of the puppet.\<close>

lemma deleteForPuppet_wrapped_failures:
  assumes "only_wrapped_fail E"
  shows "fst (deleteForPuppet E p w) = Inr ()
       \<and> filter (\<lambda>e. r_puppetId e = p) (room_store (snd (deleteForPuppet E p w))) = []"
proof -
  let ?entries = "filter (\<lambda>e. r_puppetId e = p) (room_store w)"
  let ?w1 = "w\<lparr>calls := calls w @ [RoomStore_getByPuppetId p]\<rparr>"
  have "fails E (calls w) (RoomStore_getByPuppetId p) = None"
    using assms [unfolded only_wrapped_fail_def, rule_format, of "RoomStore_getByPuppetId p" "calls w"]
    by simp
  then have step: "deleteForPuppet E p w = deleteEntries E ?entries False ?w1"
    by (simp add: deleteForPuppet_def roomStore_getByPuppetId_def bnd_def callr_def Let_def)
  have m: "(\<exists>x. fst (deleteEntries E ?entries False ?w1) = Inr x)
      \<and> room_store (snd (deleteEntries E ?entries False ?w1))
          = filter (\<lambda>e. mxid e \<notin> mxid ` set ?entries) (room_store ?w1)"
    using maps_deleteEntries [OF assms, of ?entries False] unfolding maps_rooms_def by blast
  have "filter (\<lambda>e. r_puppetId e = p) (filter (\<lambda>e. mxid e \<notin> mxid ` set ?entries) (room_store w)) = []"
    by (auto simp: filter_empty_conv)
  with m show ?thesis unfolding step by simp
qed

lemma ex_only_wrapped_fail: "only_wrapped_fail (example_bot_env wrapped_always_fail)"
  by (simp add: only_wrapped_fail_def example_bot_env_def example_env_def wrapped_always_fail_def)

text \<open>
  Claim C5 does not hold of the code. Puppet 3 has two mappings, the bot has joined both
  rooms, and the transport refuses the cleanup calls. While the refused calls are those
  inside a \<open>try\<close>, \<open>deleteForPuppet\<close> returns and both mappings are gone. When the query of
  the bot's joined rooms is refused as well, \<open>deleteForPuppet\<close> is rejected with that error
  after the first room: the calls end with the refused query, and the second mapping of
  the puppet is still stored.
\<close>

theorem deleteForPuppet_stops_at_joined_rooms:
  "filter (\<lambda>e. r_puppetId e = 3) (room_store example_puppet_rooms)
     = [roomStore_newData ''!abc:example.org'' ''chan1'' 3,
        roomStore_newData ''!ghi:example.org'' ''chan3'' 3]
 \<and> fst (deleteForPuppet (example_bot_env wrapped_always_fail) 3 example_puppet_rooms) = Inr ()
 \<and> filter (\<lambda>e. r_puppetId e = 3)
       (room_store (snd (deleteForPuppet (example_bot_env wrapped_always_fail) 3
          example_puppet_rooms))) = []
 \<and> deleteForPuppet (example_bot_env cleanup_always_fails) 3 example_puppet_rooms
     = (Inl (MatrixError ''M_UNKNOWN''),
        example_puppet_rooms
          \<lparr>calls := [RoomStore_getByPuppetId 3,
                     RoomStore_getRoomOp ''!abc:example.org'',
                     Client_sendStateEvent (IntentClient ''@_bridge_3_a:hs'') ''!abc:example.org''
                       ''m.room.canonical_alias'' [] EmptyContent,
                     Log_error ''Error removing old aliases'',
                     RoomStore_delete (roomStore_newData ''!abc:example.org'' ''chan1'' 3),
                     BotIntent_getJoinedRooms],
            room_store := [roomStore_newData ''!def:example.org'' ''chan2'' 4,
                           roomStore_newData ''!ghi:example.org'' ''chan3'' 3],
            chan_op := (\<lambda>r. None)\<rparr>)"
proof (intro conjI)
  show "filter (\<lambda>e. r_puppetId e = 3) (room_store example_puppet_rooms)
     = [roomStore_newData ''!abc:example.org'' ''chan1'' 3,
        roomStore_newData ''!ghi:example.org'' ''chan3'' 3]"
    by (simp add: example_puppet_rooms_def empty_world_def roomStore_newData_def)
  show "fst (deleteForPuppet (example_bot_env wrapped_always_fail) 3 example_puppet_rooms) = Inr ()"
    using deleteForPuppet_wrapped_failures [OF ex_only_wrapped_fail] by simp
  show "filter (\<lambda>e. r_puppetId e = 3)
       (room_store (snd (deleteForPuppet (example_bot_env wrapped_always_fail) 3
          example_puppet_rooms))) = []"
    using deleteForPuppet_wrapped_failures [OF ex_only_wrapped_fail] by simp
  show "deleteForPuppet (example_bot_env cleanup_always_fails) 3 example_puppet_rooms
     = (Inl (MatrixError ''M_UNKNOWN''),
        example_puppet_rooms
          \<lparr>calls := [RoomStore_getByPuppetId 3,
                     RoomStore_getRoomOp ''!abc:example.org'',
                     Client_sendStateEvent (IntentClient ''@_bridge_3_a:hs'') ''!abc:example.org''
                       ''m.room.canonical_alias'' [] EmptyContent,
                     Log_error ''Error removing old aliases'',
                     RoomStore_delete (roomStore_newData ''!abc:example.org'' ''chan1'' 3),
                     BotIntent_getJoinedRooms],
            room_store := [roomStore_newData ''!def:example.org'' ''chan2'' 4,
                           roomStore_newData ''!ghi:example.org'' ''chan3'' 3],
            chan_op := (\<lambda>r. None)\<rparr>)"
    by (simp add: deleteForPuppet_def deleteEntry_def getRoomOp_def removeOldAliases_def
        roomStore_getByPuppetId_def roomStore_getRoomOp_def roomStore_delete_def
        io_defs Let_def truthy_def example_bot_env_def example_env_def cleanup_always_fails_def
        example_puppet_rooms_def empty_world_def roomStore_newData_def fun_eq_iff)
qed

subsection \<open>Room overrides\<close>

lemma updateRoomOverride_returns: "fst (updateRoomOverride E client p u rid ov orig w) = Inr ()"
  by (simp add: updateRoomOverride_def try_catch_def logg_def modify_def
      split: prod.splits sum.splits)

lemma updateRoomOverride_step:
  assumes rd: "fails E (calls w) (UserStore_getRoomOverride p u rid) = None"
    and ppu: "ProcessProfileUpdate E
               (map_option IProfileDbEntry.truncate
                  (find (\<lambda>e. o_puppetId e = p \<and> o_userId e = u \<and> o_roomId e = rid) (override_store w)))
               ov (namePatterns_userOverride E) (uploadCallback E client)
               (w\<lparr>calls := calls w @ [UserStore_getRoomOverride p u rid]\<rparr>) = (Inr upd, w2)"
    and ch: "upd_name upd \<noteq> None \<or> upd_avatarMxc upd \<noteq> None"
  shows "updateRoomOverride E client p u rid ov orig w
       = try_catch
           (bnd (try_catch (setRoomOverride E p u rid (Some (override_entry w p u rid upd)) (Some client) orig)
                       (\<lambda>err. case err of
                                 MatrixError errcode \<Rightarrow>
                                   if errcode \<noteq> ''M_FORBIDDEN'' then throw err else ret ()
                               | JsError _ \<Rightarrow> throw (JsError ''TypeError''))) (\<lambda>_.
                userStore_setRoomOverride E (override_entry w p u rid upd)))
           (\<lambda>err. logg (Log_error ''Error setting room overrides'')) w2"
  using rd ppu ch
  by (auto simp: updateRoomOverride_def userStore_getRoomOverride_def override_entry_def
      try_catch_def bnd_def callr_def Let_def)

lemma ex_reconcile_nick:
  "ProcessProfileUpdate (example_env f None None) None example_nick pat cb w
     = (Inr \<lparr>upd_name = Some ''Nick'', upd_avatarUrl = None, upd_avatarMxc = None,
              upd_avatarHash = None\<rparr>, w)"
  by (simp add: example_env_def example_reconciler_def example_nick_def ret_def Let_def)

lemma ex_setRoomOverride:
  assumes "f = failing_state_writes \<or> f = forbidden_state_writes"
    and "room_store w = [roomStore_newData ''!abc:example.org'' ''chan1'' 3]"
  shows "setRoomOverride (example_env f None None) 3 ''u1'' ''chan1'' (Some ov)
           (Some (IntentClient ''@_bridge_3_u1:hs'')) (Some example_user) w
       = (case f (calls w @ [RoomStore_getByRemote 3 ''chan1'',
                             Client_getUserId (IntentClient ''@_bridge_3_u1:hs'')])
                 (Client_sendStateEvent (IntentClient ''@_bridge_3_u1:hs'') ''!abc:example.org''
                    ''m.room.member'' ''@_bridge_3_u1:hs''
                    (MemberContent (or_else (db_name ov) (db_name example_user))
                       (or_else (db_avatarMxc ov) (db_avatarMxc example_user)))) of
            Some e \<Rightarrow> Inl e | None \<Rightarrow> Inr (),
          w\<lparr>calls := calls w @
              [RoomStore_getByRemote 3 ''chan1'',
               Client_getUserId (IntentClient ''@_bridge_3_u1:hs''),
               Client_sendStateEvent (IntentClient ''@_bridge_3_u1:hs'') ''!abc:example.org''
                 ''m.room.member'' ''@_bridge_3_u1:hs''
                 (MemberContent (or_else (db_name ov) (db_name example_user))
                       (or_else (db_avatarMxc ov) (db_avatarMxc example_user)))]\<rparr>)"
  using assms
  by (auto simp: setRoomOverride_def maybeGetMxid_def maybeGet_def roomStore_getByRemote_def
      client_getUserId_def io_defs Let_def example_env_def failing_state_writes_def
      forbidden_state_writes_def roomStore_newData_def truthy_def Lock_wait_def)

lemma updateRoomOverride_forbidden:
  assumes rd: "fails E (calls w) (UserStore_getRoomOverride p u rid) = None"
    and ppu: "ProcessProfileUpdate E
               (map_option IProfileDbEntry.truncate
                  (find (\<lambda>e. o_puppetId e = p \<and> o_userId e = u \<and> o_roomId e = rid) (override_store w)))
               ov (namePatterns_userOverride E) (uploadCallback E client)
               (w\<lparr>calls := calls w @ [UserStore_getRoomOverride p u rid]\<rparr>) = (Inr upd, w2)"
    and ch: "upd_name upd \<noteq> None \<or> upd_avatarMxc upd \<noteq> None"
    and st: "setRoomOverride E p u rid (Some (override_entry w p u rid upd)) (Some client) orig w2
               = (Inl (MatrixError ''M_FORBIDDEN''), w3)"
    and wr: "fails E (calls w3) (UserStore_setRoomOverride (override_entry w p u rid upd)) = None"
  shows "updateRoomOverride E client p u rid ov orig w
       = (Inr (),
          w3\<lparr>calls := calls w3 @ [UserStore_setRoomOverride (override_entry w p u rid upd)],
             override_store :=
               filter (\<lambda>e. \<not> (o_puppetId e = o_puppetId (override_entry w p u rid upd)
                              \<and> o_userId e = o_userId (override_entry w p u rid upd)
                              \<and> o_roomId e = o_roomId (override_entry w p u rid upd)))
                 (override_store w3) @ [override_entry w p u rid upd]\<rparr>)"
  unfolding updateRoomOverride_step [OF rd ppu ch]
  using st wr
  by (simp add: try_catch_def bnd_def ret_def userStore_setRoomOverride_def call_def callr_def
      modify_def Let_def)

lemma updateRoomOverride_other_error:
  assumes rd: "fails E (calls w) (UserStore_getRoomOverride p u rid) = None"
    and ppu: "ProcessProfileUpdate E
               (map_option IProfileDbEntry.truncate
                  (find (\<lambda>e. o_puppetId e = p \<and> o_userId e = u \<and> o_roomId e = rid) (override_store w)))
               ov (namePatterns_userOverride E) (uploadCallback E client)
               (w\<lparr>calls := calls w @ [UserStore_getRoomOverride p u rid]\<rparr>) = (Inr upd, w2)"
    and ch: "upd_name upd \<noteq> None \<or> upd_avatarMxc upd \<noteq> None"
    and st: "setRoomOverride E p u rid (Some (override_entry w p u rid upd)) (Some client) orig w2
               = (Inl err, w3)"
    and ne: "err \<noteq> MatrixError ''M_FORBIDDEN''"
  shows "updateRoomOverride E client p u rid ov orig w
       = (Inr (), w3\<lparr>calls := calls w3 @ [Log_error ''Error setting room overrides'']\<rparr>)"
  unfolding updateRoomOverride_step [OF rd ppu ch]
  using st ne
  by (cases err) (simp_all add: try_catch_def bnd_def ret_def throw_def logg_def modify_def)

text \<open>
  Claim C8, as the code has it. When applying the override (\<open>setRoomOverride\<close>) fails
  inside \<open>updateRoomOverride\<close> with \<open>M_FORBIDDEN\<close>, the error is swallowed without a log
  line and the override is persisted. A failure of any other kind is rethrown by the
  inner \<open>catch\<close> only as far as the outer one, which logs it: the override is not
  persisted, and \<open>updateRoomOverride\<close> returns normally. No error reaches its caller.
\<close>

theorem updateRoomOverride_failure_kinds:
  assumes "fails E (calls w) (UserStore_getRoomOverride p u rid) = None"
    and "ProcessProfileUpdate E
           (map_option IProfileDbEntry.truncate
              (find (\<lambda>e. o_puppetId e = p \<and> o_userId e = u \<and> o_roomId e = rid) (override_store w)))
           ov (namePatterns_userOverride E) (uploadCallback E client)
           (w\<lparr>calls := calls w @ [UserStore_getRoomOverride p u rid]\<rparr>) = (Inr upd, w2)"
    and "upd_name upd \<noteq> None \<or> upd_avatarMxc upd \<noteq> None"
    and "setRoomOverride E p u rid (Some (override_entry w p u rid upd)) (Some client) orig w2
           = (Inl err, w3)"
  shows "fst (updateRoomOverride E client p u rid ov orig w) = Inr ()
     \<and> (err = MatrixError ''M_FORBIDDEN''
          \<and> fails E (calls w3) (UserStore_setRoomOverride (override_entry w p u rid upd)) = None
        \<longrightarrow> calls (snd (updateRoomOverride E client p u rid ov orig w))
              = calls w3 @ [UserStore_setRoomOverride (override_entry w p u rid upd)]
          \<and> override_store (snd (updateRoomOverride E client p u rid ov orig w))
              = filter (\<lambda>e. \<not> (o_puppetId e = o_puppetId (override_entry w p u rid upd)
                              \<and> o_userId e = o_userId (override_entry w p u rid upd)
                              \<and> o_roomId e = o_roomId (override_entry w p u rid upd)))
                  (override_store w3) @ [override_entry w p u rid upd])
     \<and> (err \<noteq> MatrixError ''M_FORBIDDEN''
        \<longrightarrow> snd (updateRoomOverride E client p u rid ov orig w)
              = w3\<lparr>calls := calls w3 @ [Log_error ''Error setting room overrides'']\<rparr>)"
  using updateRoomOverride_returns [of E client p u rid ov orig w]
    updateRoomOverride_forbidden [OF assms(1-3), of orig w3]
    updateRoomOverride_other_error [OF assms(1-4)]
    assms(4)
  by auto

lemma ex_override_entry:
  "override_entry example_bridge 3 ''u1'' ''chan1''
     \<lparr>upd_name = Some ''Nick'', upd_avatarUrl = None, upd_avatarMxc = None, upd_avatarHash = None\<rparr>
   = (userStore_newRoomOverrideData 3 ''u1'' ''chan1'')\<lparr>db_name := Some ''Nick''\<rparr>"
  by (simp add: override_entry_def example_bridge_def empty_world_def assign_profile_def
      userStore_newRoomOverrideData_def)

lemma ex_member_content:
  "or_else (Some ''Nick'') (db_name example_user) = Some ''Nick''"
  "or_else (db_avatarMxc (userStore_newRoomOverrideData 3 ''u1'' ''chan1''))
     (db_avatarMxc example_user) = None"
  by (simp_all add: or_else_def truthy_def userStore_newRoomOverrideData_def example_user_def
      userStore_newData_def)

lemma ex_bridge_fields:
  "calls example_bridge = []" "override_store example_bridge = []"
  "room_store (example_bridge\<lparr>calls := cs\<rparr>) = [roomStore_newData ''!abc:example.org'' ''chan1'' 3]"
  by (simp_all add: example_bridge_def empty_world_def)

lemma ex_override_read:
  assumes "f = failing_state_writes \<or> f = forbidden_state_writes"
  shows "fails (example_env f None None) (calls example_bridge)
           (UserStore_getRoomOverride 3 ''u1'' ''chan1'') = None"
  using assms by (auto simp: example_env_def failing_state_writes_def forbidden_state_writes_def)

lemma ex_override_reconciled:
  "ProcessProfileUpdate (example_env f None None)
     (map_option IProfileDbEntry.truncate
        (find (\<lambda>e. o_puppetId e = 3 \<and> o_userId e = ''u1'' \<and> o_roomId e = ''chan1'')
           (override_store example_bridge)))
     example_nick (namePatterns_userOverride (example_env f None None))
     (uploadCallback (example_env f None None) example_ghost)
     (example_bridge\<lparr>calls := calls example_bridge @ [UserStore_getRoomOverride 3 ''u1'' ''chan1'']\<rparr>)
   = (Inr example_nick_update,
      example_bridge\<lparr>calls := calls example_bridge @ [UserStore_getRoomOverride 3 ''u1'' ''chan1'']\<rparr>)"
  by (simp add: ex_bridge_fields ex_reconcile_nick)

lemma ex_override_rejected:
  assumes "f = failing_state_writes \<and> code = ''M_LIMIT_EXCEEDED''
        \<or> f = forbidden_state_writes \<and> code = ''M_FORBIDDEN''"
  shows "setRoomOverride (example_env f None None) 3 ''u1'' ''chan1''
           (Some (override_entry example_bridge 3 ''u1'' ''chan1'' example_nick_update))
           (Some example_ghost) (Some example_user)
           (example_bridge\<lparr>calls := calls example_bridge @ [UserStore_getRoomOverride 3 ''u1'' ''chan1'']\<rparr>)
       = (Inl (MatrixError code),
          example_bridge\<lparr>calls :=
              [UserStore_getRoomOverride 3 ''u1'' ''chan1'',
               RoomStore_getByRemote 3 ''chan1'',
               Client_getUserId example_ghost,
               Client_sendStateEvent example_ghost ''!abc:example.org'' ''m.room.member''
                 ''@_bridge_3_u1:hs'' (MemberContent (Some ''Nick'') None)]\<rparr>)"
  using assms
    ex_setRoomOverride [of f
      "example_bridge\<lparr>calls := calls example_bridge @ [UserStore_getRoomOverride 3 ''u1'' ''chan1'']\<rparr>"
      example_nick_entry, OF _ ex_bridge_fields(3)]
  by (auto simp: ex_override_entry ex_member_content ex_bridge_fields failing_state_writes_def
      forbidden_state_writes_def)

theorem updateRoomOverride_failure_kinds_witness:
  "fst (updateRoomOverride (example_env failing_state_writes None None) example_ghost 3 ''u1''
          ''chan1'' example_nick (Some example_user) example_bridge) = Inr ()
 \<and> snd (updateRoomOverride (example_env failing_state_writes None None) example_ghost 3 ''u1''
          ''chan1'' example_nick (Some example_user) example_bridge)
   = example_bridge\<lparr>calls :=
        [UserStore_getRoomOverride 3 ''u1'' ''chan1'',
         RoomStore_getByRemote 3 ''chan1'',
         Client_getUserId example_ghost,
         Client_sendStateEvent example_ghost ''!abc:example.org'' ''m.room.member''
           ''@_bridge_3_u1:hs'' (MemberContent (Some ''Nick'') None),
         Log_error ''Error setting room overrides'']\<rparr>
 \<and> calls (snd (updateRoomOverride (example_env forbidden_state_writes None None) example_ghost 3
          ''u1'' ''chan1'' example_nick (Some example_user) example_bridge))
   = [UserStore_getRoomOverride 3 ''u1'' ''chan1'',
      RoomStore_getByRemote 3 ''chan1'',
      Client_getUserId example_ghost,
      Client_sendStateEvent example_ghost ''!abc:example.org'' ''m.room.member''
        ''@_bridge_3_u1:hs'' (MemberContent (Some ''Nick'') None),
      UserStore_setRoomOverride example_nick_entry]
 \<and> override_store (snd (updateRoomOverride (example_env forbidden_state_writes None None)
          example_ghost 3 ''u1'' ''chan1'' example_nick (Some example_user) example_bridge))
   = [example_nick_entry]"
proof -
  have a: "fst (updateRoomOverride (example_env failing_state_writes None None) example_ghost 3
          ''u1'' ''chan1'' example_nick (Some example_user) example_bridge) = Inr ()
     \<and> snd (updateRoomOverride (example_env failing_state_writes None None) example_ghost 3 ''u1''
          ''chan1'' example_nick (Some example_user) example_bridge)
       = example_bridge\<lparr>calls :=
        [UserStore_getRoomOverride 3 ''u1'' ''chan1'',
         RoomStore_getByRemote 3 ''chan1'',
         Client_getUserId example_ghost,
         Client_sendStateEvent example_ghost ''!abc:example.org'' ''m.room.member''
           ''@_bridge_3_u1:hs'' (MemberContent (Some ''Nick'') None),
         Log_error ''Error setting room overrides'']\<rparr>"
    using updateRoomOverride_failure_kinds
        [OF ex_override_read [of failing_state_writes] ex_override_reconciled _
          ex_override_rejected [of failing_state_writes "''M_LIMIT_EXCEEDED''"]]
    by simp
  have b: "calls (snd (updateRoomOverride (example_env forbidden_state_writes None None)
          example_ghost 3 ''u1'' ''chan1'' example_nick (Some example_user) example_bridge))
       = [UserStore_getRoomOverride 3 ''u1'' ''chan1'',
          RoomStore_getByRemote 3 ''chan1'',
          Client_getUserId example_ghost,
          Client_sendStateEvent example_ghost ''!abc:example.org'' ''m.room.member''
            ''@_bridge_3_u1:hs'' (MemberContent (Some ''Nick'') None),
          UserStore_setRoomOverride example_nick_entry]
     \<and> override_store (snd (updateRoomOverride (example_env forbidden_state_writes None None)
          example_ghost 3 ''u1'' ''chan1'' example_nick (Some example_user) example_bridge))
       = [example_nick_entry]"
    using updateRoomOverride_failure_kinds
        [OF ex_override_read [of forbidden_state_writes] ex_override_reconciled _
          ex_override_rejected [of forbidden_state_writes "''M_FORBIDDEN''"]]
    by (simp add: ex_override_entry ex_bridge_fields example_env_def forbidden_state_writes_def
        userStore_newRoomOverrideData_def)
  from a b show ?thesis by simp
qed

text \<open>
  Claim C8 as stated fails on the code: a rejection with \<open>M_LIMIT_EXCEEDED\<close> does not
  reach the caller of \<open>updateRoomOverride\<close> (the call returns, with an error line in the
  log and nothing persisted), and the swallowed \<open>M_FORBIDDEN\<close> leaves no line in the
  log.
\<close>

theorem updateRoomOverride_not_propagated:
  "updateRoomOverride (example_env failing_state_writes None None) example_ghost 3 ''u1''
     ''chan1'' example_nick (Some example_user) example_bridge
   = (Inr (),
      example_bridge\<lparr>calls :=
        [UserStore_getRoomOverride 3 ''u1'' ''chan1'',
         RoomStore_getByRemote 3 ''chan1'',
         Client_getUserId example_ghost,
         Client_sendStateEvent example_ghost ''!abc:example.org'' ''m.room.member''
           ''@_bridge_3_u1:hs'' (MemberContent (Some ''Nick'') None),
         Log_error ''Error setting room overrides'']\<rparr>)
 \<and> updateRoomOverride (example_env forbidden_state_writes None None) example_ghost 3 ''u1''
     ''chan1'' example_nick (Some example_user) example_bridge
   = (Inr (),
      example_bridge\<lparr>calls :=
        [UserStore_getRoomOverride 3 ''u1'' ''chan1'',
         RoomStore_getByRemote 3 ''chan1'',
         Client_getUserId example_ghost,
         Client_sendStateEvent example_ghost ''!abc:example.org'' ''m.room.member''
           ''@_bridge_3_u1:hs'' (MemberContent (Some ''Nick'') None),
         UserStore_setRoomOverride example_nick_entry],
        override_store := [example_nick_entry]\<rparr>)"
proof -
  have a: "updateRoomOverride (example_env failing_state_writes None None) example_ghost 3 ''u1''
      ''chan1'' example_nick (Some example_user) example_bridge
   = (Inr (),
      example_bridge\<lparr>calls :=
        [UserStore_getRoomOverride 3 ''u1'' ''chan1'',
         RoomStore_getByRemote 3 ''chan1'',
         Client_getUserId example_ghost,
         Client_sendStateEvent example_ghost ''!abc:example.org'' ''m.room.member''
           ''@_bridge_3_u1:hs'' (MemberContent (Some ''Nick'') None),
         Log_error ''Error setting room overrides'']\<rparr>)"
    using updateRoomOverride_other_error
        [OF ex_override_read [of failing_state_writes] ex_override_reconciled _
          ex_override_rejected [of failing_state_writes "''M_LIMIT_EXCEEDED''"]]
    by simp
  have b: "updateRoomOverride (example_env forbidden_state_writes None None) example_ghost 3 ''u1''
      ''chan1'' example_nick (Some example_user) example_bridge
   = (Inr (),
      example_bridge\<lparr>calls :=
        [UserStore_getRoomOverride 3 ''u1'' ''chan1'',
         RoomStore_getByRemote 3 ''chan1'',
         Client_getUserId example_ghost,
         Client_sendStateEvent example_ghost ''!abc:example.org'' ''m.room.member''
           ''@_bridge_3_u1:hs'' (MemberContent (Some ''Nick'') None),
         UserStore_setRoomOverride example_nick_entry],
        override_store := [example_nick_entry]\<rparr>)"
    using updateRoomOverride_forbidden
        [OF ex_override_read [of forbidden_state_writes] ex_override_reconciled _
          ex_override_rejected [of forbidden_state_writes "''M_FORBIDDEN''"]]
    by (simp add: ex_override_entry ex_bridge_fields example_env_def forbidden_state_writes_def
        userStore_newRoomOverrideData_def)
  from a b show ?thesis by simp
qed

subsection \<open>Double puppeting falls back to the ghost\<close>

lemma getPuppetClient_unusable:
  assumes "fails E (calls w) (Provisioner_getToken (Inl p)) = None"
    and "case provisioner_tokens E (Inl p) of
           None \<Rightarrow> True
         | Some t \<Rightarrow> fails E (calls w @ [Provisioner_getToken (Inl p)])
                       (Client_getUserId (TokenClient (hsUrl t) (token t))) \<noteq> None"
  shows "getPuppetClient E p w
       = (Inr None, w\<lparr>calls := calls w @ tl (puppet_attempt E p)\<rparr>)"
  using assms
  by (auto simp: getPuppetClient_def provisioner_getToken_def getClientFromTokenCallback_def
      client_getUserId_def puppet_attempt_def io_defs Let_def split: option.splits)

lemma getClient_falls_back:
  assumes "provisioner_puppets E (puppetId_u data) = Some pd"
    and "puppetUserId pd = Some (userId data)"
    and "fails E (calls w) (Provisioner_get (puppetId_u data)) = None"
    and "fails E (calls w @ [Provisioner_get (puppetId_u data)])
           (Provisioner_getToken (Inl (puppetId_u data))) = None"
    and "token_unusable E (calls w) (puppetId_u data)"
  shows "getClient E data w
       = getClient_ghost E data (w\<lparr>calls := calls w @ puppet_attempt E (puppetId_u data)\<rparr>)"
proof -
  let ?w1 = "w\<lparr>calls := calls w @ [Provisioner_get (puppetId_u data)]\<rparr>"
  have "getPuppetClient E (puppetId_u data) ?w1
       = (Inr None, ?w1\<lparr>calls := calls ?w1 @ tl (puppet_attempt E (puppetId_u data))\<rparr>)"
    using assms(4,5)
    by (intro getPuppetClient_unusable) (simp_all add: token_unusable_def split: option.splits)
  then show ?thesis
    using assms(1-3)
    by (simp add: getClient_def provisioner_get_def callr_def bnd_def Let_def puppet_attempt_def)
qed

lemma maybeGetClient_falls_back:
  assumes "provisioner_puppets E p = Some pd"
    and "puppetUserId pd = Some u"
    and "fails E (calls w) (Provisioner_get p) = None"
    and "fails E (calls w @ [Provisioner_get p]) (Provisioner_getToken (Inl p)) = None"
    and "token_unusable E (calls w) p"
    and "fails E (calls w @ puppet_attempt E p) (UserStore_get p u) = None"
  shows "maybeGetClient E p u w
       = (case find (\<lambda>e. u_puppetId e = p \<and> u_userId e = u) (user_store w) of
            None \<Rightarrow>
              (Inr None, w\<lparr>calls := calls w @ puppet_attempt E p @ [UserStore_get p u]\<rparr>)
          | Some x \<Rightarrow>
              (case fails E (calls w @ puppet_attempt E p @ [UserStore_get p u])
                      (Intent_ensureRegistered (ghost_userId E p u)) of
                 None \<Rightarrow> Inr (Some (IntentClient (ghost_userId E p u)))
               | Some e \<Rightarrow> Inl e,
               w\<lparr>calls := calls w @ puppet_attempt E p
                     @ [UserStore_get p u, Intent_ensureRegistered (ghost_userId E p u)]\<rparr>))"
proof -
  let ?w1 = "w\<lparr>calls := calls w @ [Provisioner_get p]\<rparr>"
  have g: "getPuppetClient E p ?w1
       = (Inr None, ?w1\<lparr>calls := calls ?w1 @ tl (puppet_attempt E p)\<rparr>)"
    using assms(4,5)
    by (intro getPuppetClient_unusable) (simp_all add: token_unusable_def split: option.splits)
  have c: "calls w @ Provisioner_get p # tl (puppet_attempt E p) = calls w @ puppet_attempt E p"
    by (simp add: puppet_attempt_def)
  show ?thesis
    using assms(1-3,6) g [unfolded getPuppetClient_def]
    by (simp add: maybeGetClient_def provisioner_get_def userStore_get_def callr_def call_def
        bnd_def ret_def Let_def c split: option.splits)
qed

lemma grows_ret [simp]: "grows (ret x)"
  by (simp add: grows_def ret_def)

lemma grows_throw [simp]: "grows (throw e)"
  by (simp add: grows_def throw_def)

lemma grows_callr [simp]: "grows (callr E ev f)"
  by (simp add: grows_def callr_def Let_def split: option.splits)

lemma grows_call [simp]: "grows (call E ev)"
  by (simp add: call_def)

lemma grows_logg [simp]: "grows (logg ev)"
  by (simp add: grows_def logg_def modify_def)

lemma grows_modify: "(\<And>w. calls (f w) = calls w) \<Longrightarrow> grows (modify f)"
  by (simp add: grows_def modify_def)

lemma grows_bnd:
  assumes "grows m" and "\<And>x. grows (f x)"
  shows "grows (bnd m f)"
  unfolding grows_def
proof
  fix w
  obtain r w1 where m: "m w = (r, w1)" by (cases "m w")
  from assms(1) obtain evs where e: "calls w1 = calls w @ evs"
    unfolding grows_def using m by (metis snd_conv)
  show "\<exists>evs. calls (snd (bnd m f w)) = calls w @ evs"
  proof (cases r)
    case (Inl err)
    then show ?thesis using m e by (simp add: bnd_def)
  next
    case (Inr x)
    from assms(2) [of x] obtain evs' where "calls (snd (f x w1)) = calls w1 @ evs'"
      unfolding grows_def by blast
    then show ?thesis using m e Inr by (simp add: bnd_def)
  qed
qed

lemma grows_try:
  assumes "grows m" and "\<And>e. grows (h e)"
  shows "grows (try_catch m h)"
  unfolding grows_def
proof
  fix w
  obtain r w1 where m: "m w = (r, w1)" by (cases "m w")
  from assms(1) obtain evs where e: "calls w1 = calls w @ evs"
    unfolding grows_def using m by (metis snd_conv)
  show "\<exists>evs. calls (snd (try_catch m h w)) = calls w @ evs"
  proof (cases r)
    case (Inr x)
    then show ?thesis using m e by (simp add: try_catch_def)
  next
    case (Inl err)
    from assms(2) [of err] obtain evs' where "calls (snd (h err w1)) = calls w1 @ evs'"
      unfolding grows_def by blast
    then show ?thesis using m e Inl by (simp add: try_catch_def)
  qed
qed

lemma grows_started: "grows m \<Longrightarrow> grows (started m)"
  by (auto simp: grows_def started_def split: prod.splits sum.splits) (metis snd_conv)+

lemma grows_floating: "grows m \<Longrightarrow> grows (floating m)"
  by (simp add: floating_def grows_try)

lemma grows_reconciler:
  "reconciler_returns E \<Longrightarrow> grows (ProcessProfileUpdate E old new pat (uploadCallback E c))"
  unfolding reconciler_returns_def grows_def by blast

lemma grows_getClientFromTokenCallback: "grows (getClientFromTokenCallback E tok)"
  unfolding getClientFromTokenCallback_def client_getUserId_def
  by (cases tok) (simp_all add: Let_def grows_try grows_bnd)

lemma grows_maybeGetClient: "grows (maybeGetClient E p u)"
  unfolding maybeGetClient_def provisioner_get_def provisioner_getToken_def userStore_get_def
  by (intro grows_bnd grows_callr)
    (simp_all add: grows_bnd grows_getClientFromTokenCallback split: option.splits)

lemma grows_maybeGetMxid: "grows (maybeGetMxid E p r)"
  unfolding maybeGetMxid_def maybeGet_def roomStore_getByRemote_def
  by (intro grows_bnd grows_modify grows_callr) (simp_all split: option.splits)

lemma grows_setRoomOverride: "grows (setRoomOverride E p u rid ov c orig)"
  unfolding setRoomOverride_def userStore_get_def userStore_getRoomOverride_def
    client_getUserId_def
  by (intro grows_bnd)
    (simp_all add: grows_maybeGetClient grows_maybeGetMxid grows_bnd split: option.splits)

lemma grows_userStore_setRoomOverride: "grows (userStore_setRoomOverride E e)"
  unfolding userStore_setRoomOverride_def
  by (intro grows_bnd grows_modify) simp_all

lemma grows_updateRoomOverride:
  assumes "reconciler_returns E"
  shows "grows (updateRoomOverride E c p u rid ov orig)"
  unfolding updateRoomOverride_def userStore_getRoomOverride_def
  by (intro grows_try grows_bnd grows_callr grows_reconciler assms)
    (simp_all add: Let_def grows_bnd grows_try grows_setRoomOverride
      grows_userStore_setRoomOverride split: error.splits)

lemma grows_updateRoomOverrides:
  assumes "reconciler_returns E"
  shows "grows (updateRoomOverrides E c p u ovs user)"
  by (induction ovs) (auto simp: grows_bnd grows_floating grows_updateRoomOverride [OF assms])

lemma grows_reapplyRoomOverrides: "grows (reapplyRoomOverrides E c ids ovs user)"
  by (induction ovs) (simp_all add: grows_bnd grows_floating grows_setRoomOverride)

lemma grows_getClient_background:
  assumes "reconciler_returns E"
  shows "grows (getClient_background E c data user ps)"
  unfolding getClient_background_def userStore_getAllRoomOverrides_def
  by (intro grows_bnd grows_floating)
    (simp_all add: grows_bnd grows_updateRoomOverrides [OF assms] grows_reapplyRoomOverrides
      split: option.splits)

lemma returns_getClient_background: "\<exists>x. fst (getClient_background E c data user ps w) = Inr x"
  by (simp add: getClient_background_def bnd_def floating_def try_catch_def logg_def modify_def
      ret_def split: prod.splits sum.splits)

lemma returns_ret [simp]: "returns (ret x)"
  by (simp add: returns_def ret_def)

lemma returns_modify [simp]: "returns (modify f)"
  by (simp add: returns_def modify_def)

lemma returns_started [simp]: "returns (started m)"
  by (simp add: returns_def started_def split: prod.splits sum.splits)

lemma bnd_after_return: "fst (m w) = Inr x \<Longrightarrow> bnd m f w = f x (snd (m w))"
  by (cases "m w") (simp add: bnd_def)

lemma returns_bnd:
  assumes "returns m" and "\<And>x. returns (f x)"
  shows "returns (bnd m f)"
  unfolding returns_def
proof
  fix w
  from assms(1) obtain x where "fst (m w) = Inr x" unfolding returns_def by blast
  then have "bnd m f w = f x (snd (m w))" by (rule bnd_after_return)
  then show "\<exists>y. fst (bnd m f w) = Inr y"
    using assms(2) [of x] unfolding returns_def by simp
qed

lemma yields_ret [simp]: "yields x (ret x)"
  by (simp add: yields_def ret_def)

lemma yields_bnd:
  assumes "returns m" and "\<And>y. yields x (f y)"
  shows "yields x (bnd m f)"
  unfolding yields_def
proof
  fix w
  from assms(1) obtain y where "fst (m w) = Inr y" unfolding returns_def by blast
  then have "bnd m f w = f y (snd (m w))" by (rule bnd_after_return)
  then show "fst (bnd m f w) = Inr x"
    using assms(2) [of y] unfolding yields_def by simp
qed

lemma returns_call_ghost_path:
  assumes "ghost_path_answers E" and "ghost_path_call ev"
  shows "returns (callr E ev f)"
proof -
  have "fails E h ev = None" for h
    using assms unfolding ghost_path_answers_def by blast
  then show ?thesis by (simp add: returns_def callr_def Let_def)
qed

lemma returns_reconciler:
  "reconciler_returns E \<Longrightarrow> returns (ProcessProfileUpdate E old new pat (uploadCallback E c))"
  unfolding reconciler_returns_def returns_def by blast

lemma returns_userStore_set: "ghost_path_answers E \<Longrightarrow> returns (userStore_set E e)"
  unfolding userStore_set_def call_def
  by (intro returns_bnd returns_call_ghost_path) simp_all

lemma returns_background: "returns (getClient_background E c data user ps)"
  unfolding returns_def using returns_getClient_background by blast

lemma getClient_reconcile_rest_yields:
  assumes "ghost_path_answers E" and "reconciler_returns E"
  shows "yields client
     (bnd (ProcessProfileUpdate E oldProfile new (namePatterns_user E) (uploadCallback E client))
        (\<lambda>updateProfile.
      let user = assign_profile user1 updateProfile in
      bnd (if upd_name updateProfile \<noteq> None
           then bnd (started (call E (Client_setDisplayName client
                                         (case or_else (db_name user) (Some []) of
                                            Some n \<Rightarrow> n | None \<Rightarrow> []))))
                  (\<lambda>r. ret [r])
           else ret []) (\<lambda>promises1.
      bnd (if upd_avatarMxc updateProfile \<noteq> None
           then bnd (started (call E (Client_setAvatarUrl client
                                         (case or_else (db_avatarMxc user) (Some []) of
                                            Some n \<Rightarrow> n | None \<Rightarrow> []))))
                  (\<lambda>r. ret (promises1 @ [r]))
           else ret promises1) (\<lambda>promiseList.
      bnd (if doUpdate0 \<or> upd_name updateProfile \<noteq> None \<or> upd_avatarMxc updateProfile \<noteq> None
           then userStore_set E user else ret ()) (\<lambda>_.
      bnd (modify (\<lambda>w. w\<lparr>clientLock := Lock_release k (clientLock w)\<rparr>)) (\<lambda>_.
      bnd (getClient_background E client data user promiseList) (\<lambda>_.
      ret client)))))))"
  by (intro yields_bnd returns_reconciler assms(2))
    (simp_all add: Let_def yields_bnd returns_bnd returns_userStore_set [OF assms(1)]
      returns_background)

lemma getClient_reconcile_rest_grows:
  assumes "reconciler_returns E"
  shows "grows
     (bnd (ProcessProfileUpdate E oldProfile new (namePatterns_user E) (uploadCallback E client))
        (\<lambda>updateProfile.
      let user = assign_profile user1 updateProfile in
      bnd (if upd_name updateProfile \<noteq> None
           then bnd (started (call E (Client_setDisplayName client
                                         (case or_else (db_name user) (Some []) of
                                            Some n \<Rightarrow> n | None \<Rightarrow> []))))
                  (\<lambda>r. ret [r])
           else ret []) (\<lambda>promises1.
      bnd (if upd_avatarMxc updateProfile \<noteq> None
           then bnd (started (call E (Client_setAvatarUrl client
                                         (case or_else (db_avatarMxc user) (Some []) of
                                            Some n \<Rightarrow> n | None \<Rightarrow> []))))
                  (\<lambda>r. ret (promises1 @ [r]))
           else ret promises1) (\<lambda>promiseList.
      bnd (if doUpdate0 \<or> upd_name updateProfile \<noteq> None \<or> upd_avatarMxc updateProfile \<noteq> None
           then userStore_set E user else ret ()) (\<lambda>_.
      bnd (modify (\<lambda>w. w\<lparr>clientLock := Lock_release k (clientLock w)\<rparr>)) (\<lambda>_.
      bnd (getClient_background E client data user promiseList) (\<lambda>_.
      ret client)))))))"
  unfolding userStore_set_def
  by (intro grows_bnd grows_reconciler assms)
    (simp_all add: Let_def grows_bnd grows_started grows_modify
      grows_getClient_background [OF assms])

lemma getClient_reconcile_registers:
  assumes "ghost_path_answers E" and "reconciler_returns E"
  shows "fst (getClient_reconcile E k data user1 doUpdate0 oldProfile w)
           = Inr (IntentClient (ghost_userId E (puppetId_u data) (userId data)))
       \<and> (\<exists>evs. calls (snd (getClient_reconcile E k data user1 doUpdate0 oldProfile w))
              = calls w @ Intent_ensureRegistered (ghost_userId E (puppetId_u data) (userId data)) # evs)"
proof -
  let ?uid = "ghost_userId E (puppetId_u data) (userId data)"
  let ?w1 = "w\<lparr>calls := calls w @ [Intent_ensureRegistered ?uid]\<rparr>"
  have f: "fails E (calls w) (Intent_ensureRegistered ?uid) = None"
    using assms(1) [unfolded ghost_path_answers_def, rule_format, of "Intent_ensureRegistered ?uid" "calls w"]
    by simp
  obtain R where R: "getClient_reconcile E k data user1 doUpdate0 oldProfile w = R ?w1"
      and y: "yields (IntentClient ?uid) R" and g: "grows R"
    using getClient_reconcile_rest_yields [OF assms, of "IntentClient ?uid" oldProfile
        "IRemoteProfile.truncate data" user1 doUpdate0 k data]
      getClient_reconcile_rest_grows [OF assms(2), of oldProfile "IRemoteProfile.truncate data"
        "IntentClient ?uid" user1 doUpdate0 k data]
      f
    by (simp add: getClient_reconcile_def Let_def bnd_def call_def callr_def)
  from g obtain evs where "calls (snd (R ?w1)) = calls ?w1 @ evs" unfolding grows_def by blast
  then show ?thesis using y unfolding R yields_def by simp
qed

lemma createUser_override_ids:
  assumes "ghost_path_answers E"
  shows "\<exists>d evs. createUser_override E data w = (Inr d, w\<lparr>calls := calls w @ evs\<rparr>)
           \<and> puppetId_u d = puppetId_u data \<and> userId d = userId data"
proof (cases "hooks_createUser E")
  case None
  then have "createUser_override E data w = (Inr data, w\<lparr>calls := calls w @ []\<rparr>)"
    by (simp add: createUser_override_def ret_def)
  then show ?thesis by blast
next
  case (Some hook)
  have f: "fails E (calls w) (Hook_createUser data) = None"
    using assms [unfolded ghost_path_answers_def, rule_format, of "Hook_createUser data" "calls w"]
    by simp
  let ?warn = "[Hook_createUser data, Log_warn ''Override data is malformed!'']"
  show ?thesis
  proof (cases "hook (calls w) data")
    case None
    with Some f have "createUser_override E data w = (Inr data, w\<lparr>calls := calls w @ ?warn\<rparr>)"
      by (simp add: createUser_override_def io_defs Let_def)
    then show ?thesis by blast
  next
    case nd: (Some nd)
    show ?thesis
    proof (cases "userId nd = userId data \<and> puppetId_u nd = puppetId_u data")
      case True
      with Some f nd have "createUser_override E data w
          = (Inr nd, w\<lparr>calls := calls w @ [Hook_createUser data]\<rparr>)"
        by (simp add: createUser_override_def io_defs Let_def)
      with True show ?thesis by blast
    next
      case False
      with Some f nd have "createUser_override E data w = (Inr data, w\<lparr>calls := calls w @ ?warn\<rparr>)"
        by (auto simp: createUser_override_def io_defs Let_def)
      then show ?thesis by blast
    qed
  qed
qed

lemma getClient_ghost_registers:
  assumes "ghost_path_answers E" and "reconciler_returns E"
  shows "fst (getClient_ghost E data w)
           = Inr (IntentClient (ghost_userId E (puppetId_u data) (userId data)))
       \<and> Intent_ensureRegistered (ghost_userId E (puppetId_u data) (userId data))
           \<in> set (calls (snd (getClient_ghost E data w)))"
proof -
  let ?k = "lockKey (puppetId_u data) (userId data)"
  let ?uid = "ghost_userId E (puppetId_u data) (userId data)"
  let ?w1 = "w\<lparr>clientLock := Lock_set ?k (Lock_wait ?k (clientLock w))\<rparr>"
  let ?w2 = "?w1\<lparr>calls := calls w @ [UserStore_get (puppetId_u data) (userId data)]\<rparr>"
  have f: "fails E (calls w) (UserStore_get (puppetId_u data) (userId data)) = None"
    using assms(1) [unfolded ghost_path_answers_def, rule_format,
        of "UserStore_get (puppetId_u data) (userId data)" "calls w"]
    by simp
  have body: "\<exists>w'. (case find (\<lambda>e. u_puppetId e = puppetId_u data \<and> u_userId e = userId data)
                          (user_store w) of
             None \<Rightarrow>
               bnd (createUser_override E data) (\<lambda>d.
               getClient_reconcile E ?k d (userStore_newData (puppetId_u d) (userId d)) True None)
           | Some x \<Rightarrow>
               getClient_reconcile E ?k data x False (Some (IProfileDbEntry.truncate x))) ?w2
          = (Inr (IntentClient ?uid), w')
        \<and> Intent_ensureRegistered ?uid \<in> set (calls w')"
  proof (cases "find (\<lambda>e. u_puppetId e = puppetId_u data \<and> u_userId e = userId data) (user_store w)")
    case (Some x)
    from getClient_reconcile_registers [OF assms, of ?k data x False
        "Some (IProfileDbEntry.truncate x)" ?w2]
    show ?thesis unfolding Some
      by (cases "getClient_reconcile E ?k data x False (Some (IProfileDbEntry.truncate x)) ?w2")
        auto
  next
    case None
    from createUser_override_ids [OF assms(1), of data ?w2]
    obtain d evs where d: "createUser_override E data ?w2 = (Inr d, ?w2\<lparr>calls := calls ?w2 @ evs\<rparr>)"
      "puppetId_u d = puppetId_u data" "userId d = userId data"
      by blast
    from getClient_reconcile_registers [OF assms, of ?k d
        "userStore_newData (puppetId_u d) (userId d)" True None "?w2\<lparr>calls := calls ?w2 @ evs\<rparr>"]
    show ?thesis unfolding None
      by (cases "getClient_reconcile E ?k d (userStore_newData (puppetId_u d) (userId d)) True None
            (?w2\<lparr>calls := calls ?w2 @ evs\<rparr>)")
        (auto simp: bnd_def d)
  qed
  then obtain w' where w': "(case find (\<lambda>e. u_puppetId e = puppetId_u data \<and> u_userId e = userId data)
                          (user_store w) of
             None \<Rightarrow>
               bnd (createUser_override E data) (\<lambda>d.
               getClient_reconcile E ?k d (userStore_newData (puppetId_u d) (userId d)) True None)
           | Some x \<Rightarrow>
               getClient_reconcile E ?k data x False (Some (IProfileDbEntry.truncate x))) ?w2
          = (Inr (IntentClient ?uid), w')"
      and reg: "Intent_ensureRegistered ?uid \<in> set (calls w')"
    by blast
  have "getClient_ghost E data w = (Inr (IntentClient ?uid), w')"
    using f w'
    by (simp add: getClient_ghost_def Let_def bnd_def modify_def try_catch_def userStore_get_def
        callr_def)
  with reg show ?thesis by simp
qed

text \<open>
  Claim C10, as the code has it. When the remote user is the puppet's own user but the
  stored token gives no usable client (no token, or its check is rejected), neither
  function fails on that account and nothing is logged: both go on to the ghost path.
  \<open>getClient\<close> registers the namespaced ghost and returns its client (the stores, the
  hook, the registration and the reconciler answering). \<open>maybeGetClient\<close> does so only
  when a ghost mapping is stored for the user; without one it returns null and registers
  nothing.
\<close>

theorem double_puppet_fallback:
  assumes "provisioner_puppets E (puppetId_u data) = Some pd"
    and "puppetUserId pd = Some (userId data)"
    and "fails E (calls w) (Provisioner_get (puppetId_u data)) = None"
    and "fails E (calls w @ [Provisioner_get (puppetId_u data)])
           (Provisioner_getToken (Inl (puppetId_u data))) = None"
    and "token_unusable E (calls w) (puppetId_u data)"
    and "ghost_path_answers E" and "reconciler_returns E"
  shows "getClient E data w
           = getClient_ghost E data (w\<lparr>calls := calls w @ puppet_attempt E (puppetId_u data)\<rparr>)
       \<and> fst (getClient E data w)
           = Inr (IntentClient (ghost_userId E (puppetId_u data) (userId data)))
       \<and> Intent_ensureRegistered (ghost_userId E (puppetId_u data) (userId data))
           \<in> set (calls (snd (getClient E data w)))
       \<and> maybeGetClient E (puppetId_u data) (userId data) w
           = (case find (\<lambda>e. u_puppetId e = puppetId_u data \<and> u_userId e = userId data)
                     (user_store w) of
                None \<Rightarrow>
                  (Inr None,
                   w\<lparr>calls := calls w @ puppet_attempt E (puppetId_u data)
                         @ [UserStore_get (puppetId_u data) (userId data)]\<rparr>)
              | Some x \<Rightarrow>
                  (Inr (Some (IntentClient (ghost_userId E (puppetId_u data) (userId data)))),
                   w\<lparr>calls := calls w @ puppet_attempt E (puppetId_u data)
                         @ [UserStore_get (puppetId_u data) (userId data),
                            Intent_ensureRegistered
                              (ghost_userId E (puppetId_u data) (userId data))]\<rparr>))"
proof -
  have a: "\<not> ghost_path_call ev \<or> fails E h ev = None" for h ev
    using assms(6) [unfolded ghost_path_answers_def, rule_format, of ev h] .
  have 1: "getClient E data w
      = getClient_ghost E data (w\<lparr>calls := calls w @ puppet_attempt E (puppetId_u data)\<rparr>)"
    by (rule getClient_falls_back [OF assms(1-5)])
  have 2: "maybeGetClient E (puppetId_u data) (userId data) w
           = (case find (\<lambda>e. u_puppetId e = puppetId_u data \<and> u_userId e = userId data)
                     (user_store w) of
                None \<Rightarrow>
                  (Inr None,
                   w\<lparr>calls := calls w @ puppet_attempt E (puppetId_u data)
                         @ [UserStore_get (puppetId_u data) (userId data)]\<rparr>)
              | Some x \<Rightarrow>
                  (Inr (Some (IntentClient (ghost_userId E (puppetId_u data) (userId data)))),
                   w\<lparr>calls := calls w @ puppet_attempt E (puppetId_u data)
                         @ [UserStore_get (puppetId_u data) (userId data),
                            Intent_ensureRegistered
                              (ghost_userId E (puppetId_u data) (userId data))]\<rparr>))"
    using maybeGetClient_falls_back [OF assms(1-5)]
      a [where ev = "UserStore_get (puppetId_u data) (userId data)"]
      a [where ev = "Intent_ensureRegistered (ghost_userId E (puppetId_u data) (userId data))"]
    by (simp split: option.splits)
  from 1 2 getClient_ghost_registers [OF assms(6,7), of data
      "w\<lparr>calls := calls w @ puppet_attempt E (puppetId_u data)\<rparr>"]
  show ?thesis by simp
qed

lemma uploadContent_bytes_returns:
  assumes "\<And>h ev. fails E h ev = None"
  shows "\<exists>r evs. fst (uploadContent E c (Bytes b) mt fn w) = Inr r
     \<and> calls (snd (uploadContent E c (Bytes b) mt fn w)) = calls w @ evs"
proof (cases "truthy (file_mxc w (HashBuffer E b))")
  case True
  then obtain url where "file_mxc w (HashBuffer E b) = Some url" "url \<noteq> []"
    by (auto simp: truthy_def split: option.splits)
  then show ?thesis
    using assms
    by (simp add: uploadContent_def upload_buffer_def mxc_wait_set_def store_getFileMxc_def
        io_defs Let_def truthy_def)
next
  case False
  then show ?thesis
    using assms
    by (simp add: uploadContent_def upload_buffer_def mxc_wait_set_def store_getFileMxc_def
        store_setFileMxc_def io_defs Let_def release_locks_def)
qed

lemma example_env_fields:
  "fails (example_env f hr hu) = f"
  "ProcessProfileUpdate (example_env f hr hu) = example_reconciler"
  "hooks_createRoom (example_env f hr hu) = hr"
  "hooks_createUser (example_env f hr hu) = hu"
  "provisioner_tokens (example_env f hr hu) = (\<lambda>k. None)"
  "provisioner_puppets (example_env f hr hu)
     = (\<lambda>p. if p = 5 then Some \<lparr>puppetUserId = Some ''alice'', puppetMxid = ''@alice:hs''\<rparr>
             else None)"
  "getUserIdForSuffix (example_env f hr hu) = (\<lambda>s. ''@_bridge_'' @ s @ '':hs'')"
  "str2mxid (example_env f hr hu) = (\<lambda>s. s)"
  "namePatterns_room (example_env f hr hu) = '':name''"
  "groupSyncEnabled (example_env f hr hu) = False"
  by (simp_all add: example_env_def)

lemma ex_reconciler_returns: "reconciler_returns (example_env never_fails hr hu)"
  unfolding reconciler_returns_def
proof (intro allI)
  fix old new pat c w
  let ?E = "example_env never_fails hr hu"
  have nf: "fails ?E h ev = None" for h ev
    by (simp add: example_env_fields never_fails_def)
  show "\<exists>upd evs.
          fst (ProcessProfileUpdate ?E old new pat (uploadCallback ?E c) w) = Inr upd
        \<and> calls (snd (ProcessProfileUpdate ?E old new pat (uploadCallback ?E c) w)) = calls w @ evs"
  proof (cases "avatarUrl new")
    case None
    then show ?thesis
      by (simp add: example_env_fields example_reconciler_def Let_def ret_def)
  next
    case (Some url)
    from uploadContent_bytes_returns [of ?E "Some c" url None None w, OF nf]
    obtain r evs where u: "fst (uploadContent ?E (Some c) (Bytes url) None None w) = Inr r"
      "calls (snd (uploadContent ?E (Some c) (Bytes url) None None w)) = calls w @ evs"
      by blast
    show ?thesis
    proof (cases "case old of None \<Rightarrow> False | Some p \<Rightarrow> db_avatarHash p = Some (''sha:'' @ url)")
      case True
      with Some show ?thesis
        by (simp add: example_env_fields example_reconciler_def Let_def ret_def)
    next
      case False
      with Some u show ?thesis
        by (cases "uploadContent ?E (Some c) (Bytes url) None None w")
          (simp add: example_env_fields example_reconciler_def Let_def ret_def bnd_def
            uploadCallback_def)
    qed
  qed
qed

lemma ex_ghost_path_answers: "ghost_path_answers (example_env never_fails hr hu)"
  by (simp add: ghost_path_answers_def example_env_fields never_fails_def)

lemma String_nat_digit: "n < 10 \<Longrightarrow> String_nat n = [''0123456789'' ! n]"
  by (simp add: String_nat.simps)

theorem double_puppet_fallback_witness:
  "fst (getClient (example_env never_fails None None) (mk_IRemoteUser 5 ''alice'') empty_world)
     = Inr (IntentClient ''@_bridge_5_alice:hs'')
 \<and> Intent_ensureRegistered ''@_bridge_5_alice:hs''
     \<in> set (calls (snd (getClient (example_env never_fails None None)
                            (mk_IRemoteUser 5 ''alice'') empty_world)))
 \<and> maybeGetClient (example_env never_fails None None) 5 ''alice'' empty_world
     = (Inr None,
        empty_world\<lparr>calls := [Provisioner_get 5, Provisioner_getToken (Inl 5),
                               UserStore_get 5 ''alice'']\<rparr>)"
proof -
  let ?E = "example_env never_fails None None"
  let ?d = "mk_IRemoteUser 5 ''alice''"
  have d: "puppetId_u ?d = 5" "userId ?d = ''alice''" by (simp_all add: mk_IRemoteUser_def)
  have g: "ghost_userId ?E 5 ''alice'' = ''@_bridge_5_alice:hs''"
    by (simp add: ghost_userId_def example_env_fields String_nat_digit)
  have t: "token_unusable ?E (calls empty_world) (puppetId_u ?d)"
    by (simp add: token_unusable_def example_env_fields)
  have a: "puppet_attempt ?E 5 = [Provisioner_get 5, Provisioner_getToken (Inl 5)]"
    by (simp add: puppet_attempt_def example_env_fields)
  have e: "user_store empty_world = []" "calls empty_world = []"
    by (simp_all add: empty_world_def)
  have m: "provisioner_puppets ?E (puppetId_u ?d)
             = Some \<lparr>puppetUserId = Some ''alice'', puppetMxid = ''@alice:hs''\<rparr>"
    "puppetUserId \<lparr>puppetUserId = Some ''alice'', puppetMxid = ''@alice:hs''\<rparr> = Some (userId ?d)"
    by (simp_all add: mk_IRemoteUser_def example_env_fields)
  have f: "fails ?E h ev = None" for h ev
    by (simp add: example_env_fields never_fails_def)
  from double_puppet_fallback [OF m f f t ex_ghost_path_answers ex_reconciler_returns,
      THEN conjunct2]
  show ?thesis
    by (simp add: mk_IRemoteUser_def g a e)
qed

text \<open>
  Claim C10 as stated fails for \<open>maybeGetClient\<close>: the remote user is the puppet's own,
  there is no token, and no ghost mapping is stored; the call returns null, and no ghost
  is registered.
\<close>

theorem maybeGetClient_without_ghost:
  "maybeGetClient (example_env never_fails None None) 5 ''alice'' empty_world
     = (Inr None,
        empty_world\<lparr>calls := [Provisioner_get 5, Provisioner_getToken (Inl 5),
                               UserStore_get 5 ''alice'']\<rparr>)"
proof -
  let ?E = "example_env never_fails None None"
  have t: "token_unusable ?E (calls empty_world) 5"
    by (simp add: token_unusable_def example_env_fields)
  have a: "puppet_attempt ?E 5 = [Provisioner_get 5, Provisioner_getToken (Inl 5)]"
    by (simp add: puppet_attempt_def example_env_fields)
  have e: "user_store empty_world = []" "calls empty_world = []"
    by (simp_all add: empty_world_def)
  have m: "provisioner_puppets ?E 5
             = Some \<lparr>puppetUserId = Some ''alice'', puppetMxid = ''@alice:hs''\<rparr>"
    "puppetUserId \<lparr>puppetUserId = Some ''alice'', puppetMxid = ''@alice:hs''\<rparr> = Some ''alice''"
    by (simp_all add: example_env_fields)
  have f: "fails ?E h ev = None" for h ev
    by (simp add: example_env_fields never_fails_def)
  from maybeGetClient_falls_back [OF m f f t f]
  show ?thesis
    by (simp add: a e)
qed

subsection \<open>The hook override rule\<close>

lemma createRoom_override_kept:
  assumes "hooks_createRoom E = Some hook"
    and "fails E (calls w) (Hook_createRoom data) = None"
    and "hook (calls w) data = Some d"
    and "puppetId d = puppetId data" and "roomId d = roomId data"
  shows "createRoom_override E data w = (Inr d, w\<lparr>calls := calls w @ [Hook_createRoom data]\<rparr>)"
  using assms by (simp add: createRoom_override_def io_defs Let_def)

lemma createRoom_override_discarded:
  assumes "hooks_createRoom E = Some hook"
    and "fails E (calls w) (Hook_createRoom data) = None"
    and "hook (calls w) data = None
       \<or> (\<exists>d. hook (calls w) data = Some d \<and> (puppetId d \<noteq> puppetId data \<or> roomId d \<noteq> roomId data))"
  shows "createRoom_override E data w
       = (Inr data, w\<lparr>calls := calls w @ [Hook_createRoom data,
                                          Log_warn ''Override data is malformed!'']\<rparr>)"
  using assms by (auto simp: createRoom_override_def io_defs Let_def)

lemma createUser_override_kept:
  assumes "hooks_createUser E = Some hook"
    and "fails E (calls w) (Hook_createUser data) = None"
    and "hook (calls w) data = Some d"
    and "puppetId_u d = puppetId_u data" and "userId d = userId data"
  shows "createUser_override E data w = (Inr d, w\<lparr>calls := calls w @ [Hook_createUser data]\<rparr>)"
  using assms by (simp add: createUser_override_def io_defs Let_def)

lemma createUser_override_discarded:
  assumes "hooks_createUser E = Some hook"
    and "fails E (calls w) (Hook_createUser data) = None"
    and "hook (calls w) data = None
       \<or> (\<exists>d. hook (calls w) data = Some d \<and> (puppetId_u d \<noteq> puppetId_u data \<or> userId d \<noteq> userId data))"
  shows "createUser_override E data w
       = (Inr data, w\<lparr>calls := calls w @ [Hook_createUser data,
                                          Log_warn ''Override data is malformed!'']\<rparr>)"
  using assms by (auto simp: createUser_override_def io_defs Let_def)

lemma try_catch_bnd_returned:
  "m w = (Inr x, w') \<Longrightarrow> try_catch (bnd m f) h w = try_catch (f x) h w'"
  by (simp add: try_catch_def bnd_def)

lemma getMxid_unmapped:
  assumes "find (\<lambda>e. r_puppetId e = puppetId data \<and> r_roomId e = roomId data) (room_store w) = None"
    and "fails E (calls w) (RoomStore_getByRemote (puppetId data) (roomId data)) = None"
  shows "getMxid E data client0 invites True w
       = try_catch
           (bnd (createRoom_override E data) (\<lambda>data'.
            getMxid_new E (lockKey (puppetId data) (roomId data)) data'
              (case client0 of None \<Rightarrow> BotClient | Some c \<Rightarrow> c) invites))
           (getMxid_catch (lockKey (puppetId data) (roomId data)))
           (w\<lparr>mxidLock := insert (lockKey (puppetId data) (roomId data)) (mxidLock w),
              calls := calls w @ [RoomStore_getByRemote (puppetId data) (roomId data)]\<rparr>)"
  using assms
  by (simp add: getMxid_def roomStore_getByRemote_def Let_def bnd_def modify_def callr_def
      try_catch_def Lock_set_def Lock_wait_def)

lemma getClient_ghost_unmapped:
  assumes "find (\<lambda>e. u_puppetId e = puppetId_u data \<and> u_userId e = userId data) (user_store w) = None"
    and "fails E (calls w) (UserStore_get (puppetId_u data) (userId data)) = None"
  shows "getClient_ghost E data w
       = try_catch
           (bnd (createUser_override E data) (\<lambda>data'.
            getClient_reconcile E (lockKey (puppetId_u data) (userId data)) data'
              (userStore_newData (puppetId_u data') (userId data')) True None))
           (getClient_catch (lockKey (puppetId_u data) (userId data)))
           (w\<lparr>clientLock := insert (lockKey (puppetId_u data) (userId data)) (clientLock w),
              calls := calls w @ [UserStore_get (puppetId_u data) (userId data)]\<rparr>)"
  using assms
  by (simp add: getClient_ghost_def userStore_get_def Let_def bnd_def modify_def callr_def
      try_catch_def Lock_set_def Lock_wait_def)

lemma getClient_reaches_ghost:
  assumes "no_puppet_client E data w evs"
  shows "getClient E data w = getClient_ghost E data (w\<lparr>calls := calls w @ evs\<rparr>)"
proof (cases "provisioner_puppets E (puppetId_u data)")
  case None
  with assms show ?thesis
    by (simp add: no_puppet_client_def getClient_def provisioner_get_def bnd_def callr_def
        ret_def Let_def)
next
  case (Some pd)
  show ?thesis
  proof (cases "puppetUserId pd = Some (userId data)")
    case True
    with assms Some show ?thesis
      by (simp add: no_puppet_client_def getClient_falls_back [of E data pd w])
  next
    case False
    with assms Some show ?thesis
      by (simp add: no_puppet_client_def getClient_def provisioner_get_def bnd_def callr_def
          ret_def Let_def)
  qed
qed

text \<open>
  Claim C6. With no mapping stored and the hook installed and answering, \<open>getMxid\<close>
  (creating) and \<open>getClient\<close> (whenever it comes to its ghost path: the remote user is
  not the puppet's own, or is the puppet's own without a usable token) go on as follows.
  When the hook returns nothing, or data whose (puppetId, remoteId) differs from the
  request's, a warning is logged and the rest of the function runs on the original
  request. When the hook returns data with the same pair, the rest of the function runs
  on the hook's data, and no warning is logged. The rest of the function is the creation
  (\<open>getMxid_new\<close>: the reconciler, the payload \<open>mk_createParams\<close>, \<open>createRoom\<close>, the store)
  for rooms, and \<open>getClient_reconcile\<close> on a fresh entry for users.
\<close>

theorem hook_override_rule:
  "(hooks_createRoom E = Some hook
      \<and> find (\<lambda>e. r_puppetId e = puppetId data \<and> r_roomId e = roomId data) (room_store w) = None
      \<and> fails E (calls w) (RoomStore_getByRemote (puppetId data) (roomId data)) = None
      \<and> fails E (calls w @ [RoomStore_getByRemote (puppetId data) (roomId data)])
            (Hook_createRoom data) = None
      \<and> (hook (calls w @ [RoomStore_getByRemote (puppetId data) (roomId data)]) data = None
         \<or> (\<exists>d. hook (calls w @ [RoomStore_getByRemote (puppetId data) (roomId data)]) data = Some d
                \<and> (puppetId d \<noteq> puppetId data \<or> roomId d \<noteq> roomId data)))
    \<longrightarrow> getMxid E data client0 invites True w
          = try_catch
              (getMxid_new E (lockKey (puppetId data) (roomId data)) data
                 (case client0 of None \<Rightarrow> BotClient | Some c \<Rightarrow> c) invites)
              (getMxid_catch (lockKey (puppetId data) (roomId data)))
              (w\<lparr>mxidLock := insert (lockKey (puppetId data) (roomId data)) (mxidLock w),
                 calls := calls w @ [RoomStore_getByRemote (puppetId data) (roomId data),
                                     Hook_createRoom data,
                                     Log_warn ''Override data is malformed!'']\<rparr>))
 \<and> (hooks_createRoom E = Some hook
      \<and> find (\<lambda>e. r_puppetId e = puppetId data \<and> r_roomId e = roomId data) (room_store w) = None
      \<and> fails E (calls w) (RoomStore_getByRemote (puppetId data) (roomId data)) = None
      \<and> fails E (calls w @ [RoomStore_getByRemote (puppetId data) (roomId data)])
            (Hook_createRoom data) = None
      \<and> hook (calls w @ [RoomStore_getByRemote (puppetId data) (roomId data)]) data = Some d
      \<and> puppetId d = puppetId data \<and> roomId d = roomId data
    \<longrightarrow> getMxid E data client0 invites True w
          = try_catch
              (getMxid_new E (lockKey (puppetId data) (roomId data)) d
                 (case client0 of None \<Rightarrow> BotClient | Some c \<Rightarrow> c) invites)
              (getMxid_catch (lockKey (puppetId data) (roomId data)))
              (w\<lparr>mxidLock := insert (lockKey (puppetId data) (roomId data)) (mxidLock w),
                 calls := calls w @ [RoomStore_getByRemote (puppetId data) (roomId data),
                                     Hook_createRoom data]\<rparr>))
 \<and> (hooks_createUser E = Some uhook
      \<and> no_puppet_client E udata w evs
      \<and> find (\<lambda>e. u_puppetId e = puppetId_u udata \<and> u_userId e = userId udata) (user_store w) = None
      \<and> fails E (calls w @ evs) (UserStore_get (puppetId_u udata) (userId udata)) = None
      \<and> fails E (calls w @ evs @ [UserStore_get (puppetId_u udata) (userId udata)])
            (Hook_createUser udata) = None
      \<and> (uhook (calls w @ evs @ [UserStore_get (puppetId_u udata) (userId udata)]) udata = None
         \<or> (\<exists>d. uhook (calls w @ evs @ [UserStore_get (puppetId_u udata) (userId udata)]) udata
                  = Some d
                \<and> (puppetId_u d \<noteq> puppetId_u udata \<or> userId d \<noteq> userId udata)))
    \<longrightarrow> getClient E udata w
          = try_catch
              (getClient_reconcile E (lockKey (puppetId_u udata) (userId udata)) udata
                 (userStore_newData (puppetId_u udata) (userId udata)) True None)
              (getClient_catch (lockKey (puppetId_u udata) (userId udata)))
              (w\<lparr>clientLock := insert (lockKey (puppetId_u udata) (userId udata)) (clientLock w),
                 calls := calls w @ evs @ [UserStore_get (puppetId_u udata) (userId udata),
                                           Hook_createUser udata,
                                           Log_warn ''Override data is malformed!'']\<rparr>))
 \<and> (hooks_createUser E = Some uhook
      \<and> no_puppet_client E udata w evs
      \<and> find (\<lambda>e. u_puppetId e = puppetId_u udata \<and> u_userId e = userId udata) (user_store w) = None
      \<and> fails E (calls w @ evs) (UserStore_get (puppetId_u udata) (userId udata)) = None
      \<and> fails E (calls w @ evs @ [UserStore_get (puppetId_u udata) (userId udata)])
            (Hook_createUser udata) = None
      \<and> uhook (calls w @ evs @ [UserStore_get (puppetId_u udata) (userId udata)]) udata = Some ud
      \<and> puppetId_u ud = puppetId_u udata \<and> userId ud = userId udata
    \<longrightarrow> getClient E udata w
          = try_catch
              (getClient_reconcile E (lockKey (puppetId_u udata) (userId udata)) ud
                 (userStore_newData (puppetId_u ud) (userId ud)) True None)
              (getClient_catch (lockKey (puppetId_u udata) (userId udata)))
              (w\<lparr>clientLock := insert (lockKey (puppetId_u udata) (userId udata)) (clientLock w),
                 calls := calls w @ evs @ [UserStore_get (puppetId_u udata) (userId udata),
                                           Hook_createUser udata]\<rparr>))"
proof (intro conjI impI; elim conjE)
  let ?k = "lockKey (puppetId data) (roomId data)"
  let ?w2 = "w\<lparr>mxidLock := insert ?k (mxidLock w),
                 calls := calls w @ [RoomStore_getByRemote (puppetId data) (roomId data)]\<rparr>"
  {
    assume h: "hooks_createRoom E = Some hook"
      "find (\<lambda>e. r_puppetId e = puppetId data \<and> r_roomId e = roomId data) (room_store w) = None"
      "fails E (calls w) (RoomStore_getByRemote (puppetId data) (roomId data)) = None"
      "fails E (calls w @ [RoomStore_getByRemote (puppetId data) (roomId data)])
            (Hook_createRoom data) = None"
    assume bad: "hook (calls w @ [RoomStore_getByRemote (puppetId data) (roomId data)]) data = None
         \<or> (\<exists>d. hook (calls w @ [RoomStore_getByRemote (puppetId data) (roomId data)]) data = Some d
                \<and> (puppetId d \<noteq> puppetId data \<or> roomId d \<noteq> roomId data))"
    have "createRoom_override E data ?w2
       = (Inr data, ?w2\<lparr>calls := calls ?w2 @ [Hook_createRoom data,
                                          Log_warn ''Override data is malformed!'']\<rparr>)"
      using createRoom_override_discarded [of E hook ?w2 data] h(1,4) bad by simp
    then show "getMxid E data client0 invites True w
          = try_catch
              (getMxid_new E ?k data (case client0 of None \<Rightarrow> BotClient | Some c \<Rightarrow> c) invites)
              (getMxid_catch ?k)
              (w\<lparr>mxidLock := insert ?k (mxidLock w),
                 calls := calls w @ [RoomStore_getByRemote (puppetId data) (roomId data),
                                     Hook_createRoom data,
                                     Log_warn ''Override data is malformed!'']\<rparr>)"
      unfolding getMxid_unmapped [OF h(2,3)]
      by (simp add: try_catch_bnd_returned)
  }
  {
    assume h: "hooks_createRoom E = Some hook"
      "find (\<lambda>e. r_puppetId e = puppetId data \<and> r_roomId e = roomId data) (room_store w) = None"
      "fails E (calls w) (RoomStore_getByRemote (puppetId data) (roomId data)) = None"
      "fails E (calls w @ [RoomStore_getByRemote (puppetId data) (roomId data)])
            (Hook_createRoom data) = None"
    assume good: "hook (calls w @ [RoomStore_getByRemote (puppetId data) (roomId data)]) data = Some d"
      "puppetId d = puppetId data" "roomId d = roomId data"
    have "createRoom_override E data ?w2
       = (Inr d, ?w2\<lparr>calls := calls ?w2 @ [Hook_createRoom data]\<rparr>)"
      using createRoom_override_kept [of E hook ?w2 data d] h(1,4) good by simp
    then show "getMxid E data client0 invites True w
          = try_catch
              (getMxid_new E ?k d (case client0 of None \<Rightarrow> BotClient | Some c \<Rightarrow> c) invites)
              (getMxid_catch ?k)
              (w\<lparr>mxidLock := insert ?k (mxidLock w),
                 calls := calls w @ [RoomStore_getByRemote (puppetId data) (roomId data),
                                     Hook_createRoom data]\<rparr>)"
      unfolding getMxid_unmapped [OF h(2,3)]
      by (simp add: try_catch_bnd_returned)
  }
  let ?ku = "lockKey (puppetId_u udata) (userId udata)"
  let ?v1 = "w\<lparr>calls := calls w @ evs\<rparr>"
  let ?v2 = "?v1\<lparr>clientLock := insert ?ku (clientLock ?v1),
                 calls := calls ?v1 @ [UserStore_get (puppetId_u udata) (userId udata)]\<rparr>"
  {
    assume h: "hooks_createUser E = Some uhook"
      "no_puppet_client E udata w evs"
      "find (\<lambda>e. u_puppetId e = puppetId_u udata \<and> u_userId e = userId udata) (user_store w) = None"
      "fails E (calls w @ evs) (UserStore_get (puppetId_u udata) (userId udata)) = None"
      "fails E (calls w @ evs @ [UserStore_get (puppetId_u udata) (userId udata)])
            (Hook_createUser udata) = None"
    assume bad: "uhook (calls w @ evs @ [UserStore_get (puppetId_u udata) (userId udata)]) udata = None
         \<or> (\<exists>d. uhook (calls w @ evs @ [UserStore_get (puppetId_u udata) (userId udata)]) udata
                  = Some d
                \<and> (puppetId_u d \<noteq> puppetId_u udata \<or> userId d \<noteq> userId udata))"
    have g: "getClient_ghost E udata ?v1
       = try_catch
           (bnd (createUser_override E udata) (\<lambda>data'.
            getClient_reconcile E ?ku data'
              (userStore_newData (puppetId_u data') (userId data')) True None))
           (getClient_catch ?ku) ?v2"
      using getClient_ghost_unmapped [of udata ?v1 E] h(3,4) by simp
    have "createUser_override E udata ?v2
       = (Inr udata, ?v2\<lparr>calls := calls ?v2 @ [Hook_createUser udata,
                                          Log_warn ''Override data is malformed!'']\<rparr>)"
      using createUser_override_discarded [of E uhook ?v2 udata] h(1,5) bad by simp
    then show "getClient E udata w
          = try_catch
              (getClient_reconcile E ?ku udata
                 (userStore_newData (puppetId_u udata) (userId udata)) True None)
              (getClient_catch ?ku)
              (w\<lparr>clientLock := insert ?ku (clientLock w),
                 calls := calls w @ evs @ [UserStore_get (puppetId_u udata) (userId udata),
                                           Hook_createUser udata,
                                           Log_warn ''Override data is malformed!'']\<rparr>)"
      unfolding getClient_reaches_ghost [OF h(2)] g
      by (simp add: try_catch_bnd_returned)
  }
  {
    assume h: "hooks_createUser E = Some uhook"
      "no_puppet_client E udata w evs"
      "find (\<lambda>e. u_puppetId e = puppetId_u udata \<and> u_userId e = userId udata) (user_store w) = None"
      "fails E (calls w @ evs) (UserStore_get (puppetId_u udata) (userId udata)) = None"
      "fails E (calls w @ evs @ [UserStore_get (puppetId_u udata) (userId udata)])
            (Hook_createUser udata) = None"
    assume good: "uhook (calls w @ evs @ [UserStore_get (puppetId_u udata) (userId udata)]) udata
                    = Some ud"
      "puppetId_u ud = puppetId_u udata" "userId ud = userId udata"
    have g: "getClient_ghost E udata ?v1
       = try_catch
           (bnd (createUser_override E udata) (\<lambda>data'.
            getClient_reconcile E ?ku data'
              (userStore_newData (puppetId_u data') (userId data')) True None))
           (getClient_catch ?ku) ?v2"
      using getClient_ghost_unmapped [of udata ?v1 E] h(3,4) by simp
    have "createUser_override E udata ?v2
       = (Inr ud, ?v2\<lparr>calls := calls ?v2 @ [Hook_createUser udata]\<rparr>)"
      using createUser_override_kept [of E uhook ?v2 udata ud] h(1,5) good by simp
    then show "getClient E udata w
          = try_catch
              (getClient_reconcile E ?ku ud
                 (userStore_newData (puppetId_u ud) (userId ud)) True None)
              (getClient_catch ?ku)
              (w\<lparr>clientLock := insert ?ku (clientLock w),
                 calls := calls w @ evs @ [UserStore_get (puppetId_u udata) (userId udata),
                                           Hook_createUser udata]\<rparr>)"
      unfolding getClient_reaches_ghost [OF h(2)] g
      by (simp add: try_catch_bnd_returned)
  }
qed

lemma example_env_more:
  "createRoom_ret (example_env f hr hu) = (\<lambda>h c p. ''!room'' @ replicate (length h) CHR ''x'' @ '':hs'')"
  "botUserId (example_env f hr hu) = ''@_bridge_bot:hs''"
  "getAliasLocalpartForSuffix (example_env f hr hu) = (\<lambda>s. ''_bridge_'' @ s)"
  "namePatterns_user (example_env f hr hu) = '':name''"
  by (simp_all add: example_env_def)

lemma ex_getMxid_new:
  assumes "name d = Some n" and "n \<noteq> []" and "avatarUrl d = None" and "topic d = None"
    and "groupId d = None" and "isDirect d = None" and "puppetId d = 3" and "roomId d = ''chan9''"
  shows "try_catch (getMxid_new (example_env never_fails hr hu) k d BotClient None)
           (getMxid_catch k) w
       = (Inr (''!room'' @ replicate (length (calls w)) CHR ''x'' @ '':hs'', True),
          w\<lparr>calls := calls w @
               [Client_createRoom BotClient
                  \<lparr>is_direct = None, invite = None, initial_state = [],
                     room_alias_name = Some ''_bridge_3_chan9'', cp_name = Some n\<rparr>,
                Client_getUserId BotClient,
                RoomStore_setRoomOp (''!room'' @ replicate (length (calls w)) CHR ''x'' @ '':hs'')
                  ''@_bridge_bot:hs'',
                RoomStore_set
                  ((roomStore_newData (''!room'' @ replicate (length (calls w)) CHR ''x'' @ '':hs'')
                      ''chan9'' 3)\<lparr>db_name := Some n\<rparr>)],
             chan_op := (chan_op w)(''!room'' @ replicate (length (calls w)) CHR ''x'' @ '':hs''
                                     \<mapsto> ''@_bridge_bot:hs''),
             room_store :=
               filter (\<lambda>e. mxid e \<noteq> ''!room'' @ replicate (length (calls w)) CHR ''x'' @ '':hs'')
                 (room_store w)
               @ [(roomStore_newData (''!room'' @ replicate (length (calls w)) CHR ''x'' @ '':hs'')
                      ''chan9'' 3)\<lparr>db_name := Some n\<rparr>],
             mxidLock := mxidLock w - {k}\<rparr>)"
  using assms
  by (simp add: getMxid_new_def getMxid_create_def getMxid_finish_def updateGroups_def
      mk_createParams_def client_getUserId_def roomStore_setRoomOp_def roomStore_set_def
      example_env_fields example_env_more example_reconciler_def never_fails_def io_defs Let_def truthy_def
      IRemoteProfile.truncate_def assign_profile_def roomStore_newData_def String_nat_digit
      Lock_release_def)

lemma ex_getClient_reconcile:
  assumes "name d = Some n" and "n \<noteq> []" and "avatarUrl d = None" and "roomOverrides d = None"
    and "puppetId_u d = 5" and "userId d = u" and "override_store w = []"
  shows "try_catch (getClient_reconcile (example_env never_fails hr hu) k d
                      (userStore_newData 5 u) True None)
           (getClient_catch k) w
       = (Inr (IntentClient (''@_bridge_5_'' @ u @ '':hs'')),
          w\<lparr>calls := calls w @
               [Intent_ensureRegistered (''@_bridge_5_'' @ u @ '':hs''),
                Client_setDisplayName (IntentClient (''@_bridge_5_'' @ u @ '':hs'')) n,
                UserStore_set ((userStore_newData 5 u)\<lparr>db_name := Some n\<rparr>),
                UserStore_getAllRoomOverrides 5 u],
             user_store :=
               filter (\<lambda>e. \<not> (u_puppetId e = 5 \<and> u_userId e = u)) (user_store w)
               @ [(userStore_newData 5 u)\<lparr>db_name := Some n\<rparr>],
             clientLock := clientLock w - {k}\<rparr>)"
  using assms
  by (simp add: getClient_reconcile_def getClient_background_def ghost_userId_def
      userStore_set_def userStore_getAllRoomOverrides_def started_def floating_def
      example_env_fields example_env_more example_reconciler_def never_fails_def io_defs Let_def truthy_def
      or_else_def IRemoteProfile.truncate_def assign_profile_def userStore_newData_def
      String_nat_digit Lock_release_def)

theorem hook_override_rule_witness:
  "getMxid (example_env never_fails (Some straying_hook) None) example_request None None True
     empty_world
   = (Inr (''!roomxxx:hs'', True),
      empty_world\<lparr>calls :=
           [RoomStore_getByRemote 3 ''chan9'',
            Hook_createRoom example_request,
            Log_warn ''Override data is malformed!'',
            Client_createRoom BotClient
              \<lparr>is_direct = None, invite = None, initial_state = [],
                 room_alias_name = Some ''_bridge_3_chan9'', cp_name = Some ''Lobby''\<rparr>,
            Client_getUserId BotClient,
            RoomStore_setRoomOp ''!roomxxx:hs'' ''@_bridge_bot:hs'',
            RoomStore_set ((roomStore_newData ''!roomxxx:hs'' ''chan9'' 3)\<lparr>db_name := Some ''Lobby''\<rparr>)],
         chan_op := Map.empty(''!roomxxx:hs'' \<mapsto> ''@_bridge_bot:hs''),
         room_store := [(roomStore_newData ''!roomxxx:hs'' ''chan9'' 3)\<lparr>db_name := Some ''Lobby''\<rparr>]\<rparr>)
 \<and> getMxid (example_env never_fails (Some renaming_hook) None) example_request None None True
     empty_world
   = (Inr (''!roomxx:hs'', True),
      empty_world\<lparr>calls :=
           [RoomStore_getByRemote 3 ''chan9'',
            Hook_createRoom example_request,
            Client_createRoom BotClient
              \<lparr>is_direct = None, invite = None, initial_state = [],
                 room_alias_name = Some ''_bridge_3_chan9'', cp_name = Some ''Renamed''\<rparr>,
            Client_getUserId BotClient,
            RoomStore_setRoomOp ''!roomxx:hs'' ''@_bridge_bot:hs'',
            RoomStore_set ((roomStore_newData ''!roomxx:hs'' ''chan9'' 3)\<lparr>db_name := Some ''Renamed''\<rparr>)],
         chan_op := Map.empty(''!roomxx:hs'' \<mapsto> ''@_bridge_bot:hs''),
         room_store := [(roomStore_newData ''!roomxx:hs'' ''chan9'' 3)\<lparr>db_name := Some ''Renamed''\<rparr>]\<rparr>)
 \<and> getClient (example_env never_fails None (Some straying_user_hook)) example_user_request
     empty_world
   = (Inr (IntentClient ''@_bridge_5_u9:hs''),
      empty_world\<lparr>calls :=
           [Provisioner_get 5,
            UserStore_get 5 ''u9'',
            Hook_createUser example_user_request,
            Log_warn ''Override data is malformed!'',
            Intent_ensureRegistered ''@_bridge_5_u9:hs'',
            Client_setDisplayName (IntentClient ''@_bridge_5_u9:hs'') ''Zed'',
            UserStore_set ((userStore_newData 5 ''u9'')\<lparr>db_name := Some ''Zed''\<rparr>),
            UserStore_getAllRoomOverrides 5 ''u9''],
         user_store := [(userStore_newData 5 ''u9'')\<lparr>db_name := Some ''Zed''\<rparr>]\<rparr>)
 \<and> getClient (example_env never_fails None (Some renaming_user_hook)) example_own_request
     empty_world
   = (Inr (IntentClient ''@_bridge_5_alice:hs''),
      empty_world\<lparr>calls :=
           [Provisioner_get 5,
            Provisioner_getToken (Inl 5),
            UserStore_get 5 ''alice'',
            Hook_createUser example_own_request,
            Intent_ensureRegistered ''@_bridge_5_alice:hs'',
            Client_setDisplayName (IntentClient ''@_bridge_5_alice:hs'') ''Renamed'',
            UserStore_set ((userStore_newData 5 ''alice'')\<lparr>db_name := Some ''Renamed''\<rparr>),
            UserStore_getAllRoomOverrides 5 ''alice''],
         user_store := [(userStore_newData 5 ''alice'')\<lparr>db_name := Some ''Renamed''\<rparr>]\<rparr>)"
proof -
  let ?Es = "example_env never_fails (Some straying_hook) None"
  let ?Er = "example_env never_fails (Some renaming_hook) None"
  let ?Us = "example_env never_fails None (Some straying_user_hook)"
  let ?Ur = "example_env never_fails None (Some renaming_user_hook)"
  have r: "puppetId example_request = 3" "roomId example_request = ''chan9''"
      "name example_request = Some ''Lobby''" "avatarUrl example_request = None"
      "topic example_request = None" "groupId example_request = None"
      "isDirect example_request = None"
    by (simp_all add: example_request_def mk_IRemoteRoom_def)
  have u: "puppetId_u example_user_request = 5" "userId example_user_request = ''u9''"
      "name example_user_request = Some ''Zed''" "avatarUrl example_user_request = None"
      "roomOverrides example_user_request = None"
    by (simp_all add: example_user_request_def mk_IRemoteUser_def)
  have o: "puppetId_u example_own_request = 5" "userId example_own_request = ''alice''"
      "name example_own_request = Some ''Alice''" "avatarUrl example_own_request = None"
      "roomOverrides example_own_request = None"
    by (simp_all add: example_own_request_def mk_IRemoteUser_def)
  have e: "calls empty_world = []" "room_store empty_world = []" "user_store empty_world = []"
      "mxidLock empty_world = {}" "clientLock empty_world = {}" "chan_op empty_world = Map.empty"
      "override_store empty_world = []"
    by (simp_all add: empty_world_def)
  have other: "no_puppet_client ?Us example_user_request empty_world [Provisioner_get 5]"
    by (simp add: no_puppet_client_def u e example_env_fields never_fails_def)
  have own: "no_puppet_client ?Ur example_own_request empty_world
               [Provisioner_get 5, Provisioner_getToken (Inl 5)]"
    by (simp add: no_puppet_client_def token_unusable_def puppet_attempt_def o e
        example_env_fields never_fails_def)
  have 1: "getMxid ?Es example_request None None True empty_world
      = try_catch (getMxid_new ?Es (lockKey 3 ''chan9'') example_request BotClient None)
          (getMxid_catch (lockKey 3 ''chan9''))
          (empty_world\<lparr>mxidLock := {lockKey 3 ''chan9''},
             calls := [RoomStore_getByRemote 3 ''chan9'', Hook_createRoom example_request,
                       Log_warn ''Override data is malformed!'']\<rparr>)"
    using hook_override_rule [where E = ?Es and hook = straying_hook and data = example_request
        and w = empty_world and ?client0.0 = None and invites = None]
    by (simp add: r e example_env_fields example_env_more never_fails_def straying_hook_def)
  have 2: "getMxid ?Er example_request None None True empty_world
      = try_catch (getMxid_new ?Er (lockKey 3 ''chan9'')
            (example_request\<lparr>name := Some ''Renamed''\<rparr>) BotClient None)
          (getMxid_catch (lockKey 3 ''chan9''))
          (empty_world\<lparr>mxidLock := {lockKey 3 ''chan9''},
             calls := [RoomStore_getByRemote 3 ''chan9'', Hook_createRoom example_request]\<rparr>)"
    using hook_override_rule [where E = ?Er and hook = renaming_hook and data = example_request
        and w = empty_world and ?client0.0 = None and invites = None
        and d = "example_request\<lparr>name := Some ''Renamed''\<rparr>"]
    by (simp add: r e example_env_fields example_env_more never_fails_def renaming_hook_def)
  have 3: "getClient ?Us example_user_request empty_world
      = try_catch (getClient_reconcile ?Us (lockKey 5 ''u9'') example_user_request
            (userStore_newData 5 ''u9'') True None)
          (getClient_catch (lockKey 5 ''u9''))
          (empty_world\<lparr>clientLock := {lockKey 5 ''u9''},
             calls := [Provisioner_get 5, UserStore_get 5 ''u9'',
                       Hook_createUser example_user_request,
                       Log_warn ''Override data is malformed!'']\<rparr>)"
    using hook_override_rule [where E = ?Us and uhook = straying_user_hook
        and udata = example_user_request and w = empty_world and evs = "[Provisioner_get 5]"]
      other
    by (simp add: u e example_env_fields example_env_more never_fails_def straying_user_hook_def)
  have 4: "getClient ?Ur example_own_request empty_world
      = try_catch (getClient_reconcile ?Ur (lockKey 5 ''alice'')
            (example_own_request\<lparr>name := Some ''Renamed''\<rparr>)
            (userStore_newData 5 ''alice'') True None)
          (getClient_catch (lockKey 5 ''alice''))
          (empty_world\<lparr>clientLock := {lockKey 5 ''alice''},
             calls := [Provisioner_get 5, Provisioner_getToken (Inl 5), UserStore_get 5 ''alice'',
                       Hook_createUser example_own_request]\<rparr>)"
    using hook_override_rule [where E = ?Ur and uhook = renaming_user_hook
        and udata = example_own_request and w = empty_world
        and evs = "[Provisioner_get 5, Provisioner_getToken (Inl 5)]"
        and ud = "example_own_request\<lparr>name := Some ''Renamed''\<rparr>"]
      own
    by (simp add: o e example_env_fields example_env_more never_fails_def renaming_user_hook_def)
  show ?thesis
    unfolding 1 2 3 4
    by (simp add: ex_getMxid_new ex_getClient_reconcile r u o e)
qed

subsection \<open>Reconciling an unchanged profile\<close>

lemma no_writes_refl [simp]: "no_writes w w"
  by (simp add: no_writes_def)

lemma no_writes_trans: "no_writes a b \<Longrightarrow> no_writes b c \<Longrightarrow> no_writes a c"
  by (auto simp: no_writes_def)

lemma no_writes_call:
  "\<not> is_write ev \<Longrightarrow> no_writes w0 w \<Longrightarrow> no_writes w0 (w\<lparr>calls := calls w @ [ev]\<rparr>)"
  by (auto simp: no_writes_def)

lemma no_writes_locks:
  "no_writes w0 w \<Longrightarrow> no_writes w0 (w\<lparr>mxidLock := L\<rparr>)"
  "no_writes w0 w \<Longrightarrow> no_writes w0 (w\<lparr>clientLock := L\<rparr>)"
  by (simp_all add: no_writes_def)

lemma quiet_ret: "Q x \<Longrightarrow> quiet w0 Q (ret x)"
  by (simp add: quiet_def ret_def)

lemma quiet_throw: "quiet w0 Q (throw e)"
  by (simp add: quiet_def throw_def)

lemma quiet_weaken: "quiet w0 P m \<Longrightarrow> (\<And>x. P x \<Longrightarrow> Q x) \<Longrightarrow> quiet w0 Q m"
  by (simp add: quiet_def)

lemma quiet_bnd:
  assumes "quiet w0 P m" and "\<And>x. P x \<Longrightarrow> quiet w0 Q (f x)"
  shows "quiet w0 Q (bnd m f)"
  unfolding quiet_def
proof (intro allI impI)
  fix w
  assume w: "no_writes w0 w"
  obtain r w1 where m: "m w = (r, w1)"
    by (cases "m w")
  from assms(1) w m have w1: "no_writes w0 w1" and p: "\<And>x. r = Inr x \<Longrightarrow> P x"
    unfolding quiet_def by fastforce+
  show "no_writes w0 (snd (bnd m f w)) \<and> (\<forall>x. fst (bnd m f w) = Inr x \<longrightarrow> Q x)"
  proof (cases r)
    case (Inl e)
    with m w1 show ?thesis
      by (simp add: bnd_def)
  next
    case (Inr x)
    from assms(2) [OF p [OF Inr]] w1 have "no_writes w0 (snd (f x w1))"
      "\<forall>y. fst (f x w1) = Inr y \<longrightarrow> Q y"
      unfolding quiet_def by blast+
    with m Inr show ?thesis
      by (simp add: bnd_def)
  qed
qed

lemma quiet_try_catch:
  assumes "quiet w0 Q m" and "\<And>e. quiet w0 Q (h e)"
  shows "quiet w0 Q (try_catch m h)"
  unfolding quiet_def
proof (intro allI impI)
  fix w
  assume w: "no_writes w0 w"
  obtain r w1 where m: "m w = (r, w1)"
    by (cases "m w")
  from assms(1) w m have w1: "no_writes w0 w1" and p: "\<And>x. r = Inr x \<Longrightarrow> Q x"
    unfolding quiet_def by fastforce+
  show "no_writes w0 (snd (try_catch m h w)) \<and> (\<forall>x. fst (try_catch m h w) = Inr x \<longrightarrow> Q x)"
  proof (cases r)
    case (Inr x)
    with m w1 p show ?thesis
      by (simp add: try_catch_def)
  next
    case (Inl e)
    from assms(2) [of e] w1 have "no_writes w0 (snd (h e w1))"
      "\<forall>y. fst (h e w1) = Inr y \<longrightarrow> Q y"
      unfolding quiet_def by blast+
    with m Inl show ?thesis
      by (simp add: try_catch_def)
  qed
qed

lemma quiet_callr:
  assumes "\<not> is_write ev" and "\<And>h w. no_writes w0 w \<Longrightarrow> Q (f h w)"
  shows "quiet w0 Q (callr E ev f)"
  using assms
  by (auto simp: quiet_def callr_def Let_def no_writes_call split: option.splits)

lemma quiet_call: "\<not> is_write ev \<Longrightarrow> quiet w0 (\<lambda>x. True) (call E ev)"
  by (simp add: call_def quiet_callr)

lemma quiet_logg: "\<not> is_write ev \<Longrightarrow> quiet w0 (\<lambda>x. True) (logg ev)"
  by (simp add: quiet_def logg_def modify_def no_writes_call)

lemma quiet_modify:
  "(\<And>w. no_writes w0 w \<Longrightarrow> no_writes w0 (f w)) \<Longrightarrow> quiet w0 (\<lambda>x. True) (modify f)"
  by (simp add: quiet_def modify_def)

lemma quiet_floating: "quiet w0 Q m \<Longrightarrow> quiet w0 (\<lambda>x. True) (floating m)"
  unfolding floating_def
  by (rule quiet_try_catch) (auto intro: quiet_weaken quiet_ret)

lemma quiet_reconciler:
  assumes "empty_diff E old new pat c"
  shows "quiet w0 (\<lambda>upd. upd_name upd = None \<and> upd_avatarMxc upd = None)
           (ProcessProfileUpdate E old new pat (uploadCallback E c))"
  using assms unfolding quiet_def empty_diff_def
  by (meson no_writes_trans)


lemma quiet_getClientFromTokenCallback:
  "quiet w0 (\<lambda>x. True) (getClientFromTokenCallback E tok)"
  unfolding getClientFromTokenCallback_def client_getUserId_def Let_def
  by (cases tok)
    (auto intro!: quiet_ret quiet_try_catch quiet_bnd [where P = "\<lambda>x. True"] quiet_callr)

lemma quiet_getRoomOp: "quiet w0 (\<lambda>x. True) (getRoomOp E m)"
  unfolding getRoomOp_def roomStore_getRoomOp_def provisioner_getToken_def
  by (intro quiet_bnd [where P = "\<lambda>x. True"] quiet_callr)
    (auto intro!: quiet_ret quiet_bnd [where P = "\<lambda>x. True"] quiet_callr
      quiet_getClientFromTokenCallback split: option.splits)

lemma quiet_getPuppetClient: "quiet w0 (\<lambda>x. True) (getPuppetClient E p)"
  unfolding getPuppetClient_def provisioner_getToken_def
  by (intro quiet_bnd [where P = "\<lambda>x. True"] quiet_callr quiet_getClientFromTokenCallback)
    simp_all

lemma assign_profile_room [simp]:
  "r_topic (assign_profile room upd) = r_topic room"
  "r_groupId (assign_profile room upd) = r_groupId room"
  "mxid (assign_profile room upd) = mxid room"
  by (simp_all add: assign_profile_def)

lemma bnd_ret: "bnd (ret x) f = f x"
  by (simp add: bnd_def ret_def)

lemma quiet_getMxid_update:
  assumes "\<And>c. empty_diff E (Some (IProfileDbEntry.truncate room)) (IRemoteProfile.truncate data)
                   (namePatterns_room E) c"
    and "topic data = None \<or> topic data = r_topic room"
    and "groupId data = None \<or> groupId data = r_groupId room"
  shows "quiet w0 (\<lambda>(room', doUpdate, removeGroup, addGroup).
                     \<not> doUpdate \<and> removeGroup = None \<and> addGroup = None)
           (getMxid_update E data client room)"
  unfolding getMxid_update_def Let_def
  apply (rule quiet_bnd [OF quiet_getRoomOp])
  apply (rule quiet_bnd [OF quiet_reconciler [OF assms(1)]])
  using assms(2,3)
  apply (auto simp: bnd_ret intro!: quiet_ret split: option.splits)
  done

lemma quiet_getMxid_finish:
  "quiet w0 (\<lambda>x. x = (m, created)) (getMxid_finish E k m created room False None None)"
  unfolding getMxid_finish_def updateGroups_def
  by (auto simp: truthy_def intro!: quiet_bnd [where P = "\<lambda>x. True"] quiet_ret quiet_modify
      no_writes_locks)

lemma quiet_getMxid_catch: "quiet w0 Q (getMxid_catch k err)"
  unfolding getMxid_catch_def
  by (auto intro!: quiet_bnd [where P = "\<lambda>x. True"] quiet_logg quiet_modify quiet_throw
      no_writes_locks)

lemma quiet_getMxid:
  assumes "find (\<lambda>e. r_puppetId e = puppetId data \<and> r_roomId e = roomId data) (room_store w0)
             = Some room"
    and "\<And>c. empty_diff E (Some (IProfileDbEntry.truncate room)) (IRemoteProfile.truncate data)
                   (namePatterns_room E) c"
    and "topic data = None \<or> topic data = r_topic room"
    and "groupId data = None \<or> groupId data = r_groupId room"
  shows "quiet w0 (\<lambda>x. x = (mxid room, False)) (getMxid E data client0 invites doCreate)"
proof -
  have look: "quiet w0 (\<lambda>x. x = Some room)
      (roomStore_getByRemote E (puppetId data) (roomId data))"
    unfolding roomStore_getByRemote_def
    using assms(1) by (intro quiet_callr) (simp_all add: no_writes_def)
  have ex: "quiet w0 (\<lambda>x. x = (mxid room, False)) (getMxid_existing E k data c room)" for k c
    unfolding getMxid_existing_def
    by (rule quiet_bnd [OF quiet_getMxid_update [OF assms(2-4)]])
      (auto intro: quiet_getMxid_finish)
  show ?thesis
    unfolding getMxid_def Let_def
    apply (rule quiet_bnd [where P = "\<lambda>x. True"])
     apply (rule quiet_modify)
     apply (simp add: no_writes_locks)
    apply (rule quiet_try_catch)
     apply (rule quiet_bnd [OF look])
     apply (simp add: ex)
    apply (rule quiet_getMxid_catch)
    done
qed


lemma quiet_updateRoomOverride:
  assumes "empty_diff E
             (map_option IProfileDbEntry.truncate
                (find (\<lambda>e. o_puppetId e = p \<and> o_userId e = u \<and> o_roomId e = rid)
                   (override_store w0)))
             ov (namePatterns_userOverride E) c"
  shows "quiet w0 (\<lambda>x. True) (updateRoomOverride E c p u rid ov orig)"
proof -
  have look: "quiet w0
      (\<lambda>x. x = find (\<lambda>e. o_puppetId e = p \<and> o_userId e = u \<and> o_roomId e = rid) (override_store w0))
      (userStore_getRoomOverride E p u rid)"
    unfolding userStore_getRoomOverride_def
    by (intro quiet_callr) (simp_all add: no_writes_def)
  show ?thesis
    unfolding updateRoomOverride_def Let_def
    apply (rule quiet_try_catch)
     apply (rule quiet_bnd [OF look])
     apply simp
     apply (rule quiet_bnd [OF quiet_reconciler [OF assms]])
     apply (simp add: quiet_ret)
    apply (rule quiet_logg)
    apply simp
    done
qed

lemma quiet_updateRoomOverrides:
  assumes "\<forall>(rid, ov) \<in> set ovs.
             empty_diff E
               (map_option IProfileDbEntry.truncate
                  (find (\<lambda>e. o_puppetId e = p \<and> o_userId e = u \<and> o_roomId e = rid)
                     (override_store w0)))
               ov (namePatterns_userOverride E) c"
  shows "quiet w0 (\<lambda>x. True) (updateRoomOverrides E c p u ovs user)"
  using assms
proof (induction ovs)
  case Nil
  show ?case by (simp add: quiet_ret)
next
  case (Cons a ovs)
  obtain rid ov where a: "a = (rid, ov)"
    by (cases a)
  from Cons.prems have 1: "quiet w0 (\<lambda>x. True) (updateRoomOverride E c p u rid ov (Some user))"
    unfolding a by (intro quiet_updateRoomOverride) simp
  from Cons have 2: "quiet w0 (\<lambda>x. True) (updateRoomOverrides E c p u ovs user)"
    by simp
  show ?case
    unfolding a updateRoomOverrides.simps
    by (rule quiet_bnd [OF quiet_floating [OF 1]]) (rule 2)
qed

lemma quiet_getClient_background:
  assumes "\<forall>(rid, ov) \<in> set (case roomOverrides data of None \<Rightarrow> [] | Some ovs \<Rightarrow> ovs).
             empty_diff E
               (map_option IProfileDbEntry.truncate
                  (find (\<lambda>e. o_puppetId e = puppetId_u data \<and> o_userId e = userId data
                              \<and> o_roomId e = rid)
                     (override_store w0)))
               ov (namePatterns_userOverride E) c"
  shows "quiet w0 (\<lambda>x. True) (getClient_background E c data user [])"
proof (cases "roomOverrides data")
  case None
  then show ?thesis
    by (simp add: getClient_background_def bnd_ret quiet_floating [OF quiet_ret])
next
  case (Some ovs)
  with assms have "quiet w0 (\<lambda>x. True)
      (updateRoomOverrides E c (puppetId_u data) (userId data) ovs user)"
    by (intro quiet_updateRoomOverrides) simp
  then have "quiet w0 (\<lambda>x. True)
      (bnd (bnd (updateRoomOverrides E c (puppetId_u data) (userId data) ovs user)
              (\<lambda>_. ret (map fst ovs))) (\<lambda>roomIdsNotToUpdate. ret ()))"
    by (intro quiet_bnd [where P = "\<lambda>x. True"] quiet_ret) simp_all
  with Some show ?thesis
    by (simp add: getClient_background_def bnd_ret quiet_floating)
qed

lemma quiet_getClient_catch: "quiet w0 Q (getClient_catch k err)"
  unfolding getClient_catch_def
  by (auto intro!: quiet_bnd [where P = "\<lambda>x. True"] quiet_logg quiet_modify quiet_throw
      no_writes_locks)

lemma quiet_getClient_reconcile:
  assumes "empty_diff E old (IRemoteProfile.truncate data) (namePatterns_user E)
             (IntentClient (ghost_userId E (puppetId_u data) (userId data)))"
    and "\<forall>(rid, ov) \<in> set (case roomOverrides data of None \<Rightarrow> [] | Some ovs \<Rightarrow> ovs).
             empty_diff E
               (map_option IProfileDbEntry.truncate
                  (find (\<lambda>e. o_puppetId e = puppetId_u data \<and> o_userId e = userId data
                              \<and> o_roomId e = rid)
                     (override_store w0)))
               ov (namePatterns_userOverride E)
               (IntentClient (ghost_userId E (puppetId_u data) (userId data)))"
  shows "quiet w0 (\<lambda>x. True) (getClient_reconcile E k data user False old)"
  unfolding getClient_reconcile_def Let_def
  apply (rule quiet_bnd [OF quiet_call])
   apply simp
  apply (rule quiet_bnd [OF quiet_reconciler [OF assms(1)]])
  apply (simp add: bnd_ret)
  apply (rule quiet_bnd [where P = "\<lambda>x. True"])
   apply (rule quiet_modify)
   apply (simp add: no_writes_locks)
  apply (rule quiet_bnd [OF quiet_getClient_background [OF assms(2)]])
  apply (simp add: quiet_ret)
  done

lemma quiet_getClient:
  assumes "find (\<lambda>e. u_puppetId e = puppetId_u data \<and> u_userId e = userId data) (user_store w0)
             = Some user"
    and "empty_diff E (Some (IProfileDbEntry.truncate user)) (IRemoteProfile.truncate data)
           (namePatterns_user E)
           (IntentClient (ghost_userId E (puppetId_u data) (userId data)))"
    and "\<forall>(rid, ov) \<in> set (case roomOverrides data of None \<Rightarrow> [] | Some ovs \<Rightarrow> ovs).
             empty_diff E
               (map_option IProfileDbEntry.truncate
                  (find (\<lambda>e. o_puppetId e = puppetId_u data \<and> o_userId e = userId data
                              \<and> o_roomId e = rid)
                     (override_store w0)))
               ov (namePatterns_userOverride E)
               (IntentClient (ghost_userId E (puppetId_u data) (userId data)))"
  shows "quiet w0 (\<lambda>x. True) (getClient E data)"
proof -
  have look: "quiet w0 (\<lambda>x. x = Some user) (userStore_get E (puppetId_u data) (userId data))"
    unfolding userStore_get_def
    using assms(1) by (intro quiet_callr) (simp_all add: no_writes_def)
  have ghost: "quiet w0 (\<lambda>x. True) (getClient_ghost E data)"
    unfolding getClient_ghost_def Let_def
    apply (rule quiet_bnd [where P = "\<lambda>x. True"])
     apply (rule quiet_modify)
     apply (simp add: no_writes_locks)
    apply (rule quiet_try_catch)
     apply (rule quiet_bnd [OF look])
     apply (simp add: quiet_getClient_reconcile [OF assms(2,3)])
    apply (rule quiet_getClient_catch)
    done
  show ?thesis
    unfolding getClient_def provisioner_get_def
    apply (rule quiet_bnd [where P = "\<lambda>x. True"])
     apply (rule quiet_callr)
      apply simp
     apply simp
    apply (rule quiet_bnd [where P = "\<lambda>x. True"])
     apply (auto intro!: quiet_ret quiet_getPuppetClient ghost split: option.splits)
    done
qed


text \<open>
  Claim C7. For a room with a stored mapping: when the reconciler's diff of the stored
  against the observed profile is empty (no name, no avatar reference, nothing written by
  the reconciler itself), and the request's topic and group are absent or equal to the
  stored ones, \<open>getMxid\<close> makes no call that writes and leaves persistence as it was,
  whether its calls answer or are rejected; when it returns, it returns the stored room id
  with \<open>created = false\<close>. For a ghost with a stored mapping: when the diff of the stored
  against the observed profile is empty, and so is the diff of every per-room override
  the request carries against the stored override of that room, \<open>getClient\<close> makes no
  call that writes and leaves persistence as it was. The model runs the override updates
  \<open>getClient\<close> starts one after the other; the last part says that each of them, started
  from any world reached without a write, writes nothing, in whatever order they run.
\<close>

theorem unchanged_profile_no_writes:
  "(find (\<lambda>e. r_puppetId e = puppetId data \<and> r_roomId e = roomId data) (room_store w) = Some room
      \<and> (\<forall>c. empty_diff E (Some (IProfileDbEntry.truncate room)) (IRemoteProfile.truncate data)
                (namePatterns_room E) c)
      \<and> (topic data = None \<or> topic data = r_topic room)
      \<and> (groupId data = None \<or> groupId data = r_groupId room)
    \<longrightarrow> no_writes w (snd (getMxid E data client0 invites doCreate w))
        \<and> (\<forall>x. fst (getMxid E data client0 invites doCreate w) = Inr x
              \<longrightarrow> x = (mxid room, False)))
 \<and> (find (\<lambda>e. u_puppetId e = puppetId_u udata \<and> u_userId e = userId udata) (user_store w)
        = Some user
      \<and> empty_diff E (Some (IProfileDbEntry.truncate user)) (IRemoteProfile.truncate udata)
           (namePatterns_user E)
           (IntentClient (ghost_userId E (puppetId_u udata) (userId udata)))
      \<and> (\<forall>(rid, ov) \<in> set (case roomOverrides udata of None \<Rightarrow> [] | Some ovs \<Rightarrow> ovs).
            empty_diff E
              (map_option IProfileDbEntry.truncate
                 (find (\<lambda>e. o_puppetId e = puppetId_u udata \<and> o_userId e = userId udata
                             \<and> o_roomId e = rid)
                    (override_store w)))
              ov (namePatterns_userOverride E)
              (IntentClient (ghost_userId E (puppetId_u udata) (userId udata))))
    \<longrightarrow> no_writes w (snd (getClient E udata w))
        \<and> (\<forall>(rid, ov) \<in> set (case roomOverrides udata of None \<Rightarrow> [] | Some ovs \<Rightarrow> ovs).
              \<forall>orig w'. no_writes w w'
                \<longrightarrow> no_writes w
                      (snd (updateRoomOverride E
                              (IntentClient (ghost_userId E (puppetId_u udata) (userId udata)))
                              (puppetId_u udata) (userId udata) rid ov orig w'))))"
proof (intro conjI impI; elim conjE)
  assume "find (\<lambda>e. r_puppetId e = puppetId data \<and> r_roomId e = roomId data) (room_store w) = Some room"
    and "\<forall>c. empty_diff E (Some (IProfileDbEntry.truncate room)) (IRemoteProfile.truncate data)
                (namePatterns_room E) c"
    and "topic data = None \<or> topic data = r_topic room"
    and "groupId data = None \<or> groupId data = r_groupId room"
  then have q: "quiet w (\<lambda>x. x = (mxid room, False)) (getMxid E data client0 invites doCreate)"
    by (intro quiet_getMxid) simp_all
  from q no_writes_refl [of w]
  show "no_writes w (snd (getMxid E data client0 invites doCreate w))"
    unfolding quiet_def by blast
  from q no_writes_refl [of w]
  show "\<forall>x. fst (getMxid E data client0 invites doCreate w) = Inr x
              \<longrightarrow> x = (mxid room, False)"
    unfolding quiet_def by blast
next
  let ?c = "IntentClient (ghost_userId E (puppetId_u udata) (userId udata))"
  assume u: "find (\<lambda>e. u_puppetId e = puppetId_u udata \<and> u_userId e = userId udata) (user_store w)
        = Some user"
    and d: "empty_diff E (Some (IProfileDbEntry.truncate user)) (IRemoteProfile.truncate udata)
           (namePatterns_user E) ?c"
    and o: "\<forall>(rid, ov) \<in> set (case roomOverrides udata of None \<Rightarrow> [] | Some ovs \<Rightarrow> ovs).
            empty_diff E
              (map_option IProfileDbEntry.truncate
                 (find (\<lambda>e. o_puppetId e = puppetId_u udata \<and> o_userId e = userId udata
                             \<and> o_roomId e = rid)
                    (override_store w)))
              ov (namePatterns_userOverride E) ?c"
  from quiet_getClient [OF u d o] no_writes_refl [of w]
  show "no_writes w (snd (getClient E udata w))"
    unfolding quiet_def by blast
  show "\<forall>(rid, ov) \<in> set (case roomOverrides udata of None \<Rightarrow> [] | Some ovs \<Rightarrow> ovs).
              \<forall>orig w'. no_writes w w'
                \<longrightarrow> no_writes w
                      (snd (updateRoomOverride E ?c (puppetId_u udata) (userId udata) rid ov orig w'))"
  proof (intro ballI allI impI, clarify)
    fix rid ov orig w'
    assume "(rid, ov) \<in> set (case roomOverrides udata of None \<Rightarrow> [] | Some ovs \<Rightarrow> ovs)"
      and w': "no_writes w w'"
    with o have "empty_diff E
              (map_option IProfileDbEntry.truncate
                 (find (\<lambda>e. o_puppetId e = puppetId_u udata \<and> o_userId e = userId udata
                             \<and> o_roomId e = rid)
                    (override_store w)))
              ov (namePatterns_userOverride E) ?c"
      by blast
    from quiet_updateRoomOverride [OF this, of orig] w'
    show "no_writes w
            (snd (updateRoomOverride E ?c (puppetId_u udata) (userId udata) rid ov orig w'))"
      unfolding quiet_def by blast
  qed
qed

lemma ex_empty_diff:
  assumes "name new = None \<or> name new = db_name old" and "avatarUrl new = None"
  shows "empty_diff (example_env f hr hu) (Some old) new pat c"
proof (cases "name new")
  case None
  with assms(2) show ?thesis
    by (simp add: empty_diff_def example_env_def example_reconciler_def ret_def Let_def)
next
  case (Some n)
  with assms(1) have "db_name old = Some n"
    by simp
  with Some assms(2) show ?thesis
    by (simp add: empty_diff_def example_env_def example_reconciler_def ret_def Let_def)
qed

theorem unchanged_profile_no_writes_witness:
  "no_writes example_nicked
     (snd (getMxid (example_env never_fails None None) example_same_room None None True
             example_nicked))
 \<and> getMxid (example_env never_fails None None) example_same_room None None True example_nicked
     = (Inr (''!abc:example.org'', False),
        example_nicked\<lparr>calls := [RoomStore_getByRemote 3 ''chan1'',
                                  RoomStore_getRoomOp ''!abc:example.org'']\<rparr>)
 \<and> no_writes example_nicked
     (snd (getClient (example_env never_fails None None) example_nick_request example_nicked))
 \<and> getClient (example_env never_fails None None) example_nick_request example_nicked
     = (Inr (IntentClient ''@_bridge_3_u1:hs''),
        example_nicked\<lparr>calls := [Provisioner_get 3, UserStore_get 3 ''u1'',
                                  Intent_ensureRegistered ''@_bridge_3_u1:hs'',
                                  UserStore_getRoomOverride 3 ''u1'' ''chan1'']\<rparr>)"
proof -
  let ?E = "example_env never_fails None None"
  have w: "room_store example_nicked = [roomStore_newData ''!abc:example.org'' ''chan1'' 3]"
      "user_store example_nicked = [example_user]"
      "override_store example_nicked = [example_nick_entry]"
      "calls example_nicked = []" "chan_op example_nicked = Map.empty"
      "mxidLock example_nicked = {}" "clientLock example_nicked = {}"
    by (simp_all add: example_nicked_def example_bridge_def empty_world_def)
  have r: "puppetId example_same_room = 3" "roomId example_same_room = ''chan1''"
      "topic example_same_room = None" "groupId example_same_room = None"
      "name (IRemoteProfile.truncate example_same_room) = None"
      "avatarUrl (IRemoteProfile.truncate example_same_room) = None"
    by (simp_all add: example_same_room_def mk_IRemoteRoom_def IRemoteProfile.truncate_def)
  have u: "puppetId_u example_nick_request = 3" "userId example_nick_request = ''u1''"
      "roomOverrides example_nick_request = Some [(''chan1'', example_nick)]"
      "name (IRemoteProfile.truncate example_nick_request) = Some ''Una''"
      "avatarUrl (IRemoteProfile.truncate example_nick_request) = None"
      "db_name (IProfileDbEntry.truncate example_user) = Some ''Una''"
      "u_puppetId example_user = 3" "u_userId example_user = ''u1''"
      "name example_nick = Some ''Nick''" "avatarUrl example_nick = None"
      "db_name (IProfileDbEntry.truncate example_nick_entry) = Some ''Nick''"
      "o_puppetId (userStore_newRoomOverrideData 3 ''u1'' ''chan1'') = 3"
      "o_userId (userStore_newRoomOverrideData 3 ''u1'' ''chan1'') = ''u1''"
      "o_roomId (userStore_newRoomOverrideData 3 ''u1'' ''chan1'') = ''chan1''"
    by (simp_all add: example_nick_request_def mk_IRemoteUser_def IRemoteProfile.truncate_def
        IProfileDbEntry.truncate_def example_user_def userStore_newData_def example_nick_def
        userStore_newRoomOverrideData_def)
  note t = unchanged_profile_no_writes [where E = ?E and w = example_nicked
      and data = example_same_room and room = "roomStore_newData ''!abc:example.org'' ''chan1'' 3"
      and ?client0.0 = None and invites = None and doCreate = True
      and udata = example_nick_request and user = example_user]
  have 1: "no_writes example_nicked
     (snd (getMxid ?E example_same_room None None True example_nicked))"
    using t [THEN conjunct1]
    by (simp add: w r ex_empty_diff roomStore_newData_def IProfileDbEntry.truncate_def)
  have 2: "no_writes example_nicked (snd (getClient ?E example_nick_request example_nicked))"
    using t [THEN conjunct2]
    by (simp add: w u ex_empty_diff)
  have 3: "getMxid ?E example_same_room None None True example_nicked
     = (Inr (''!abc:example.org'', False),
        example_nicked\<lparr>calls := [RoomStore_getByRemote 3 ''chan1'',
                                  RoomStore_getRoomOp ''!abc:example.org'']\<rparr>)"
    by (simp add: getMxid_def getMxid_existing_def getMxid_update_def getMxid_finish_def
        updateGroups_def getRoomOp_def roomStore_getByRemote_def roomStore_getRoomOp_def
        io_defs Let_def truthy_def Lock_set_def Lock_wait_def Lock_release_def
        example_env_def example_reconciler_def never_fails_def w r roomStore_newData_def
        IProfileDbEntry.truncate_def assign_profile_def)
  have 4: "getClient ?E example_nick_request example_nicked
     = (Inr (IntentClient ''@_bridge_3_u1:hs''),
        example_nicked\<lparr>calls := [Provisioner_get 3, UserStore_get 3 ''u1'',
                                  Intent_ensureRegistered ''@_bridge_3_u1:hs'',
                                  UserStore_getRoomOverride 3 ''u1'' ''chan1'']\<rparr>)"
    by (simp add: getClient_def getClient_ghost_def getClient_reconcile_def
        getClient_background_def updateRoomOverride_def provisioner_get_def userStore_get_def
        userStore_getRoomOverride_def ghost_userId_def floating_def
        io_defs Let_def truthy_def Lock_set_def Lock_wait_def Lock_release_def
        example_env_def example_reconciler_def never_fails_def w
        String_nat.simps userStore_newRoomOverrideData_def example_nick_request_def
        example_nick_def example_user_def mk_IRemoteUser_def userStore_newData_def
        IProfileDbEntry.truncate_def IRemoteProfile.truncate_def assign_profile_def)
  from 1 2 3 4 show ?thesis
    by simp
qed

subsection \<open>Two calls for the same remote room\<close>

lemma creations_calls [simp]:
  "creations (w\<lparr>calls := calls w @ evs\<rparr>) = creations w + length (filter room_creation evs)"
  "creations (w\<lparr>mxidLock := L\<rparr>) = creations w"
  "creations (w\<lparr>room_store := rs\<rparr>) = creations w"
  "creations (w\<lparr>chan_op := co\<rparr>) = creations w"
  by (simp_all add: creations_def)

lemma mappings_frame [simp]:
  "mappings p r (w\<lparr>calls := cs\<rparr>) = mappings p r w"
  "mappings p r (w\<lparr>mxidLock := L\<rparr>) = mappings p r w"
  "mappings p r (w\<lparr>chan_op := co\<rparr>) = mappings p r w"
  by (simp_all add: mappings_def)





lemma assign_profile_entry [simp]:
  "r_topic (assign_profile room upd) = r_topic room"
  "r_groupId (assign_profile room upd) = r_groupId room"
  "mxid (assign_profile room upd) = mxid room"
  "r_puppetId (assign_profile room upd) = r_puppetId room"
  "r_roomId (assign_profile room upd) = r_roomId room"
  by (simp_all add: assign_profile_def)









lemma step_AtWait:
  "step_task (task_at E d c i AtWait) w
     = (if lockKey (puppetId d) (roomId d) \<in> mxidLock w then (task_at E d c i AtWait, w)
        else (task_at E d c i AtLookup,
              w\<lparr>mxidLock := insert (lockKey (puppetId d) (roomId d)) (mxidLock w)\<rparr>))"
  by (simp add: step_task_def getMxid_task_def acquire_def Lock_set_def)










declare task_at.simps [simp del]








lemma leads_waiting:
  assumes "leads p r n a AtWait w" and "lockKey p r \<in> mxidLock w"
    and "puppetId d = p" and "roomId d = r"
  shows "step_task (task_at E d c i AtWait) w = (task_at E d c i AtWait, w)"
  using assms by (simp add: step_AtWait)












lemma run_alone_atomic:
  "run_alone (catch_task (then_task (atomic m) k) h) w
     = (case m w of (Inl e, w') \<Rightarrow> run_alone (h e) w'
                  | (Inr x, w') \<Rightarrow> run_alone (catch_task (k x) h) w')"
  "run_alone (atomic m) w = Some (m w)"
  by (simp_all add: atomic_def split: prod.splits sum.splits)

lemma try_catch_bnd_split:
  "try_catch (bnd m f) h w
     = (case m w of (Inl e, w') \<Rightarrow> h e w' | (Inr x, w') \<Rightarrow> try_catch (f x) h w')"
  by (simp add: try_catch_def bnd_def split: prod.splits sum.splits)

lemma getMxid_finish_task_alone:
  "run_alone (catch_task (getMxid_finish_task E k m created room doUpdate rg ag)
                (getMxid_catch_task k)) w
     = Some (try_catch (getMxid_finish E k m created room doUpdate rg ag) (getMxid_catch k) w)"
  by (simp add: getMxid_finish_task_def getMxid_release_task_def getMxid_groups_task_def
      getMxid_catch_task_def getMxid_finish_def run_alone_atomic try_catch_def bnd_def ret_def
      split: prod.splits sum.splits)

text \<open>Run alone, with its key free, the task is the call: \<open>getMxid_task\<close> and \<open>getMxid\<close>
  are the same code.\<close>

lemma getMxid_task_alone:
  assumes "lockKey (puppetId data) (roomId data) \<notin> mxidLock w"
  shows "run_alone (getMxid_task E data client0 invites doCreate) w
       = Some (getMxid E data client0 invites doCreate w)"
proof -
  let ?k = "lockKey (puppetId data) (roomId data)"
  have "run_alone (getMxid_locked_task E data client0 invites doCreate) w'
      = Some (try_catch
          (let client = (case client0 of None \<Rightarrow> BotClient | Some c \<Rightarrow> c) in
           bnd (roomStore_getByRemote E (puppetId data) (roomId data)) (\<lambda>room0.
           case room0 of
             None \<Rightarrow>
               if \<not> doCreate
               then bnd (modify (\<lambda>w. w\<lparr>mxidLock := Lock_release ?k (mxidLock w)\<rparr>)) (\<lambda>_.
                    ret ([], False))
               else
                 bnd (createRoom_override E data) (\<lambda>data'.
                 getMxid_new E ?k data' client invites)
           | Some room \<Rightarrow> getMxid_existing E ?k data client room))
          (getMxid_catch ?k) w')" for w'
    by (simp add: getMxid_locked_task_def getMxid_hook_task_def getMxid_new_task_def
        getMxid_existing_task_def Let_def run_alone_atomic try_catch_bnd_split
        getMxid_new_def getMxid_existing_def getMxid_finish_task_alone getMxid_catch_task_def
        split: prod.splits sum.splits option.splits)
      (simp add: try_catch_def modify_def ret_def bnd_def)
  with assms show ?thesis
    by (simp add: getMxid_task_def acquire_def getMxid_def Let_def bnd_def modify_def Lock_wait_def)
qed









end
